theory Spec2Isabelle
  imports Complex_Main
begin

section \<open>Scalars, vectors and matrices\<close>

text \<open>
  The solver computes with the scalar type \<open>decimal\<close> (a C++ floating-point type), with
  \<open>Vector3\<close> and with \<open>Matrix3x3\<close>. Their declarations are not part of the sources at hand
  (the solver includes them from the mathematics headers), so they are modelled here.
  Scalars are idealised as real numbers: rounding, infinities and NaN are outside this
  development, and every statement below is a statement about the solver's arithmetic
  read over the reals.
\<close>

type_synonym decimal = real

text \<open>Modelled from the spec: "vectors are 3-component" over the scalar type; the
  componentwise sum, difference, negation and zero vector of \<open>Vector3\<close>.\<close>

datatype Vector3 = Vector3 (vx: decimal) (vy: decimal) (vz: decimal)

instantiation Vector3 :: ab_group_add
begin

definition zero_Vector3 :: Vector3 where
  "zero_Vector3 = Vector3 0 0 0"

definition plus_Vector3 :: "Vector3 \<Rightarrow> Vector3 \<Rightarrow> Vector3" where
  "plus_Vector3 a b = Vector3 (vx a + vx b) (vy a + vy b) (vz a + vz b)"

definition minus_Vector3 :: "Vector3 \<Rightarrow> Vector3 \<Rightarrow> Vector3" where
  "minus_Vector3 a b = Vector3 (vx a - vx b) (vy a - vy b) (vz a - vz b)"

definition uminus_Vector3 :: "Vector3 \<Rightarrow> Vector3" where
  "uminus_Vector3 a = Vector3 (- vx a) (- vy a) (- vz a)"

instance
  by standard
     (simp_all add: zero_Vector3_def plus_Vector3_def minus_Vector3_def uminus_Vector3_def)

end

text \<open>Modelled from the spec: the product of a scalar and a vector (the C++
  \<open>decimal * Vector3\<close> and \<open>Vector3 * decimal\<close>), the quotient \<open>Vector3 / decimal\<close>, the dot
  product, the cross product and the Euclidean length of \<open>Vector3\<close>.\<close>

definition smul :: "decimal \<Rightarrow> Vector3 \<Rightarrow> Vector3" where
  "smul k a = Vector3 (k * vx a) (k * vy a) (k * vz a)"

definition sdiv :: "Vector3 \<Rightarrow> decimal \<Rightarrow> Vector3" where
  "sdiv a k = Vector3 (vx a / k) (vy a / k) (vz a / k)"

definition dot :: "Vector3 \<Rightarrow> Vector3 \<Rightarrow> decimal" where
  "dot a b = vx a * vx b + vy a * vy b + vz a * vz b"

definition cross :: "Vector3 \<Rightarrow> Vector3 \<Rightarrow> Vector3" where
  "cross a b = Vector3 (vy a * vz b - vz a * vy b)
                       (vz a * vx b - vx a * vz b)
                       (vx a * vy b - vy a * vx b)"

definition vlength :: "Vector3 \<Rightarrow> decimal" where
  "vlength a = sqrt (dot a a)"

text \<open>Modelled from the spec: "matrices are 3x3"; a \<open>Matrix3x3\<close> is its three rows, with
  the entrywise sum, the zero matrix (\<open>setToZero\<close>) and the product with a vector.\<close>

datatype Matrix3x3 = Matrix3x3 (row0: Vector3) (row1: Vector3) (row2: Vector3)

instantiation Matrix3x3 :: "{zero, plus}"
begin

definition zero_Matrix3x3 :: Matrix3x3 where
  "zero_Matrix3x3 = Matrix3x3 0 0 0"

definition plus_Matrix3x3 :: "Matrix3x3 \<Rightarrow> Matrix3x3 \<Rightarrow> Matrix3x3" where
  "plus_Matrix3x3 a b = Matrix3x3 (row0 a + row0 b) (row1 a + row1 b) (row2 a + row2 b)"

instance ..

end

definition mvmul :: "Matrix3x3 \<Rightarrow> Vector3 \<Rightarrow> Vector3" where
  "mvmul m a = Vector3 (dot (row0 m) a) (dot (row1 m) a) (dot (row2 m) a)"

section \<open>The objects the solver is given\<close>

text \<open>
  Bodies, contact points, contact manifolds and islands belong to the rest of the engine.
  The solver reads them through accessors and writes them through setters; a record field
  named after the accessor stands for the attribute, and a record update for the setter.
  A \<open>RigidBody*\<close> is an address (\<open>0\<close> is \<open>nullptr\<close>) into the island's body objects.
\<close>

datatype BodyType = STATIC | KINEMATIC | DYNAMIC

record RigidBody =
  mCenterOfMassWorld :: Vector3
  mMassInverse :: decimal
  getInertiaTensorInverseWorld :: Matrix3x3
  getType :: BodyType

record ContactPoint =
  getBody1 :: nat
  getBody2 :: nat
  getWorldPointOnBody1 :: Vector3
  getWorldPointOnBody2 :: Vector3
  getNormal :: Vector3
  getPenetrationDepth :: decimal
  getIsRestingContact :: bool
  getPenetrationImpulse :: decimal

record ContactManifold =
  contactPoints :: "ContactPoint list"
  getFrictionVector1 :: Vector3
  getFrictionVector2 :: Vector3
  getFrictionImpulse1 :: decimal
  getFrictionImpulse2 :: decimal
  getFrictionTwistImpulse :: decimal
  getRollingResistanceImpulse :: Vector3

record Island =
  getNbBodies :: nat
  rigidBodies :: "nat \<rightharpoonup> RigidBody"
  getContactManifolds :: "ContactManifold list"

section \<open>The solver's own records\<close>

text \<open>
  A \<open>ContactPoint*\<close> held by a penetration constraint is the pair (manifold index, contact
  index) of the point in the island; a \<open>ContactManifold*\<close> is the manifold's index.
\<close>

record PenetrationConstraint =
  indexBody1 :: nat
  indexBody2 :: nat
  inverseInertiaTensorBody1 :: Matrix3x3
  inverseInertiaTensorBody2 :: Matrix3x3
  massInverseBody1 :: decimal
  massInverseBody2 :: decimal
  restitutionFactor :: decimal
  indexFrictionConstraint :: nat
  contactPoint :: "nat \<times> nat"
  r1 :: Vector3
  r2 :: Vector3
  normal :: Vector3
  penetrationDepth :: decimal
  isRestingContact :: bool
  penetrationImpulse :: decimal
  r1CrossN :: Vector3
  r2CrossN :: Vector3
  inversePenetrationMass :: decimal
  restitutionBias :: decimal
  penetrationSplitImpulse :: decimal

record FrictionConstraint =
  indexBody1 :: nat
  indexBody2 :: nat
  contactManifold :: nat
  inverseInertiaTensorBody1 :: Matrix3x3
  inverseInertiaTensorBody2 :: Matrix3x3
  massInverseBody1 :: decimal
  massInverseBody2 :: decimal
  frictionCoefficient :: decimal
  rollingResistanceFactor :: decimal
  hasAtLeastOneRestingContactPoint :: bool
  frictionPointBody1 :: Vector3
  frictionPointBody2 :: Vector3
  normal :: Vector3
  inverseRollingResistance :: Matrix3x3
  r1Friction :: Vector3
  r2Friction :: Vector3
  oldFrictionVector1 :: Vector3
  oldFrictionVector2 :: Vector3
  friction1Impulse :: decimal
  friction2Impulse :: decimal
  frictionTwistImpulse :: decimal
  rollingResistanceImpulse :: Vector3
  frictionVector1 :: Vector3
  frictionVector2 :: Vector3
  r1CrossT1 :: Vector3
  r1CrossT2 :: Vector3
  r2CrossT1 :: Vector3
  r2CrossT2 :: Vector3
  inverseFriction1Mass :: decimal
  inverseFriction2Mass :: decimal
  inverseTwistFrictionMass :: decimal
  totalPenetrationImpulse :: decimal

record ContactManifoldSolver =
  externalContactManifold :: nat

text \<open>
  The solver object together with the memory its four velocity pointers address. Each
  pointer is the address of the array's first \<open>Vector3\<close> (\<open>0\<close> is \<open>nullptr\<close>); the cell of
  body index \<open>i\<close> of an array at \<open>p\<close> is \<open>velocityMemory (p + i)\<close>. The three constraint
  arrays are lists whose length is the number of slots allocated.
\<close>

record ContactSolver =
  mSplitLinearVelocities :: nat
  mSplitAngularVelocities :: nat
  mLinearVelocities :: nat
  mAngularVelocities :: nat
  velocityMemory :: "nat \<Rightarrow> Vector3"
  mContactConstraints :: "ContactManifoldSolver list"
  mPenetrationConstraints :: "PenetrationConstraint list"
  mFrictionConstraints :: "FrictionConstraint list"
  mNbContactManifolds :: nat
  mNbPenetrationConstraints :: nat
  mNbFrictionConstraints :: nat
  mTimeStep :: decimal
  mMapBodyToConstrainedVelocityIndex :: "nat \<rightharpoonup> nat"
  mIsWarmStartingActive :: bool
  mIsSplitImpulseActive :: bool
  mIsSolveFrictionAtContactManifoldCenterActive :: bool

section \<open>What the solver takes from the rest of the engine\<close>

text \<open>
  The solver uses two engine constants, the three material mixing rules, four operations of
  the mathematics library and the vector \<open>clamp\<close>, none of which is defined in the sources
  at hand; they are parameters of the model. So is what \<open>new T[n]\<close> leaves in slot \<open>k\<close> of
  a freshly allocated constraint array: the struct declarations (and whether they have
  constructors) are in the solver's header, which is not at hand either.
\<close>

record Env =
  RESTITUTION_VELOCITY_THRESHOLD :: decimal
  MACHINE_EPSILON :: decimal
  computeMixedRestitutionFactor :: "RigidBody \<Rightarrow> RigidBody \<Rightarrow> decimal"
  computeMixedFrictionCoefficient :: "RigidBody \<Rightarrow> RigidBody \<Rightarrow> decimal"
  computeMixedRollingResistance :: "RigidBody \<Rightarrow> RigidBody \<Rightarrow> decimal"
  getInverse :: "Matrix3x3 \<Rightarrow> Matrix3x3"
  normalize :: "Vector3 \<Rightarrow> Vector3"
  getUnit :: "Vector3 \<Rightarrow> Vector3"
  getOneUnitOrthogonalVector :: "Vector3 \<Rightarrow> Vector3"
  clamp :: "Vector3 \<Rightarrow> decimal \<Rightarrow> Vector3"
  newContactManifoldSolver :: "nat \<Rightarrow> ContactManifoldSolver"
  newPenetrationConstraint :: "nat \<Rightarrow> PenetrationConstraint"
  newFrictionConstraint :: "nat \<Rightarrow> FrictionConstraint"

text \<open>The constants the solver defines itself.\<close>

definition BETA :: decimal where
  "BETA = 2 / 10"

definition BETA_SPLIT_IMPULSE :: decimal where
  "BETA_SPLIT_IMPULSE = 2 / 10"

definition SLOP :: decimal where
  "SLOP = 1 / 100"

text \<open>
  What stops a run: a failed \<open>assert\<close>, an access outside an allocated constraint array,
  a body missing from the body-to-index map, and a pointer to no object.
\<close>

datatype error = AssertionFailed | OutOfBounds | UnmappedBody | InvalidPointer

text \<open>A \<open>for\<close> loop over the indices \<open>is\<close>, stopping at the first error.\<close>

fun forEach :: "(nat \<Rightarrow> 'a \<Rightarrow> error + 'a) \<Rightarrow> nat list \<Rightarrow> 'a \<Rightarrow> error + 'a" where
  "forEach body [] s = Inr s"
| "forEach body (i # is) s =
     (case body i s of Inl e \<Rightarrow> Inl e | Inr s' \<Rightarrow> forEach body is s')"

text \<open>The product of two \<open>uint\<close> values, which wraps at \<open>2 ^ 32\<close>.\<close>

definition uint_times :: "nat \<Rightarrow> nat \<Rightarrow> nat" where
  "uint_times a b = (a * b) mod 2 ^ 32"

text \<open>\<open>p[i] += d\<close> on the velocity memory, for an array at address \<open>p\<close>.\<close>

definition addTo :: "nat \<Rightarrow> Vector3 \<Rightarrow> ContactSolver \<Rightarrow> ContactSolver" where
  "addTo a d s = s\<lparr>velocityMemory := (velocityMemory s)(a := velocityMemory s a + d)\<rparr>"

section \<open>initializeForIsland\<close>

text \<open>
  \<open>computeFrictionVectors\<close>: the two tangent vectors of a friction constraint from the
  velocity difference at the friction point.
\<close>

definition computeFrictionVectors ::
  "Env \<Rightarrow> Vector3 \<Rightarrow> FrictionConstraint \<Rightarrow> error + FrictionConstraint" where
  "computeFrictionVectors env deltaVelocity frictionConstraint =
     (if \<not> vlength (FrictionConstraint.normal frictionConstraint) > MACHINE_EPSILON env
      then Inl AssertionFailed
      else
        let normalVelocity = smul (dot deltaVelocity (FrictionConstraint.normal frictionConstraint))
                                  (FrictionConstraint.normal frictionConstraint);
            tangentVelocity = deltaVelocity - normalVelocity;
            lengthTangenVelocity = vlength tangentVelocity;
            t1 = (if lengthTangenVelocity > MACHINE_EPSILON env
                  then sdiv tangentVelocity lengthTangenVelocity
                  else getOneUnitOrthogonalVector env (FrictionConstraint.normal frictionConstraint))
        in Inr (frictionConstraint
             \<lparr>frictionVector1 := t1,
              frictionVector2 := getUnit env (cross (FrictionConstraint.normal frictionConstraint) t1)\<rparr>))"

text \<open>
  The body of the loop over the contact points of manifold \<open>i\<close>, for contact point \<open>c\<close>.
  It fills slot \<open>mNbPenetrationConstraints\<close> of the penetration array and accumulates into
  slot \<open>mNbFrictionConstraints\<close> of the friction array. The statement
  \<open>massPenetration > 0 ? inversePenetrationMass = 1 / massPenetration : 0\<close> is a conditional
  expression whose second operand is the assignment: when the condition is false nothing is
  assigned, and the field keeps what the slot held.
\<close>

definition initializeContactPoint ::
  "Env \<Rightarrow> RigidBody \<Rightarrow> RigidBody \<Rightarrow> nat \<Rightarrow> nat \<Rightarrow> decimal \<Rightarrow> nat \<Rightarrow> nat \<Rightarrow>
   ContactSolver \<times> Island \<Rightarrow> error + ContactSolver \<times> Island" where
  "initializeContactPoint env body1 body2 indexBody1' indexBody2' restitutionFactor' i c st =
     (let s = fst st; island = snd st;
          k = mNbPenetrationConstraints s;
          f = mNbFrictionConstraints s
      in if \<not> k < length (mPenetrationConstraints s) then Inl OutOfBounds
      else
        let externalManifold = getContactManifolds island ! i;
            externalContact = contactPoints externalManifold ! c;
            slot = mPenetrationConstraints s ! k;
            fc = mFrictionConstraints s ! f;
            x1 = mCenterOfMassWorld body1;
            x2 = mCenterOfMassWorld body2;
            v1 = velocityMemory s (mLinearVelocities s + indexBody1');
            w1 = velocityMemory s (mAngularVelocities s + indexBody1');
            v2 = velocityMemory s (mLinearVelocities s + indexBody2');
            w2 = velocityMemory s (mAngularVelocities s + indexBody2');
            I1 = getInertiaTensorInverseWorld body1;
            I2 = getInertiaTensorInverseWorld body2;
            p1 = getWorldPointOnBody1 externalContact;
            p2 = getWorldPointOnBody2 externalContact;
            r1' = p1 - x1;
            r2' = p2 - x2;
            n = getNormal externalContact;
            deltaV = v2 + cross w2 r2' - v1 - cross w1 r1';
            r1CrossN' = cross r1' n;
            r2CrossN' = cross r2' n;
            massPenetration = mMassInverse body1 + mMassInverse body2 +
                              dot (cross (mvmul I1 r1CrossN') r1') n +
                              dot (cross (mvmul I2 r2CrossN') r2') n;
            deltaVDotN = dot deltaV n;
            pc = slot
              \<lparr>PenetrationConstraint.indexBody1 := indexBody1',
               PenetrationConstraint.indexBody2 := indexBody2',
               PenetrationConstraint.inverseInertiaTensorBody1 := I1,
               PenetrationConstraint.inverseInertiaTensorBody2 := I2,
               PenetrationConstraint.massInverseBody1 := mMassInverse body1,
               PenetrationConstraint.massInverseBody2 := mMassInverse body2,
               restitutionFactor := restitutionFactor',
               indexFrictionConstraint := f,
               contactPoint := (i, c),
               r1 := r1',
               r2 := r2',
               PenetrationConstraint.normal := n,
               penetrationDepth := getPenetrationDepth externalContact,
               isRestingContact := getIsRestingContact externalContact,
               penetrationImpulse := (if mIsWarmStartingActive s
                                      then getPenetrationImpulse externalContact else 0),
               r1CrossN := r1CrossN',
               r2CrossN := r2CrossN',
               inversePenetrationMass := (if massPenetration > 0 then 1 / massPenetration
                                          else inversePenetrationMass slot),
               restitutionBias := (if deltaVDotN < - RESTITUTION_VELOCITY_THRESHOLD env
                                   then restitutionFactor' * deltaVDotN else 0),
               penetrationSplitImpulse := 0\<rparr>;
            fc' = fc
              \<lparr>hasAtLeastOneRestingContactPoint :=
                 (hasAtLeastOneRestingContactPoint fc \<or> getIsRestingContact externalContact),
               frictionPointBody1 := frictionPointBody1 fc + p1,
               frictionPointBody2 := frictionPointBody2 fc + p2,
               FrictionConstraint.normal := FrictionConstraint.normal fc + n\<rparr>;
            externalManifold' = externalManifold
              \<lparr>contactPoints := (contactPoints externalManifold)
                 [c := externalContact\<lparr>getIsRestingContact := True\<rparr>]\<rparr>
        in Inr (s\<lparr>mPenetrationConstraints := (mPenetrationConstraints s)[k := pc],
                  mFrictionConstraints := (mFrictionConstraints s)[f := fc'],
                  mNbPenetrationConstraints := k + 1\<rparr>,
                island\<lparr>getContactManifolds :=
                  (getContactManifolds island)[i := externalManifold']\<rparr>))"

text \<open>
  The body of the loop over the manifolds is modelled in parts, in the order of the source.
  \<open>beginFrictionConstraint\<close> is the part before the loop over the contact points (source
  lines 103 to 152): the first fields of slot \<open>mNbFrictionConstraints\<close> of the friction
  array, and the legacy record of the manifold.
\<close>

definition beginFrictionConstraint ::
  "Env \<Rightarrow> RigidBody \<Rightarrow> RigidBody \<Rightarrow> nat \<Rightarrow> nat \<Rightarrow> nat \<Rightarrow> ContactSolver \<Rightarrow> ContactSolver" where
  "beginFrictionConstraint env body1 body2 indexBody1' indexBody2' i s =
     (let f = mNbFrictionConstraints s;
          I1 = getInertiaTensorInverseWorld body1;
          I2 = getInertiaTensorInverseWorld body2;
          rollingResistanceFactor' = computeMixedRollingResistance env body1 body2;
          isBody1DynamicType = (getType body1 = DYNAMIC);
          isBody2DynamicType = (getType body2 = DYNAMIC);
          fc = (mFrictionConstraints s ! f)
            \<lparr>FrictionConstraint.indexBody1 := indexBody1',
             FrictionConstraint.indexBody2 := indexBody2',
             contactManifold := i,
             FrictionConstraint.inverseInertiaTensorBody1 := I1,
             FrictionConstraint.inverseInertiaTensorBody2 := I2,
             FrictionConstraint.massInverseBody1 := mMassInverse body1,
             FrictionConstraint.massInverseBody2 := mMassInverse body2,
             frictionCoefficient := computeMixedFrictionCoefficient env body1 body2,
             rollingResistanceFactor := rollingResistanceFactor',
             hasAtLeastOneRestingContactPoint := False,
             frictionPointBody1 := 0,
             frictionPointBody2 := 0,
             FrictionConstraint.normal := 0,
             inverseRollingResistance :=
               (if rollingResistanceFactor' > 0 \<and> (isBody1DynamicType \<or> isBody2DynamicType)
                then getInverse env (I1 + I2) else 0)\<rparr>
      in s\<lparr>mFrictionConstraints := (mFrictionConstraints s)[f := fc],
            mContactConstraints := (mContactConstraints s)
              [i := (mContactConstraints s ! i)\<lparr>externalContactManifold := i\<rparr>]\<rparr>)"

text \<open>
  \<open>frictionConstraintAtCenter\<close> is the part after the loop over the contact points up to
  the normalisation of the normal (source lines 246 to 270). \<open>nbContacts\<close> counts the
  turns of the inner loop, so it is the number of contact points of the manifold. Under
  warm starting three accumulated impulses are assigned; otherwise four.
\<close>

definition frictionConstraintAtCenter ::
  "Env \<Rightarrow> RigidBody \<Rightarrow> RigidBody \<Rightarrow> ContactManifold \<Rightarrow> ContactSolver \<Rightarrow>
   FrictionConstraint \<Rightarrow> FrictionConstraint" where
  "frictionConstraintAtCenter env body1 body2 externalManifold s fc =
     (let nbContacts = length (contactPoints externalManifold);
          x1 = mCenterOfMassWorld body1;
          x2 = mCenterOfMassWorld body2;
          fp1 = sdiv (frictionPointBody1 fc) (real nbContacts);
          fp2 = sdiv (frictionPointBody2 fc) (real nbContacts);
          fc1 = fc
            \<lparr>frictionPointBody1 := fp1,
             frictionPointBody2 := fp2,
             r1Friction := fp1 - x1,
             r2Friction := fp2 - x2,
             oldFrictionVector1 := getFrictionVector1 externalManifold,
             oldFrictionVector2 := getFrictionVector2 externalManifold\<rparr>;
          fc2 = (if mIsWarmStartingActive s
                 then fc1
                   \<lparr>friction1Impulse := getFrictionImpulse1 externalManifold,
                    friction2Impulse := getFrictionImpulse2 externalManifold,
                    frictionTwistImpulse := getFrictionTwistImpulse externalManifold\<rparr>
                 else fc1
                   \<lparr>friction1Impulse := 0,
                    friction2Impulse := 0,
                    frictionTwistImpulse := 0,
                    FrictionConstraint.rollingResistanceImpulse := Vector3 0 0 0\<rparr>)
      in fc2\<lparr>FrictionConstraint.normal := normalize env (FrictionConstraint.normal fc2)\<rparr>)"

text \<open>
  \<open>frictionConstraintMasses\<close> is the part after \<open>computeFrictionVectors\<close> (source lines
  278 to 303): the four cross products and the three inverse effective masses. The three
  effective-mass statements are conditional expressions of the same shape as that of the
  penetration mass: nothing is assigned when the mass is not positive.
\<close>

definition frictionConstraintMasses ::
  "RigidBody \<Rightarrow> RigidBody \<Rightarrow> FrictionConstraint \<Rightarrow> FrictionConstraint" where
  "frictionConstraintMasses body1 body2 fc =
     (let I1 = getInertiaTensorInverseWorld body1;
          I2 = getInertiaTensorInverseWorld body2;
          t1 = frictionVector1 fc;
          t2 = frictionVector2 fc;
          r1CrossT1' = cross (r1Friction fc) t1;
          r1CrossT2' = cross (r1Friction fc) t2;
          r2CrossT1' = cross (r2Friction fc) t1;
          r2CrossT2' = cross (r2Friction fc) t2;
          friction1Mass =
            FrictionConstraint.massInverseBody1 fc + FrictionConstraint.massInverseBody2 fc +
            dot (cross (mvmul I1 r1CrossT1') (r1Friction fc)) t1 +
            dot (cross (mvmul I2 r2CrossT1') (r2Friction fc)) t1;
          friction2Mass =
            FrictionConstraint.massInverseBody1 fc + FrictionConstraint.massInverseBody2 fc +
            dot (cross (mvmul I1 r1CrossT2') (r1Friction fc)) t2 +
            dot (cross (mvmul I2 r2CrossT2') (r2Friction fc)) t2;
          frictionTwistMass =
            dot (FrictionConstraint.normal fc)
                (mvmul (FrictionConstraint.inverseInertiaTensorBody1 fc)
                       (FrictionConstraint.normal fc)) +
            dot (FrictionConstraint.normal fc)
                (mvmul (FrictionConstraint.inverseInertiaTensorBody2 fc)
                       (FrictionConstraint.normal fc))
      in fc
           \<lparr>r1CrossT1 := r1CrossT1',
            r1CrossT2 := r1CrossT2',
            r2CrossT1 := r2CrossT1',
            r2CrossT2 := r2CrossT2',
            inverseFriction1Mass := (if friction1Mass > 0 then 1 / friction1Mass
                                     else inverseFriction1Mass fc),
            inverseFriction2Mass := (if friction2Mass > 0 then 1 / friction2Mass
                                     else inverseFriction2Mass fc),
            inverseTwistFrictionMass := (if frictionTwistMass > 0 then 1 / frictionTwistMass
                                         else inverseTwistFrictionMass fc)\<rparr>)"

text \<open>
  \<open>finishFrictionConstraint\<close> is all that follows the loop over the contact points: the
  two parts above, with the velocity difference at the friction point and
  \<open>computeFrictionVectors\<close> between them (source lines 272 to 276).
\<close>

definition finishFrictionConstraint ::
  "Env \<Rightarrow> RigidBody \<Rightarrow> RigidBody \<Rightarrow> nat \<Rightarrow> nat \<Rightarrow> ContactManifold \<Rightarrow> ContactSolver \<Rightarrow>
   FrictionConstraint \<Rightarrow> error + FrictionConstraint" where
  "finishFrictionConstraint env body1 body2 indexBody1' indexBody2' externalManifold s fc =
     (let v1 = velocityMemory s (mLinearVelocities s + indexBody1');
          w1 = velocityMemory s (mAngularVelocities s + indexBody1');
          v2 = velocityMemory s (mLinearVelocities s + indexBody2');
          w2 = velocityMemory s (mAngularVelocities s + indexBody2');
          fc3 = frictionConstraintAtCenter env body1 body2 externalManifold s fc;
          deltaVFrictionPoint = v2 + cross w2 (r2Friction fc3) - v1 - cross w1 (r1Friction fc3)
      in case computeFrictionVectors env deltaVFrictionPoint fc3 of
           Inl e \<Rightarrow> Inl e
         | Inr fc4 \<Rightarrow> Inr (frictionConstraintMasses body1 body2 fc4))"

text \<open>
  The body of the loop over the manifolds, for manifold \<open>i\<close>: the assertions, the bodies
  of contact point 0 and their velocity indices, the friction constraint's first fields,
  the loop over the contact points, and the rest of the friction constraint.
\<close>

definition initializeManifold ::
  "Env \<Rightarrow> nat \<Rightarrow> ContactSolver \<times> Island \<Rightarrow> error + ContactSolver \<times> Island" where
  "initializeManifold env i st =
     (let s = fst st; island = snd st;
          externalManifold = getContactManifolds island ! i;
          f = mNbFrictionConstraints s
      in if \<not> length (contactPoints externalManifold) > 0 then Inl AssertionFailed
      else
        let body1Ptr = getBody1 (contactPoints externalManifold ! 0);
            body2Ptr = getBody2 (contactPoints externalManifold ! 0)
        in if body1Ptr = 0 \<or> body2Ptr = 0 then Inl AssertionFailed
        else
         (case mMapBodyToConstrainedVelocityIndex s body1Ptr of
            None \<Rightarrow> Inl UnmappedBody
          | Some indexBody1' \<Rightarrow>
         (case mMapBodyToConstrainedVelocityIndex s body2Ptr of
            None \<Rightarrow> Inl UnmappedBody
          | Some indexBody2' \<Rightarrow>
        if \<not> (f < length (mFrictionConstraints s) \<and> i < length (mContactConstraints s))
        then Inl OutOfBounds
        else
         (case rigidBodies island body1Ptr of
            None \<Rightarrow> Inl InvalidPointer
          | Some body1 \<Rightarrow>
         (case rigidBodies island body2Ptr of
            None \<Rightarrow> Inl InvalidPointer
          | Some body2 \<Rightarrow>
           (case forEach (initializeContactPoint env body1 body2 indexBody1' indexBody2'
                            (computeMixedRestitutionFactor env body1 body2) i)
                         [0..<length (contactPoints externalManifold)]
                         (beginFrictionConstraint env body1 body2 indexBody1' indexBody2' i s,
                          island) of
              Inl e \<Rightarrow> Inl e
            | Inr st2 \<Rightarrow>
               (case finishFrictionConstraint env body1 body2 indexBody1' indexBody2'
                       externalManifold (fst st2) (mFrictionConstraints (fst st2) ! f) of
                  Inl e \<Rightarrow> Inl e
                | Inr fc' \<Rightarrow>
                   Inr ((fst st2)\<lparr>mFrictionConstraints :=
                                     (mFrictionConstraints (fst st2))[f := fc'],
                                   mNbFrictionConstraints := f + 1\<rparr>, snd st2))))))))"

text \<open>
  \<open>initializeForIsland\<close>: the assertions, the three allocations (the penetration array
  gets \<open>mNbContactManifolds * 4\<close> slots, a product of \<open>uint\<close> values), and the loop over
  the manifolds. The island is returned with its contact points marked as resting.
\<close>

definition initializeForIsland ::
  "Env \<Rightarrow> decimal \<Rightarrow> Island \<Rightarrow> ContactSolver \<Rightarrow> error + ContactSolver \<times> Island" where
  "initializeForIsland env dt island s =
     (if \<not> (getNbBodies island > 0 \<and> length (getContactManifolds island) > 0 \<and>
             mSplitLinearVelocities s \<noteq> 0 \<and> mSplitAngularVelocities s \<noteq> 0)
      then Inl AssertionFailed
      else
        let n = length (getContactManifolds island);
            s1 = s\<lparr>mTimeStep := dt,
                   mNbContactManifolds := n,
                   mNbFrictionConstraints := 0,
                   mNbPenetrationConstraints := 0,
                   mContactConstraints := map (newContactManifoldSolver env) [0..<n],
                   mPenetrationConstraints :=
                     map (newPenetrationConstraint env) [0..<uint_times n 4],
                   mFrictionConstraints := map (newFrictionConstraint env) [0..<n]\<rparr>
        in forEach (initializeManifold env) [0..<n] (s1, island))"

section \<open>warmStart\<close>

text \<open>The body of the first loop of \<open>warmStart\<close>, for penetration constraint \<open>i\<close>.\<close>

definition warmStartPenetration :: "nat \<Rightarrow> ContactSolver \<Rightarrow> error + ContactSolver" where
  "warmStartPenetration i s =
     (if \<not> i < length (mPenetrationConstraints s) then Inl OutOfBounds
      else
        let c = mPenetrationConstraints s ! i
        in if isRestingContact c then
             let linearImpulse = smul (penetrationImpulse c) (PenetrationConstraint.normal c);
                 s1 = addTo (mLinearVelocities s + PenetrationConstraint.indexBody1 c)
                        (smul (PenetrationConstraint.massInverseBody1 c) (- linearImpulse)) s;
                 s2 = addTo (mAngularVelocities s + PenetrationConstraint.indexBody1 c)
                        (mvmul (PenetrationConstraint.inverseInertiaTensorBody1 c)
                           (smul (penetrationImpulse c) (- r1CrossN c))) s1;
                 s3 = addTo (mLinearVelocities s + PenetrationConstraint.indexBody2 c)
                        (smul (PenetrationConstraint.massInverseBody2 c) linearImpulse) s2;
                 s4 = addTo (mAngularVelocities s + PenetrationConstraint.indexBody2 c)
                        (mvmul (PenetrationConstraint.inverseInertiaTensorBody2 c)
                           (smul (penetrationImpulse c) (- r1CrossN c))) s3
             in Inr s4
           else Inr (s\<lparr>mPenetrationConstraints :=
                         (mPenetrationConstraints s)[i := c\<lparr>penetrationImpulse := 0\<rparr>]\<rparr>))"

text \<open>
  The body of the second loop of \<open>warmStart\<close>, for friction constraint \<open>i\<close>. Its first
  statements, which project the old friction impulses on the new friction vectors, are
  \<open>projectOldFrictionImpulses\<close>.
\<close>

definition projectOldFrictionImpulses :: "FrictionConstraint \<Rightarrow> FrictionConstraint" where
  "projectOldFrictionImpulses c =
     (let oldFrictionImpulse = smul (friction1Impulse c) (oldFrictionVector1 c) +
                               smul (friction2Impulse c) (oldFrictionVector2 c)
      in c\<lparr>friction1Impulse := dot oldFrictionImpulse (frictionVector1 c),
            friction2Impulse := dot oldFrictionImpulse (frictionVector2 c)\<rparr>)"

definition warmStartFriction :: "nat \<Rightarrow> ContactSolver \<Rightarrow> error + ContactSolver" where
  "warmStartFriction i s =
     (if \<not> i < length (mFrictionConstraints s) then Inl OutOfBounds
      else
        let c0 = mFrictionConstraints s ! i;
            a1v = mLinearVelocities s + FrictionConstraint.indexBody1 c0;
            a1w = mAngularVelocities s + FrictionConstraint.indexBody1 c0;
            a2v = mLinearVelocities s + FrictionConstraint.indexBody2 c0;
            a2w = mAngularVelocities s + FrictionConstraint.indexBody2 c0;
            I1 = FrictionConstraint.inverseInertiaTensorBody1 c0;
            I2 = FrictionConstraint.inverseInertiaTensorBody2 c0;
            m1 = FrictionConstraint.massInverseBody1 c0;
            m2 = FrictionConstraint.massInverseBody2 c0
        in if hasAtLeastOneRestingContactPoint c0 then
             let c = projectOldFrictionImpulses c0;
                 s0 = s\<lparr>mFrictionConstraints := (mFrictionConstraints s)[i := c]\<rparr>;
                 linearImpulseBody2 = smul (friction1Impulse c) (frictionVector1 c);
                 angularImpulseBody1 = smul (friction1Impulse c) (- r1CrossT1 c);
                 angularImpulseBody2 = smul (friction1Impulse c) (r2CrossT1 c);
                 s1 = addTo a1v (smul m1 (- linearImpulseBody2)) s0;
                 s2 = addTo a1w (mvmul I1 angularImpulseBody1) s1;
                 s3 = addTo a2v (smul m2 linearImpulseBody2) s2;
                 s4 = addTo a2w (mvmul I2 angularImpulseBody2) s3;
                 angularImpulseBody1' = smul (friction2Impulse c) (- r1CrossT2 c);
                 linearImpulseBody2' = smul (friction2Impulse c) (frictionVector2 c);
                 angularImpulseBody2' = smul (friction2Impulse c) (r2CrossT2 c);
                 s5 = addTo a1v (smul m1 (- linearImpulseBody2')) s4;
                 s6 = addTo a1w (mvmul I1 angularImpulseBody1') s5;
                 s7 = addTo a2v (smul m2 linearImpulseBody2') s6;
                 s8 = addTo a2w (mvmul I2 angularImpulseBody2') s7;
                 twist = smul (frictionTwistImpulse c) (FrictionConstraint.normal c);
                 s9 = addTo a1w (mvmul I1 (- twist)) s8;
                 s10 = addTo a2w (mvmul I2 twist) s9;
                 rolling = FrictionConstraint.rollingResistanceImpulse c;
                 s11 = addTo a1w (mvmul I1 (- rolling)) s10;
                 s12 = addTo a2w (mvmul I2 rolling) s11
             in Inr s12
           else Inr (s\<lparr>mFrictionConstraints := (mFrictionConstraints s)
                         [i := c0\<lparr>friction1Impulse := 0,
                                  friction2Impulse := 0,
                                  frictionTwistImpulse := 0,
                                  FrictionConstraint.rollingResistanceImpulse := 0\<rparr>]\<rparr>))"

definition warmStart :: "ContactSolver \<Rightarrow> error + ContactSolver" where
  "warmStart s =
     (case forEach warmStartPenetration [0..<mNbPenetrationConstraints s] s of
        Inl e \<Rightarrow> Inl e
      | Inr s' \<Rightarrow> forEach warmStartFriction [0..<mNbFrictionConstraints s'] s')"

section \<open>The sweeps\<close>

definition resetTotalPenetrationImpulseAt :: "nat \<Rightarrow> ContactSolver \<Rightarrow> error + ContactSolver" where
  "resetTotalPenetrationImpulseAt i s =
     (if \<not> i < length (mFrictionConstraints s) then Inl OutOfBounds
      else Inr (s\<lparr>mFrictionConstraints := (mFrictionConstraints s)
                    [i := (mFrictionConstraints s ! i)\<lparr>totalPenetrationImpulse := 0\<rparr>]\<rparr>))"

definition resetTotalPenetrationImpulse :: "ContactSolver \<Rightarrow> error + ContactSolver" where
  "resetTotalPenetrationImpulse s =
     forEach resetTotalPenetrationImpulseAt [0..<mNbFrictionConstraints s] s"

text \<open>
  The bias of the penetration depth. The source takes the maximum in single precision
  (\<open>max(0.0f, float(depth - SLOP))\<close>); over the reals the conversion is the identity.
\<close>

definition biasPenetrationDepth :: "ContactSolver \<Rightarrow> PenetrationConstraint \<Rightarrow> decimal" where
  "biasPenetrationDepth s c =
     (let beta = (if mIsSplitImpulseActive s then BETA_SPLIT_IMPULSE else BETA)
      in if penetrationDepth c > SLOP
         then - (beta / mTimeStep s) * max 0 (penetrationDepth c - SLOP)
         else 0)"

text \<open>
  The body of the loop of \<open>solvePenetrationConstraints\<close> is modelled in two parts: the
  projection on the velocities (up to the \<open>if\<close> on the split impulse), and the statements
  under that \<open>if\<close>. \<open>v1\<close>, \<open>w1\<close>, \<open>v2\<close>, \<open>w2\<close> are references into the velocity arrays,
  so each \<open>+=\<close> writes the memory and a later read sees it. \<open>penetrationJv\<close> is the
  block "Compute J*v" and \<open>penetrationDeltaLambda\<close> the value of \<open>deltaLambda\<close> after the
  block "Compute the Lagrange multiplier lambda", before it is overwritten by the clamped
  difference.
\<close>

definition penetrationJv :: "ContactSolver \<Rightarrow> PenetrationConstraint \<Rightarrow> decimal" where
  "penetrationJv s c =
     (let v1 = velocityMemory s (mLinearVelocities s + PenetrationConstraint.indexBody1 c);
          w1 = velocityMemory s (mAngularVelocities s + PenetrationConstraint.indexBody1 c);
          v2 = velocityMemory s (mLinearVelocities s + PenetrationConstraint.indexBody2 c);
          w2 = velocityMemory s (mAngularVelocities s + PenetrationConstraint.indexBody2 c);
          deltaV = v2 + cross w2 (r2 c) - v1 - cross w1 (r1 c);
          deltaVDotN = dot deltaV (PenetrationConstraint.normal c)
      in deltaVDotN)"

definition penetrationDeltaLambda :: "ContactSolver \<Rightarrow> PenetrationConstraint \<Rightarrow> decimal" where
  "penetrationDeltaLambda s c =
     (let Jv = penetrationJv s c;
          b = biasPenetrationDepth s c + restitutionBias c
      in if mIsSplitImpulseActive s
         then - (Jv + restitutionBias c) * inversePenetrationMass c
         else - (Jv + b) * inversePenetrationMass c)"

definition solvePenetrationVelocity :: "nat \<Rightarrow> ContactSolver \<Rightarrow> ContactSolver" where
  "solvePenetrationVelocity i s =
     (let c = mPenetrationConstraints s ! i;
          a1v = mLinearVelocities s + PenetrationConstraint.indexBody1 c;
          a1w = mAngularVelocities s + PenetrationConstraint.indexBody1 c;
          a2v = mLinearVelocities s + PenetrationConstraint.indexBody2 c;
          a2w = mAngularVelocities s + PenetrationConstraint.indexBody2 c;
          deltaLambda = penetrationDeltaLambda s c;
          lambdaTemp = penetrationImpulse c;
          c' = c\<lparr>penetrationImpulse := max (penetrationImpulse c + deltaLambda) 0\<rparr>;
          deltaLambda' = penetrationImpulse c' - lambdaTemp;
          fi = indexFrictionConstraint c;
          fc = mFrictionConstraints s ! fi;
          s0 = s\<lparr>mPenetrationConstraints := (mPenetrationConstraints s)[i := c'],
                 mFrictionConstraints := (mFrictionConstraints s)
                   [fi := fc\<lparr>totalPenetrationImpulse :=
                               totalPenetrationImpulse fc + penetrationImpulse c'\<rparr>]\<rparr>;
          linearImpulse = smul deltaLambda' (PenetrationConstraint.normal c);
          s1 = addTo a1v (smul (PenetrationConstraint.massInverseBody1 c) (- linearImpulse)) s0;
          s2 = addTo a1w (mvmul (PenetrationConstraint.inverseInertiaTensorBody1 c)
                            (smul deltaLambda' (- r1CrossN c))) s1;
          s3 = addTo a2v (smul (PenetrationConstraint.massInverseBody2 c) linearImpulse) s2;
          s4 = addTo a2w (mvmul (PenetrationConstraint.inverseInertiaTensorBody2 c)
                            (smul deltaLambda' (r2CrossN c))) s3
      in s4)"

text \<open>\<open>penetrationJvSplit\<close> is \<open>JvSplit\<close>, computed from the split velocity arrays.\<close>

definition penetrationJvSplit :: "ContactSolver \<Rightarrow> PenetrationConstraint \<Rightarrow> decimal" where
  "penetrationJvSplit s c =
     (let v1Split = velocityMemory s (mSplitLinearVelocities s + PenetrationConstraint.indexBody1 c);
          w1Split = velocityMemory s (mSplitAngularVelocities s + PenetrationConstraint.indexBody1 c);
          v2Split = velocityMemory s (mSplitLinearVelocities s + PenetrationConstraint.indexBody2 c);
          w2Split = velocityMemory s (mSplitAngularVelocities s + PenetrationConstraint.indexBody2 c);
          deltaVSplit = v2Split + cross w2Split (r2 c) - v1Split - cross w1Split (r1 c)
      in dot deltaVSplit (PenetrationConstraint.normal c))"

definition solvePenetrationSplit :: "nat \<Rightarrow> ContactSolver \<Rightarrow> ContactSolver" where
  "solvePenetrationSplit i s =
     (let c = mPenetrationConstraints s ! i;
          a1v = mSplitLinearVelocities s + PenetrationConstraint.indexBody1 c;
          a1w = mSplitAngularVelocities s + PenetrationConstraint.indexBody1 c;
          a2v = mSplitLinearVelocities s + PenetrationConstraint.indexBody2 c;
          a2w = mSplitAngularVelocities s + PenetrationConstraint.indexBody2 c;
          JvSplit = penetrationJvSplit s c;
          deltaLambdaSplit = - (JvSplit + biasPenetrationDepth s c) * inversePenetrationMass c;
          lambdaTempSplit = penetrationSplitImpulse c;
          c' = c\<lparr>penetrationSplitImpulse :=
                   max (penetrationSplitImpulse c + deltaLambdaSplit) 0\<rparr>;
          deltaLambdaSplit' = penetrationSplitImpulse c' - lambdaTempSplit;
          s0 = s\<lparr>mPenetrationConstraints := (mPenetrationConstraints s)[i := c']\<rparr>;
          linearImpulse = smul deltaLambdaSplit' (PenetrationConstraint.normal c);
          s1 = addTo a1v (smul (PenetrationConstraint.massInverseBody1 c) (- linearImpulse)) s0;
          s2 = addTo a1w (mvmul (PenetrationConstraint.inverseInertiaTensorBody1 c)
                            (smul deltaLambdaSplit' (- r1CrossN c))) s1;
          s3 = addTo a2v (smul (PenetrationConstraint.massInverseBody2 c) linearImpulse) s2;
          s4 = addTo a2w (mvmul (PenetrationConstraint.inverseInertiaTensorBody2 c)
                            (smul deltaLambdaSplit' (r2CrossN c))) s3
      in s4)"

definition solvePenetrationConstraint :: "nat \<Rightarrow> ContactSolver \<Rightarrow> error + ContactSolver" where
  "solvePenetrationConstraint i s =
     (if \<not> i < length (mPenetrationConstraints s) then Inl OutOfBounds
      else if \<not> indexFrictionConstraint (mPenetrationConstraints s ! i)
                  < length (mFrictionConstraints s) then Inl OutOfBounds
      else
        let s' = solvePenetrationVelocity i s
        in if mIsSplitImpulseActive s then Inr (solvePenetrationSplit i s') else Inr s')"

definition solvePenetrationConstraints :: "ContactSolver \<Rightarrow> error + ContactSolver" where
  "solvePenetrationConstraints s =
     forEach solvePenetrationConstraint [0..<mNbPenetrationConstraints s] s"

text \<open>
  The body of the loop of \<open>solveFrictionConstraints\<close> is modelled in four parts, one for
  each constraint it solves in turn: the two tangent directions, the twist and the rolling
  resistance.
\<close>

text \<open>\<open>frictionJv\<close> is the block "Compute J*v" of a tangent direction \<open>t\<close>, and
  \<open>frictionTwistJv\<close> that of the twist.\<close>

definition frictionJv :: "ContactSolver \<Rightarrow> FrictionConstraint \<Rightarrow> Vector3 \<Rightarrow> decimal" where
  "frictionJv s c t =
     (let v1 = velocityMemory s (mLinearVelocities s + FrictionConstraint.indexBody1 c);
          w1 = velocityMemory s (mAngularVelocities s + FrictionConstraint.indexBody1 c);
          v2 = velocityMemory s (mLinearVelocities s + FrictionConstraint.indexBody2 c);
          w2 = velocityMemory s (mAngularVelocities s + FrictionConstraint.indexBody2 c);
          deltaV = v2 + cross w2 (r2Friction c) - v1 - cross w1 (r1Friction c)
      in dot deltaV t)"

definition frictionTwistJv :: "ContactSolver \<Rightarrow> FrictionConstraint \<Rightarrow> decimal" where
  "frictionTwistJv s c =
     (let w1 = velocityMemory s (mAngularVelocities s + FrictionConstraint.indexBody1 c);
          w2 = velocityMemory s (mAngularVelocities s + FrictionConstraint.indexBody2 c);
          deltaV = w2 - w1
      in dot deltaV (FrictionConstraint.normal c))"

definition solveFriction1 :: "nat \<Rightarrow> ContactSolver \<Rightarrow> ContactSolver" where
  "solveFriction1 i s =
     (let c = mFrictionConstraints s ! i;
          a1v = mLinearVelocities s + FrictionConstraint.indexBody1 c;
          a1w = mAngularVelocities s + FrictionConstraint.indexBody1 c;
          a2v = mLinearVelocities s + FrictionConstraint.indexBody2 c;
          a2w = mAngularVelocities s + FrictionConstraint.indexBody2 c;
          Jv = frictionJv s c (frictionVector1 c);
          deltaLambda = - Jv * inverseFriction1Mass c;
          frictionLimit = frictionCoefficient c * totalPenetrationImpulse c;
          lambdaTemp = friction1Impulse c;
          c' = c\<lparr>friction1Impulse :=
                   max (- frictionLimit) (min (friction1Impulse c + deltaLambda) frictionLimit)\<rparr>;
          deltaLambda' = friction1Impulse c' - lambdaTemp;
          linearImpulseBody2 = smul deltaLambda' (frictionVector1 c);
          linearImpulseBody1 = - linearImpulseBody2;
          angularImpulseBody1 = smul deltaLambda' (- r1CrossT1 c);
          angularImpulseBody2 = smul deltaLambda' (r2CrossT1 c);
          s0 = s\<lparr>mFrictionConstraints := (mFrictionConstraints s)[i := c']\<rparr>;
          s1 = addTo a1v (smul (FrictionConstraint.massInverseBody1 c) linearImpulseBody1) s0;
          s2 = addTo a1w (mvmul (FrictionConstraint.inverseInertiaTensorBody1 c)
                            angularImpulseBody1) s1;
          s3 = addTo a2v (smul (FrictionConstraint.massInverseBody2 c) linearImpulseBody2) s2;
          s4 = addTo a2w (mvmul (FrictionConstraint.inverseInertiaTensorBody2 c)
                            angularImpulseBody2) s3
      in s4)"

definition solveFriction2 :: "nat \<Rightarrow> ContactSolver \<Rightarrow> ContactSolver" where
  "solveFriction2 i s =
     (let c = mFrictionConstraints s ! i;
          a1v = mLinearVelocities s + FrictionConstraint.indexBody1 c;
          a1w = mAngularVelocities s + FrictionConstraint.indexBody1 c;
          a2v = mLinearVelocities s + FrictionConstraint.indexBody2 c;
          a2w = mAngularVelocities s + FrictionConstraint.indexBody2 c;
          Jv = frictionJv s c (frictionVector2 c);
          deltaLambda = - Jv * inverseFriction2Mass c;
          frictionLimit = frictionCoefficient c * totalPenetrationImpulse c;
          lambdaTemp = friction2Impulse c;
          c' = c\<lparr>friction2Impulse :=
                   max (- frictionLimit) (min (friction2Impulse c + deltaLambda) frictionLimit)\<rparr>;
          deltaLambda' = friction2Impulse c' - lambdaTemp;
          linearImpulseBody2 = smul deltaLambda' (frictionVector2 c);
          linearImpulseBody1 = - linearImpulseBody2;
          angularImpulseBody1 = smul deltaLambda' (- r1CrossT2 c);
          angularImpulseBody2 = smul deltaLambda' (r2CrossT2 c);
          s0 = s\<lparr>mFrictionConstraints := (mFrictionConstraints s)[i := c']\<rparr>;
          s1 = addTo a1v (smul (FrictionConstraint.massInverseBody1 c) linearImpulseBody1) s0;
          s2 = addTo a1w (mvmul (FrictionConstraint.inverseInertiaTensorBody1 c)
                            angularImpulseBody1) s1;
          s3 = addTo a2v (smul (FrictionConstraint.massInverseBody2 c) linearImpulseBody2) s2;
          s4 = addTo a2w (mvmul (FrictionConstraint.inverseInertiaTensorBody2 c)
                            angularImpulseBody2) s3
      in s4)"

definition solveFrictionTwist :: "nat \<Rightarrow> ContactSolver \<Rightarrow> ContactSolver" where
  "solveFrictionTwist i s =
     (let c = mFrictionConstraints s ! i;
          a1v = mLinearVelocities s + FrictionConstraint.indexBody1 c;
          a1w = mAngularVelocities s + FrictionConstraint.indexBody1 c;
          a2v = mLinearVelocities s + FrictionConstraint.indexBody2 c;
          a2w = mAngularVelocities s + FrictionConstraint.indexBody2 c;
          Jv = frictionTwistJv s c;
          deltaLambda = - Jv * inverseTwistFrictionMass c;
          frictionLimit = frictionCoefficient c * totalPenetrationImpulse c;
          lambdaTemp = frictionTwistImpulse c;
          c' = c\<lparr>frictionTwistImpulse :=
                   max (- frictionLimit)
                       (min (frictionTwistImpulse c + deltaLambda) frictionLimit)\<rparr>;
          deltaLambda' = frictionTwistImpulse c' - lambdaTemp;
          linearImpulseBody1 = Vector3 0 0 0;
          linearImpulseBody2 = Vector3 0 0 0;
          angularImpulseBody2 = smul deltaLambda' (FrictionConstraint.normal c);
          angularImpulseBody1 = - angularImpulseBody2;
          s0 = s\<lparr>mFrictionConstraints := (mFrictionConstraints s)[i := c']\<rparr>;
          s1 = addTo a1v (smul (FrictionConstraint.massInverseBody1 c) linearImpulseBody1) s0;
          s2 = addTo a1w (mvmul (FrictionConstraint.inverseInertiaTensorBody1 c)
                            angularImpulseBody1) s1;
          s3 = addTo a2v (smul (FrictionConstraint.massInverseBody2 c) linearImpulseBody2) s2;
          s4 = addTo a2w (mvmul (FrictionConstraint.inverseInertiaTensorBody2 c)
                            angularImpulseBody2) s3
      in s4)"

definition solveRollingResistance :: "Env \<Rightarrow> nat \<Rightarrow> ContactSolver \<Rightarrow> ContactSolver" where
  "solveRollingResistance env i s =
     (let c = mFrictionConstraints s ! i;
          a1w = mAngularVelocities s + FrictionConstraint.indexBody1 c;
          a2w = mAngularVelocities s + FrictionConstraint.indexBody2 c
      in if rollingResistanceFactor c > 0 then
           let w1 = velocityMemory s a1w;
               w2 = velocityMemory s a2w;
               JvRolling = w2 - w1;
               deltaLambdaRolling = mvmul (inverseRollingResistance c) (- JvRolling);
               rollingLimit = rollingResistanceFactor c * totalPenetrationImpulse c;
               lambdaTempRolling = FrictionConstraint.rollingResistanceImpulse c;
               c' = c\<lparr>FrictionConstraint.rollingResistanceImpulse :=
                        clamp env (FrictionConstraint.rollingResistanceImpulse c +
                                   deltaLambdaRolling) rollingLimit\<rparr>;
               deltaLambdaRolling' =
                 FrictionConstraint.rollingResistanceImpulse c' - lambdaTempRolling;
               angularImpulseBody1 = - deltaLambdaRolling';
               angularImpulseBody2 = deltaLambdaRolling';
               s0 = s\<lparr>mFrictionConstraints := (mFrictionConstraints s)[i := c']\<rparr>;
               s1 = addTo a1w (mvmul (FrictionConstraint.inverseInertiaTensorBody1 c)
                                 angularImpulseBody1) s0;
               s2 = addTo a2w (mvmul (FrictionConstraint.inverseInertiaTensorBody2 c)
                                 angularImpulseBody2) s1
           in s2
         else s)"

definition solveFrictionConstraint :: "Env \<Rightarrow> nat \<Rightarrow> ContactSolver \<Rightarrow> error + ContactSolver" where
  "solveFrictionConstraint env i s =
     (if \<not> i < length (mFrictionConstraints s) then Inl OutOfBounds
      else Inr (solveRollingResistance env i
                  (solveFrictionTwist i (solveFriction2 i (solveFriction1 i s)))))"

definition solveFrictionConstraints :: "Env \<Rightarrow> ContactSolver \<Rightarrow> error + ContactSolver" where
  "solveFrictionConstraints env s =
     forEach (solveFrictionConstraint env) [0..<mNbFrictionConstraints s] s"

section \<open>storeImpulses and cleanup\<close>

definition storePenetrationImpulse :: "ContactSolver \<Rightarrow> nat \<Rightarrow> Island \<Rightarrow> error + Island" where
  "storePenetrationImpulse s i island =
     (if \<not> i < length (mPenetrationConstraints s) then Inl OutOfBounds
      else
        let c = mPenetrationConstraints s ! i;
            m = fst (contactPoint c);
            k = snd (contactPoint c)
        in if \<not> m < length (getContactManifolds island) then Inl InvalidPointer
           else if \<not> k < length (contactPoints (getContactManifolds island ! m))
           then Inl InvalidPointer
           else
             let manifold = getContactManifolds island ! m;
                 point = contactPoints manifold ! k
             in Inr (island\<lparr>getContactManifolds := (getContactManifolds island)
                       [m := manifold\<lparr>contactPoints := (contactPoints manifold)
                          [k := point\<lparr>getPenetrationImpulse := penetrationImpulse c\<rparr>]\<rparr>]\<rparr>))"

definition storeFrictionImpulses :: "ContactSolver \<Rightarrow> nat \<Rightarrow> Island \<Rightarrow> error + Island" where
  "storeFrictionImpulses s i island =
     (if \<not> i < length (mFrictionConstraints s) then Inl OutOfBounds
      else
        let c = mFrictionConstraints s ! i;
            m = contactManifold c
        in if \<not> m < length (getContactManifolds island) then Inl InvalidPointer
           else Inr (island\<lparr>getContactManifolds := (getContactManifolds island)
                       [m := (getContactManifolds island ! m)
                          \<lparr>getFrictionImpulse1 := friction1Impulse c,
                           getFrictionImpulse2 := friction2Impulse c,
                           getFrictionTwistImpulse := frictionTwistImpulse c,
                           getRollingResistanceImpulse :=
                             FrictionConstraint.rollingResistanceImpulse c,
                           getFrictionVector1 := frictionVector1 c,
                           getFrictionVector2 := frictionVector2 c\<rparr>]\<rparr>))"

definition storeImpulses :: "ContactSolver \<Rightarrow> Island \<Rightarrow> error + Island" where
  "storeImpulses s island =
     (case forEach (storePenetrationImpulse s) [0..<mNbPenetrationConstraints s] island of
        Inl e \<Rightarrow> Inl e
      | Inr island' \<Rightarrow>
          forEach (storeFrictionImpulses s) [0..<mNbFrictionConstraints s] island')"

definition cleanup :: "ContactSolver \<Rightarrow> ContactSolver" where
  "cleanup s = s\<lparr>mContactConstraints := [],
                  mPenetrationConstraints := [],
                  mFrictionConstraints := []\<rparr>"

section \<open>Notions used in the statements\<close>

text \<open>
  Two arrays of \<open>nb\<close> cells at the addresses \<open>p\<close> and \<open>q\<close> do not overlap; the four
  velocity arrays, each with one cell for each of \<open>nb\<close> bodies, are pairwise apart.
\<close>

definition regionsApart :: "nat \<Rightarrow> nat \<Rightarrow> nat \<Rightarrow> bool" where
  "regionsApart p q nb = (p + nb \<le> q \<or> q + nb \<le> p)"

definition buffersDisjoint :: "ContactSolver \<Rightarrow> nat \<Rightarrow> bool" where
  "buffersDisjoint s nb =
     (regionsApart (mLinearVelocities s) (mAngularVelocities s) nb \<and>
      regionsApart (mLinearVelocities s) (mSplitLinearVelocities s) nb \<and>
      regionsApart (mLinearVelocities s) (mSplitAngularVelocities s) nb \<and>
      regionsApart (mAngularVelocities s) (mSplitLinearVelocities s) nb \<and>
      regionsApart (mAngularVelocities s) (mSplitAngularVelocities s) nb \<and>
      regionsApart (mSplitLinearVelocities s) (mSplitAngularVelocities s) nb)"

text \<open>
  The bodies of a constraint are two different bodies among \<open>nb\<close>, and the four velocity
  arrays do not overlap.
\<close>

definition twoBodies :: "ContactSolver \<Rightarrow> nat \<Rightarrow> nat \<Rightarrow> nat \<Rightarrow> bool" where
  "twoBodies s nb i1 i2 = (buffersDisjoint s nb \<and> i1 < nb \<and> i2 < nb \<and> i1 \<noteq> i2)"

text \<open>
  The sum over the two bodies of mass times the change of the velocity cell, between the
  states \<open>s\<close> and \<open>s'\<close>, for the cells at \<open>a1\<close> and \<open>a2\<close>.
\<close>

definition linearMomentumChange ::
  "decimal \<Rightarrow> decimal \<Rightarrow> nat \<Rightarrow> nat \<Rightarrow> ContactSolver \<Rightarrow> ContactSolver \<Rightarrow> Vector3" where
  "linearMomentumChange mass1 mass2 a1 a2 s s' =
     smul mass1 (velocityMemory s' a1 - velocityMemory s a1) +
     smul mass2 (velocityMemory s' a2 - velocityMemory s a2)"

text \<open>
  The increment of the Lagrange multiplier as the specification words it (section 4.3,
  steps 3 and 4), with \<open>\<beta> = 0.2\<close> and \<open>SLOP = 0.01\<close>.
\<close>

definition spec_deltaLambda ::
  "bool \<Rightarrow> decimal \<Rightarrow> decimal \<Rightarrow> decimal \<Rightarrow> decimal \<Rightarrow> decimal \<Rightarrow> decimal" where
  "spec_deltaLambda splitImpulse dt Jv depth restitutionBias' effMassInv =
     (let b_pen = (if depth > 1 / 100 then - ((2 / 10) / dt) * max 0 (depth - 1 / 100) else 0)
      in if splitImpulse then - (Jv + restitutionBias') * effMassInv
         else - (Jv + b_pen + restitutionBias') * effMassInv)"

text \<open>
  The constraints in use lie inside the allocated arrays, and each penetration constraint
  in use names a friction constraint in use.
\<close>

definition constraintsInBounds :: "ContactSolver \<Rightarrow> bool" where
  "constraintsInBounds s =
     (mNbPenetrationConstraints s \<le> length (mPenetrationConstraints s) \<and>
      mNbFrictionConstraints s \<le> length (mFrictionConstraints s) \<and>
      list_all (\<lambda>c. indexFrictionConstraint c < mNbFrictionConstraints s)
        (take (mNbPenetrationConstraints s) (mPenetrationConstraints s)))"

text \<open>The accumulated impulses of the penetration constraints in use are not negative.\<close>

definition impulsesNonNegative :: "ContactSolver \<Rightarrow> bool" where
  "impulsesNonNegative s =
     list_all (\<lambda>c. 0 \<le> penetrationImpulse c \<and> 0 \<le> penetrationSplitImpulse c)
       (take (mNbPenetrationConstraints s) (mPenetrationConstraints s))"

text \<open>The accumulated split impulses of the penetration constraints in use are not
  negative.\<close>

definition splitImpulsesNonNegative :: "ContactSolver \<Rightarrow> bool" where
  "splitImpulsesNonNegative s =
     list_all (\<lambda>c. 0 \<le> penetrationSplitImpulse c)
       (take (mNbPenetrationConstraints s) (mPenetrationConstraints s))"

text \<open>The penetration impulses cached on the contact points of an island, manifold by
  manifold; they are not negative.\<close>

definition cachedImpulses :: "Island \<Rightarrow> decimal list list" where
  "cachedImpulses island =
     map (\<lambda>m. map getPenetrationImpulse (contactPoints m)) (getContactManifolds island)"


definition cachedImpulsesNonNegative :: "Island \<Rightarrow> bool" where
  "cachedImpulsesNonNegative island = list_all (list_all (\<lambda>x. 0 \<le> x)) (cachedImpulses island)"

text \<open>The three accumulated friction impulses of a friction constraint lie within the
  friction limit, and the total penetration impulse is not negative.\<close>

definition withinFrictionLimit :: "FrictionConstraint \<Rightarrow> bool" where
  "withinFrictionLimit c =
     (0 \<le> totalPenetrationImpulse c \<and>
      \<bar>friction1Impulse c\<bar> \<le> frictionCoefficient c * totalPenetrationImpulse c \<and>
      \<bar>friction2Impulse c\<bar> \<le> frictionCoefficient c * totalPenetrationImpulse c \<and>
      \<bar>frictionTwistImpulse c\<bar> \<le> frictionCoefficient c * totalPenetrationImpulse c)"

text \<open>
  The calls a solver receives between \<open>initializeForIsland\<close> and \<open>storeImpulses\<close>: the
  warm start, the reset of the total penetration impulses and the two sweeps, in any
  order and any number of times. \<open>runSweeps\<close> makes a list of such calls, one after the
  other, and stops at the first that fails.
\<close>

datatype sweep = WarmStart | ResetTotalPenetrationImpulse | SolvePenetrationConstraints
  | SolveFrictionConstraints

fun runSweep :: "Env \<Rightarrow> sweep \<Rightarrow> ContactSolver \<Rightarrow> error + ContactSolver" where
  "runSweep env WarmStart s = warmStart s"
| "runSweep env ResetTotalPenetrationImpulse s = resetTotalPenetrationImpulse s"
| "runSweep env SolvePenetrationConstraints s = solvePenetrationConstraints s"
| "runSweep env SolveFrictionConstraints s = solveFrictionConstraints env s"

fun runSweeps :: "Env \<Rightarrow> sweep list \<Rightarrow> ContactSolver \<Rightarrow> error + ContactSolver" where
  "runSweeps env [] s = Inr s"
| "runSweeps env (c # cs) s =
     (case runSweep env c s of Inl e \<Rightarrow> Inl e | Inr s' \<Rightarrow> runSweeps env cs s')"

text \<open>Two solver states have the same numbers of constraints in use and arrays of the
  same sizes.\<close>

definition sameLayout :: "ContactSolver \<Rightarrow> ContactSolver \<Rightarrow> bool" where
  "sameLayout s s' =
     (mNbPenetrationConstraints s' = mNbPenetrationConstraints s \<and>
      mNbFrictionConstraints s' = mNbFrictionConstraints s \<and>
      length (mPenetrationConstraints s') = length (mPenetrationConstraints s) \<and>
      length (mFrictionConstraints s') = length (mFrictionConstraints s))"

section \<open>Example inputs\<close>

text \<open>
  Concrete bodies, contacts and solver states on which the statements below are
  instantiated. The parameters of \<open>exampleEnv\<close> are one possible choice of the operations
  the solver takes from the engine; a fresh penetration or friction slot holds the
  scalar \<open>7\<close> in every effective-mass field and zero vectors.
\<close>

definition identityMatrix :: Matrix3x3 where
  "identityMatrix = Matrix3x3 (Vector3 1 0 0) (Vector3 0 1 0) (Vector3 0 0 1)"

definition exampleUnit :: "Vector3 \<Rightarrow> Vector3" where
  "exampleUnit v = (if vlength v < 1 / 1000000 then v else sdiv v (vlength v))"

definition exampleInverse :: "Matrix3x3 \<Rightarrow> Matrix3x3" where
  "exampleInverse m =
     (let a = vx (row0 m); b = vy (row0 m); c = vz (row0 m);
          d = vx (row1 m); e = vy (row1 m); f = vz (row1 m);
          g = vx (row2 m); h = vy (row2 m); k = vz (row2 m);
          det = a * (e * k - f * h) - b * (d * k - f * g) + c * (d * h - e * g)
      in Matrix3x3 (sdiv (Vector3 (e * k - f * h) (c * h - b * k) (b * f - c * e)) det)
                   (sdiv (Vector3 (f * g - d * k) (a * k - c * g) (c * d - a * f)) det)
                   (sdiv (Vector3 (d * h - e * g) (b * g - a * h) (a * e - b * d)) det))"

definition exampleClamp :: "Vector3 \<Rightarrow> decimal \<Rightarrow> Vector3" where
  "exampleClamp v l = Vector3 (max (- l) (min (vx v) l)) (max (- l) (min (vy v) l))
                              (max (- l) (min (vz v) l))"

definition freshPenetrationConstraint :: PenetrationConstraint where
  "freshPenetrationConstraint =
     \<lparr>PenetrationConstraint.indexBody1 = 0, indexBody2 = 0,
      inverseInertiaTensorBody1 = 0, inverseInertiaTensorBody2 = 0, massInverseBody1 = 0,
      massInverseBody2 = 0, restitutionFactor = 0, indexFrictionConstraint = 0,
      contactPoint = (0, 0), r1 = 0, r2 = 0, normal = 0, penetrationDepth = 0,
      isRestingContact = False, penetrationImpulse = 0, r1CrossN = 0, r2CrossN = 0,
      inversePenetrationMass = 7, restitutionBias = 0, penetrationSplitImpulse = 0\<rparr>"

definition freshFrictionConstraint :: FrictionConstraint where
  "freshFrictionConstraint =
     \<lparr>FrictionConstraint.indexBody1 = 0, indexBody2 = 0, contactManifold = 0,
      inverseInertiaTensorBody1 = 0, inverseInertiaTensorBody2 = 0, massInverseBody1 = 0,
      massInverseBody2 = 0, frictionCoefficient = 0, rollingResistanceFactor = 0,
      hasAtLeastOneRestingContactPoint = False, frictionPointBody1 = 0, frictionPointBody2 = 0,
      normal = 0, inverseRollingResistance = 0, r1Friction = 0, r2Friction = 0,
      oldFrictionVector1 = 0, oldFrictionVector2 = 0, friction1Impulse = 0,
      friction2Impulse = 0, frictionTwistImpulse = 0, rollingResistanceImpulse = 0,
      frictionVector1 = 0, frictionVector2 = 0, r1CrossT1 = 0, r1CrossT2 = 0, r2CrossT1 = 0,
      r2CrossT2 = 0, inverseFriction1Mass = 7, inverseFriction2Mass = 7,
      inverseTwistFrictionMass = 7, totalPenetrationImpulse = 0\<rparr>"

definition exampleEnv :: Env where
  "exampleEnv =
     \<lparr>RESTITUTION_VELOCITY_THRESHOLD = 1,
      MACHINE_EPSILON = 1 / 1000000,
      computeMixedRestitutionFactor = (\<lambda>body1 body2. 0),
      computeMixedFrictionCoefficient = (\<lambda>body1 body2. 1 / 2),
      computeMixedRollingResistance = (\<lambda>body1 body2. 0),
      getInverse = exampleInverse,
      normalize = exampleUnit,
      getUnit = exampleUnit,
      getOneUnitOrthogonalVector =
        (\<lambda>v. if vx v = 0 then Vector3 1 0 0 else exampleUnit (Vector3 (- vy v) (vx v) 0)),
      clamp = exampleClamp,
      newContactManifoldSolver = (\<lambda>k. \<lparr>externalContactManifold = 0\<rparr>),
      newPenetrationConstraint = (\<lambda>k. freshPenetrationConstraint),
      newFrictionConstraint = (\<lambda>k. freshFrictionConstraint)\<rparr>"

text \<open>A box of mass 1 above, a second box of mass 2 below it, the static ground and a
  kinematic platform.\<close>

definition boxBody :: RigidBody where
  "boxBody = \<lparr>mCenterOfMassWorld = Vector3 0 1 0, mMassInverse = 1,
     getInertiaTensorInverseWorld = identityMatrix, getType = DYNAMIC\<rparr>"

definition lowerBoxBody :: RigidBody where
  "lowerBoxBody = \<lparr>mCenterOfMassWorld = Vector3 0 (- 1) 0, mMassInverse = 1 / 2,
     getInertiaTensorInverseWorld = identityMatrix, getType = DYNAMIC\<rparr>"

definition groundBody :: RigidBody where
  "groundBody = \<lparr>mCenterOfMassWorld = Vector3 0 (- 1) 0, mMassInverse = 0,
     getInertiaTensorInverseWorld = 0, getType = STATIC\<rparr>"

definition platformBody :: RigidBody where
  "platformBody = \<lparr>mCenterOfMassWorld = Vector3 0 1 0, mMassInverse = 0,
     getInertiaTensorInverseWorld = 0, getType = KINEMATIC\<rparr>"

text \<open>One contact between the bodies at the addresses 1 and 2, known from the previous
  frame, with the normal from body 1 down to body 2 and cached impulses.\<close>

definition examplePoint :: ContactPoint where
  "examplePoint =
     \<lparr>getBody1 = 1, getBody2 = 2,
      getWorldPointOnBody1 = Vector3 (1 / 2) 0 0, getWorldPointOnBody2 = Vector3 (1 / 2) 0 0,
      getNormal = Vector3 0 (- 1) 0, getPenetrationDepth = 2 / 100,
      getIsRestingContact = True, getPenetrationImpulse = 3\<rparr>"

definition exampleManifold :: ContactManifold where
  "exampleManifold =
     \<lparr>contactPoints = [examplePoint],
      getFrictionVector1 = Vector3 1 0 0, getFrictionVector2 = Vector3 0 0 1,
      getFrictionImpulse1 = 1, getFrictionImpulse2 = 2, getFrictionTwistImpulse = 3,
      getRollingResistanceImpulse = Vector3 1 2 3\<rparr>"

definition manifoldWithoutFriction :: ContactManifold where
  "manifoldWithoutFriction =
     exampleManifold\<lparr>getFrictionImpulse1 := 0, getFrictionImpulse2 := 0,
       getFrictionTwistImpulse := 0, getRollingResistanceImpulse := 0\<rparr>"

definition boxOnGround :: Island where
  "boxOnGround = \<lparr>getNbBodies = 2, rigidBodies = [1 \<mapsto> boxBody, 2 \<mapsto> groundBody],
     getContactManifolds = [exampleManifold]\<rparr>"

definition boxOnBox :: Island where
  "boxOnBox = \<lparr>getNbBodies = 2, rigidBodies = [1 \<mapsto> boxBody, 2 \<mapsto> lowerBoxBody],
     getContactManifolds = [exampleManifold]\<rparr>"

definition boxOnBoxWithoutFriction :: Island where
  "boxOnBoxWithoutFriction =
     \<lparr>getNbBodies = 2, rigidBodies = [1 \<mapsto> boxBody, 2 \<mapsto> lowerBoxBody],
      getContactManifolds = [manifoldWithoutFriction]\<rparr>"

definition platformOnGround :: Island where
  "platformOnGround = \<lparr>getNbBodies = 2, rigidBodies = [1 \<mapsto> platformBody, 2 \<mapsto> groundBody],
     getContactManifolds = [exampleManifold]\<rparr>"

text \<open>A solver bound to four velocity arrays of two cells each, at the addresses 100,
  200, 300 and 400; body 1 has the velocity index 0 and moves, body 2 has the index 1.\<close>

definition exampleSolver :: ContactSolver where
  "exampleSolver =
     \<lparr>mSplitLinearVelocities = 300, mSplitAngularVelocities = 400,
      mLinearVelocities = 100, mAngularVelocities = 200,
      velocityMemory = (\<lambda>a. if a = 100 then Vector3 (- 1) (- 1) 0 else 0),
      mContactConstraints = [], mPenetrationConstraints = [], mFrictionConstraints = [],
      mNbContactManifolds = 0, mNbPenetrationConstraints = 0, mNbFrictionConstraints = 0,
      mTimeStep = 0, mMapBodyToConstrainedVelocityIndex = [1 \<mapsto> 0, 2 \<mapsto> 1],
      mIsWarmStartingActive = True, mIsSplitImpulseActive = True,
      mIsSolveFrictionAtContactManifoldCenterActive = True\<rparr>"

text \<open>The solver after \<open>initializeForIsland\<close> on the two boxes, with a time step of 1/60.\<close>

definition initializedSolver :: ContactSolver where
  "initializedSolver =
     (case initializeForIsland exampleEnv (1 / 60) boxOnBox exampleSolver of
        Inr st \<Rightarrow> fst st
      | Inl e \<Rightarrow> exampleSolver)"

text \<open>The same for the two boxes with no friction impulse cached: the state in which
  \<open>warmStart\<close> applies the cached penetration impulse only.\<close>

definition solverBeforeWarmStart :: ContactSolver where
  "solverBeforeWarmStart =
     (case initializeForIsland exampleEnv (1 / 60) boxOnBoxWithoutFriction exampleSolver of
        Inr st \<Rightarrow> fst st
      | Inl e \<Rightarrow> exampleSolver)"

text \<open>A manifold with five contact points, one more than the four slots allocated for
  a manifold, and the island of the two boxes in contact through it.\<close>

definition crowdedManifold :: ContactManifold where
  "crowdedManifold = exampleManifold\<lparr>contactPoints :=
     [examplePoint, examplePoint, examplePoint, examplePoint, examplePoint]\<rparr>"

definition crowdedIsland :: Island where
  "crowdedIsland = boxOnBox\<lparr>getContactManifolds := [crowdedManifold]\<rparr>"


text \<open>The calls of one iteration after a warm start.\<close>

definition oneIteration :: "sweep list" where
  "oneIteration = [WarmStart, ResetTotalPenetrationImpulse, SolvePenetrationConstraints,
                   SolveFrictionConstraints]"

text \<open>The two boxes with a negative penetration impulse cached on their contact point.\<close>

definition pointWithNegativeCache :: ContactPoint where
  "pointWithNegativeCache = examplePoint\<lparr>getPenetrationImpulse := - 3\<rparr>"

definition islandWithNegativeCache :: Island where
  "islandWithNegativeCache = boxOnBox\<lparr>getContactManifolds :=
     [exampleManifold\<lparr>contactPoints := [pointWithNegativeCache]\<rparr>]\<rparr>"

text \<open>An island of \<open>2 ^ 30\<close> contact manifolds, each with one contact point.\<close>

definition hugeIsland :: Island where
  "hugeIsland = boxOnBox\<lparr>getContactManifolds := replicate (2 ^ 30) exampleManifold\<rparr>"

section \<open>Evaluating the model\<close>

lemmas vector_defs = zero_Vector3_def plus_Vector3_def minus_Vector3_def uminus_Vector3_def
  smul_def sdiv_def dot_def cross_def vlength_def zero_Matrix3x3_def plus_Matrix3x3_def
  mvmul_def

lemmas initialize_defs = initializeForIsland_def initializeManifold_def
  initializeContactPoint_def beginFrictionConstraint_def frictionConstraintAtCenter_def
  frictionConstraintMasses_def finishFrictionConstraint_def computeFrictionVectors_def
  uint_times_def

lemmas example_defs = exampleEnv_def exampleUnit_def exampleClamp_def exampleInverse_def
  identityMatrix_def freshPenetrationConstraint_def freshFrictionConstraint_def
  boxBody_def lowerBoxBody_def groundBody_def platformBody_def examplePoint_def
  exampleManifold_def manifoldWithoutFriction_def boxOnGround_def boxOnBox_def
  boxOnBoxWithoutFriction_def platformOnGround_def exampleSolver_def

section \<open>The effective masses stored by initializeForIsland\<close>

text \<open>
  Claim C1 says that the stored inverse effective mass is \<open>1 / K\<close> when the denominator
  \<open>K\<close> is positive and \<open>0\<close> when it is not, for the penetration mass and for the three
  friction masses. The source does not do the second: its conditional expression assigns
  only when \<open>K > 0\<close>. A kinematic platform resting on the static ground has inverse masses
  and inverse inertia tensors zero, so all four denominators are \<open>0\<close>; after
  \<open>initializeForIsland\<close> the four fields still hold what the fresh slots held (\<open>7\<close> in the
  example), not \<open>0\<close>.
\<close>

theorem initializeForIsland_leaves_inverse_masses_unassigned:
  "\<exists>st. initializeForIsland exampleEnv (1 / 60) platformOnGround exampleSolver = Inr st \<and>
     mNbPenetrationConstraints (fst st) = 1 \<and>
     mNbFrictionConstraints (fst st) = 1 \<and>
     inversePenetrationMass (mPenetrationConstraints (fst st) ! 0) = 7 \<and>
     inverseFriction1Mass (mFrictionConstraints (fst st) ! 0) = 7 \<and>
     inverseFriction2Mass (mFrictionConstraints (fst st) ! 0) = 7 \<and>
     inverseTwistFrictionMass (mFrictionConstraints (fst st) ! 0) = 7"
  by (simp add: initialize_defs example_defs vector_defs Let_def cong: let_weak_cong)

section \<open>The angular velocities written by warmStart\<close>

text \<open>
  Claim C2 says that \<open>warmStart\<close> adds \<open>Iinv_B (+(rB \<times> n) lambda)\<close> to the angular velocity
  of body B of a resting penetration constraint. The source adds
  \<open>Iinv_B (-(rA \<times> n) lambda)\<close>. For the upper box resting on the lower box, with the cached
  impulse \<open>3\<close>, both cross products are \<open>(0, 0, -1/2)\<close> and \<open>Iinv_B\<close> is the identity; the
  angular velocity of body B (the cell 201) goes from zero to \<open>(0, 0, 3/2)\<close>, where the
  claim gives \<open>(0, 0, -3/2)\<close>.
\<close>

theorem warmStart_body2_uses_r1CrossN:
  "\<exists>s. warmStart solverBeforeWarmStart = Inr s \<and>
     isRestingContact (mPenetrationConstraints solverBeforeWarmStart ! 0) \<and>
     penetrationImpulse (mPenetrationConstraints solverBeforeWarmStart ! 0) = 3 \<and>
     r1CrossN (mPenetrationConstraints solverBeforeWarmStart ! 0) = Vector3 0 0 (- 1 / 2) \<and>
     r2CrossN (mPenetrationConstraints solverBeforeWarmStart ! 0) = Vector3 0 0 (- 1 / 2) \<and>
     PenetrationConstraint.inverseInertiaTensorBody2
       (mPenetrationConstraints solverBeforeWarmStart ! 0) = identityMatrix \<and>
     mAngularVelocities solverBeforeWarmStart +
       PenetrationConstraint.indexBody2 (mPenetrationConstraints solverBeforeWarmStart ! 0) = 201 \<and>
     velocityMemory solverBeforeWarmStart 201 = Vector3 0 0 0 \<and>
     velocityMemory s 201 = Vector3 0 0 (3 / 2) \<and>
     velocityMemory s 201 \<noteq>
       velocityMemory solverBeforeWarmStart 201 +
       mvmul (PenetrationConstraint.inverseInertiaTensorBody2
                (mPenetrationConstraints solverBeforeWarmStart ! 0))
             (smul (penetrationImpulse (mPenetrationConstraints solverBeforeWarmStart ! 0))
                   (r2CrossN (mPenetrationConstraints solverBeforeWarmStart ! 0)))"
  by (simp add: solverBeforeWarmStart_def warmStart_def warmStartPenetration_def
      warmStartFriction_def projectOldFrictionImpulses_def addTo_def initialize_defs
      example_defs vector_defs Let_def cong: let_weak_cong)

section \<open>The friction impulses initialised by initializeForIsland\<close>

text \<open>
  Claim C3 says that with warm starting enabled \<open>initializeForIsland\<close> takes all four
  accumulated friction impulses, the rolling-resistance impulse included, from the values
  cached on the manifold. The source takes three: under warm starting it never assigns
  \<open>rollingResistanceImpulse\<close>, which \<open>warmStart\<close> then applies and \<open>storeImpulses\<close> caches.
  For the box on the ground the manifold caches \<open>(1, 2, 3)\<close>, the contact is a resting
  one, and the friction constraint keeps the fresh slot's zero vector.
\<close>

theorem initializeForIsland_ignores_cached_rolling_impulse:
  "\<exists>st. initializeForIsland exampleEnv (1 / 60) boxOnGround exampleSolver = Inr st \<and>
     mIsWarmStartingActive (fst st) \<and>
     hasAtLeastOneRestingContactPoint (mFrictionConstraints (fst st) ! 0) \<and>
     getRollingResistanceImpulse (getContactManifolds boxOnGround ! 0) = Vector3 1 2 3 \<and>
     FrictionConstraint.rollingResistanceImpulse (mFrictionConstraints (fst st) ! 0) =
       FrictionConstraint.rollingResistanceImpulse (newFrictionConstraint exampleEnv 0) \<and>
     FrictionConstraint.rollingResistanceImpulse (mFrictionConstraints (fst st) ! 0) =
       Vector3 0 0 0 \<and>
     friction1Impulse (mFrictionConstraints (fst st) ! 0) = 1 \<and>
     friction2Impulse (mFrictionConstraints (fst st) ! 0) = 2 \<and>
     frictionTwistImpulse (mFrictionConstraints (fst st) ! 0) = 3"
  by (simp add: initialize_defs example_defs vector_defs Let_def cong: let_weak_cong)

section \<open>Rules for the loops\<close>

text \<open>
  A loop over \<open>[k..<n]\<close> whose body keeps an invariant \<open>I j\<close> (from turn \<open>j\<close> to turn
  \<open>j + 1\<close>) ends in a state with \<open>I n\<close>, or in an error the body allows.
\<close>

lemma forEach_from_rule:
  assumes step: "\<And>j st. k \<le> j \<Longrightarrow> j < n \<Longrightarrow> I j st \<Longrightarrow>
                   (case body j st of Inl e \<Rightarrow> E e | Inr st' \<Rightarrow> I (Suc j) st')"
    and init: "I k st" and le: "k \<le> n"
  shows "case forEach body [k..<n] st of Inl e \<Rightarrow> E e | Inr st' \<Rightarrow> I n st'"
  using init le step
proof (induction "n - k" arbitrary: k st)
  case 0
  then show ?case by simp
next
  case (Suc d)
  then have kn: "k < n" by linarith
  have upt: "[k..<n] = k # [Suc k..<n]" using kn by (simp add: upt_conv_Cons)
  show ?case
  proof (cases "body k st")
    case (Inl e)
    with Suc.prems(3)[of k st] Suc.prems(1) kn show ?thesis by (simp add: upt)
  next
    case (Inr st')
    with Suc.prems(3)[of k st] Suc.prems(1) kn have I': "I (Suc k) st'" by simp
    have d: "d = n - Suc k" using Suc.hyps(2) by linarith
    have "case forEach body [Suc k..<n] st' of Inl e \<Rightarrow> E e | Inr st'' \<Rightarrow> I n st''"
      by (rule Suc.hyps(1)[OF d I']) (use kn Suc.prems(3) in auto)
    then show ?thesis by (simp add: upt Inr)
  qed
qed

lemma forEach_rule:
  assumes "\<And>j st. j < n \<Longrightarrow> I j st \<Longrightarrow>
             (case body j st of Inl e \<Rightarrow> E e | Inr st' \<Rightarrow> I (Suc j) st')"
    and "I 0 st"
  shows "case forEach body [0..<n] st of Inl e \<Rightarrow> E e | Inr st' \<Rightarrow> I n st'"
  by (rule forEach_from_rule) (use assms in auto)

lemma forEach_total:
  assumes "\<And>j st. j < n \<Longrightarrow> I j st \<Longrightarrow> \<exists>st'. body j st = Inr st' \<and> I (Suc j) st'"
    and "I 0 st"
  shows "\<exists>st'. forEach body [0..<n] st = Inr st' \<and> I n st'"
proof -
  have "case forEach body [0..<n] st of Inl e \<Rightarrow> False | Inr st' \<Rightarrow> I n st'"
  proof (rule forEach_rule)
    fix j st assume "j < n" "I j st"
    from assms(1)[OF this] show "case body j st of Inl e \<Rightarrow> False | Inr st' \<Rightarrow> I (Suc j) st'"
      by auto
  qed (rule assms(2))
  then show ?thesis by (cases "forEach body [0..<n] st") auto
qed

section \<open>The steps of the sweeps, field by field\<close>

lemma addTo_simps [simp]:
  "velocityMemory (addTo a d s) = (velocityMemory s)(a := velocityMemory s a + d)"
  "mPenetrationConstraints (addTo a d s) = mPenetrationConstraints s"
  "mFrictionConstraints (addTo a d s) = mFrictionConstraints s"
  "mContactConstraints (addTo a d s) = mContactConstraints s"
  "mLinearVelocities (addTo a d s) = mLinearVelocities s"
  "mAngularVelocities (addTo a d s) = mAngularVelocities s"
  "mSplitLinearVelocities (addTo a d s) = mSplitLinearVelocities s"
  "mSplitAngularVelocities (addTo a d s) = mSplitAngularVelocities s"
  "mNbPenetrationConstraints (addTo a d s) = mNbPenetrationConstraints s"
  "mNbFrictionConstraints (addTo a d s) = mNbFrictionConstraints s"
  "mNbContactManifolds (addTo a d s) = mNbContactManifolds s"
  "mTimeStep (addTo a d s) = mTimeStep s"
  "mIsSplitImpulseActive (addTo a d s) = mIsSplitImpulseActive s"
  "mIsWarmStartingActive (addTo a d s) = mIsWarmStartingActive s"
  "mMapBodyToConstrainedVelocityIndex (addTo a d s) = mMapBodyToConstrainedVelocityIndex s"
  by (simp_all add: addTo_def)

lemma solvePenetrationVelocity_fields [simp]:
  "mLinearVelocities (solvePenetrationVelocity i s) = mLinearVelocities s"
  "mAngularVelocities (solvePenetrationVelocity i s) = mAngularVelocities s"
  "mSplitLinearVelocities (solvePenetrationVelocity i s) = mSplitLinearVelocities s"
  "mSplitAngularVelocities (solvePenetrationVelocity i s) = mSplitAngularVelocities s"
  "mNbPenetrationConstraints (solvePenetrationVelocity i s) = mNbPenetrationConstraints s"
  "mNbFrictionConstraints (solvePenetrationVelocity i s) = mNbFrictionConstraints s"
  "mTimeStep (solvePenetrationVelocity i s) = mTimeStep s"
  "mIsSplitImpulseActive (solvePenetrationVelocity i s) = mIsSplitImpulseActive s"
  by (simp_all add: solvePenetrationVelocity_def Let_def)

lemma solvePenetrationVelocity_P:
  "mPenetrationConstraints (solvePenetrationVelocity i s) =
     (mPenetrationConstraints s)[i := (mPenetrationConstraints s ! i)
        \<lparr>penetrationImpulse := max (penetrationImpulse (mPenetrationConstraints s ! i) +
            penetrationDeltaLambda s (mPenetrationConstraints s ! i)) 0\<rparr>]"
  by (simp add: solvePenetrationVelocity_def Let_def)

lemma solvePenetrationVelocity_F:
  "mFrictionConstraints (solvePenetrationVelocity i s) =
     (mFrictionConstraints s)[indexFrictionConstraint (mPenetrationConstraints s ! i) :=
        (mFrictionConstraints s ! indexFrictionConstraint (mPenetrationConstraints s ! i))
        \<lparr>totalPenetrationImpulse :=
           totalPenetrationImpulse
             (mFrictionConstraints s ! indexFrictionConstraint (mPenetrationConstraints s ! i)) +
           max (penetrationImpulse (mPenetrationConstraints s ! i) +
                penetrationDeltaLambda s (mPenetrationConstraints s ! i)) 0\<rparr>]"
  by (simp add: solvePenetrationVelocity_def Let_def)

lemma solvePenetrationVelocity_memory:
  "velocityMemory (solvePenetrationVelocity i s) a =
     (let c = mPenetrationConstraints s ! i;
          d = max (penetrationImpulse c + penetrationDeltaLambda s c) 0 - penetrationImpulse c;
          m0 = velocityMemory s;
          a1v = mLinearVelocities s + PenetrationConstraint.indexBody1 c;
          a1w = mAngularVelocities s + PenetrationConstraint.indexBody1 c;
          a2v = mLinearVelocities s + PenetrationConstraint.indexBody2 c;
          a2w = mAngularVelocities s + PenetrationConstraint.indexBody2 c;
          m1 = m0(a1v := m0 a1v + smul (PenetrationConstraint.massInverseBody1 c)
                                    (- smul d (PenetrationConstraint.normal c)));
          m2 = m1(a1w := m1 a1w + mvmul (PenetrationConstraint.inverseInertiaTensorBody1 c)
                                    (smul d (- r1CrossN c)));
          m3 = m2(a2v := m2 a2v + smul (PenetrationConstraint.massInverseBody2 c)
                                    (smul d (PenetrationConstraint.normal c)));
          m4 = m3(a2w := m3 a2w + mvmul (PenetrationConstraint.inverseInertiaTensorBody2 c)
                                    (smul d (r2CrossN c)))
      in m4 a)"
  by (simp add: solvePenetrationVelocity_def Let_def)

lemma solvePenetrationSplit_fields [simp]:
  "mLinearVelocities (solvePenetrationSplit i s) = mLinearVelocities s"
  "mAngularVelocities (solvePenetrationSplit i s) = mAngularVelocities s"
  "mSplitLinearVelocities (solvePenetrationSplit i s) = mSplitLinearVelocities s"
  "mSplitAngularVelocities (solvePenetrationSplit i s) = mSplitAngularVelocities s"
  "mNbPenetrationConstraints (solvePenetrationSplit i s) = mNbPenetrationConstraints s"
  "mNbFrictionConstraints (solvePenetrationSplit i s) = mNbFrictionConstraints s"
  "mTimeStep (solvePenetrationSplit i s) = mTimeStep s"
  "mIsSplitImpulseActive (solvePenetrationSplit i s) = mIsSplitImpulseActive s"
  "mFrictionConstraints (solvePenetrationSplit i s) = mFrictionConstraints s"
  by (simp_all add: solvePenetrationSplit_def Let_def)

lemma solvePenetrationSplit_P:
  "mPenetrationConstraints (solvePenetrationSplit i s) =
     (mPenetrationConstraints s)[i := (mPenetrationConstraints s ! i)
        \<lparr>penetrationSplitImpulse :=
           max (penetrationSplitImpulse (mPenetrationConstraints s ! i) +
                - (penetrationJvSplit s (mPenetrationConstraints s ! i) +
                   biasPenetrationDepth s (mPenetrationConstraints s ! i)) *
                inversePenetrationMass (mPenetrationConstraints s ! i)) 0\<rparr>]"
  by (simp add: solvePenetrationSplit_def Let_def)

lemma solvePenetrationSplit_memory:
  "velocityMemory (solvePenetrationSplit i s) a =
     (let c = mPenetrationConstraints s ! i;
          d = max (penetrationSplitImpulse c +
                   - (penetrationJvSplit s c + biasPenetrationDepth s c) *
                   inversePenetrationMass c) 0 -
              penetrationSplitImpulse c;
          m0 = velocityMemory s;
          a1v = mSplitLinearVelocities s + PenetrationConstraint.indexBody1 c;
          a1w = mSplitAngularVelocities s + PenetrationConstraint.indexBody1 c;
          a2v = mSplitLinearVelocities s + PenetrationConstraint.indexBody2 c;
          a2w = mSplitAngularVelocities s + PenetrationConstraint.indexBody2 c;
          m1 = m0(a1v := m0 a1v + smul (PenetrationConstraint.massInverseBody1 c)
                                    (- smul d (PenetrationConstraint.normal c)));
          m2 = m1(a1w := m1 a1w + mvmul (PenetrationConstraint.inverseInertiaTensorBody1 c)
                                    (smul d (- r1CrossN c)));
          m3 = m2(a2v := m2 a2v + smul (PenetrationConstraint.massInverseBody2 c)
                                    (smul d (PenetrationConstraint.normal c)));
          m4 = m3(a2w := m3 a2w + mvmul (PenetrationConstraint.inverseInertiaTensorBody2 c)
                                    (smul d (r2CrossN c)))
      in m4 a)"
  by (simp add: solvePenetrationSplit_def Let_def)

lemma solveFriction1_fields [simp]:
  "mLinearVelocities (solveFriction1 i s) = mLinearVelocities s"
  "mAngularVelocities (solveFriction1 i s) = mAngularVelocities s"
  "mSplitLinearVelocities (solveFriction1 i s) = mSplitLinearVelocities s"
  "mSplitAngularVelocities (solveFriction1 i s) = mSplitAngularVelocities s"
  "mNbPenetrationConstraints (solveFriction1 i s) = mNbPenetrationConstraints s"
  "mNbFrictionConstraints (solveFriction1 i s) = mNbFrictionConstraints s"
  "mTimeStep (solveFriction1 i s) = mTimeStep s"
  "mIsSplitImpulseActive (solveFriction1 i s) = mIsSplitImpulseActive s"
  "mPenetrationConstraints (solveFriction1 i s) = mPenetrationConstraints s"
  by (simp_all add: solveFriction1_def Let_def)

lemma solveFriction1_F:
  "mFrictionConstraints (solveFriction1 i s) =
     (mFrictionConstraints s)[i := (mFrictionConstraints s ! i)
        \<lparr>friction1Impulse :=
           max (- (frictionCoefficient (mFrictionConstraints s ! i) *
                   totalPenetrationImpulse (mFrictionConstraints s ! i)))
               (min (friction1Impulse (mFrictionConstraints s ! i) +
                     - frictionJv s (mFrictionConstraints s ! i)
                         (frictionVector1 (mFrictionConstraints s ! i)) *
                     inverseFriction1Mass (mFrictionConstraints s ! i))
                    (frictionCoefficient (mFrictionConstraints s ! i) *
                     totalPenetrationImpulse (mFrictionConstraints s ! i)))\<rparr>]"
  by (simp add: solveFriction1_def Let_def)

lemma solveFriction1_memory:
  "velocityMemory (solveFriction1 i s) a =
     (let c = mFrictionConstraints s ! i;
          l = frictionCoefficient c * totalPenetrationImpulse c;
          d = max (- l) (min (friction1Impulse c + - frictionJv s c (frictionVector1 c) * inverseFriction1Mass c) l) -
              friction1Impulse c;
          m0 = velocityMemory s;
          a1v = mLinearVelocities s + FrictionConstraint.indexBody1 c;
          a1w = mAngularVelocities s + FrictionConstraint.indexBody1 c;
          a2v = mLinearVelocities s + FrictionConstraint.indexBody2 c;
          a2w = mAngularVelocities s + FrictionConstraint.indexBody2 c;
          m1 = m0(a1v := m0 a1v + smul (FrictionConstraint.massInverseBody1 c)
                                    (- smul d (frictionVector1 c)));
          m2 = m1(a1w := m1 a1w + mvmul (FrictionConstraint.inverseInertiaTensorBody1 c)
                                    (smul d (- r1CrossT1 c)));
          m3 = m2(a2v := m2 a2v + smul (FrictionConstraint.massInverseBody2 c)
                                    (smul d (frictionVector1 c)));
          m4 = m3(a2w := m3 a2w + mvmul (FrictionConstraint.inverseInertiaTensorBody2 c)
                                    (smul d (r2CrossT1 c)))
      in m4 a)"
  by (simp add: solveFriction1_def Let_def)

lemma solveFriction2_fields [simp]:
  "mLinearVelocities (solveFriction2 i s) = mLinearVelocities s"
  "mAngularVelocities (solveFriction2 i s) = mAngularVelocities s"
  "mSplitLinearVelocities (solveFriction2 i s) = mSplitLinearVelocities s"
  "mSplitAngularVelocities (solveFriction2 i s) = mSplitAngularVelocities s"
  "mNbPenetrationConstraints (solveFriction2 i s) = mNbPenetrationConstraints s"
  "mNbFrictionConstraints (solveFriction2 i s) = mNbFrictionConstraints s"
  "mTimeStep (solveFriction2 i s) = mTimeStep s"
  "mIsSplitImpulseActive (solveFriction2 i s) = mIsSplitImpulseActive s"
  "mPenetrationConstraints (solveFriction2 i s) = mPenetrationConstraints s"
  by (simp_all add: solveFriction2_def Let_def)

lemma solveFriction2_F:
  "mFrictionConstraints (solveFriction2 i s) =
     (mFrictionConstraints s)[i := (mFrictionConstraints s ! i)
        \<lparr>friction2Impulse :=
           max (- (frictionCoefficient (mFrictionConstraints s ! i) *
                   totalPenetrationImpulse (mFrictionConstraints s ! i)))
               (min (friction2Impulse (mFrictionConstraints s ! i) +
                     - frictionJv s (mFrictionConstraints s ! i)
                         (frictionVector2 (mFrictionConstraints s ! i)) *
                     inverseFriction2Mass (mFrictionConstraints s ! i))
                    (frictionCoefficient (mFrictionConstraints s ! i) *
                     totalPenetrationImpulse (mFrictionConstraints s ! i)))\<rparr>]"
  by (simp add: solveFriction2_def Let_def)

lemma solveFriction2_memory:
  "velocityMemory (solveFriction2 i s) a =
     (let c = mFrictionConstraints s ! i;
          l = frictionCoefficient c * totalPenetrationImpulse c;
          d = max (- l) (min (friction2Impulse c + - frictionJv s c (frictionVector2 c) * inverseFriction2Mass c) l) -
              friction2Impulse c;
          m0 = velocityMemory s;
          a1v = mLinearVelocities s + FrictionConstraint.indexBody1 c;
          a1w = mAngularVelocities s + FrictionConstraint.indexBody1 c;
          a2v = mLinearVelocities s + FrictionConstraint.indexBody2 c;
          a2w = mAngularVelocities s + FrictionConstraint.indexBody2 c;
          m1 = m0(a1v := m0 a1v + smul (FrictionConstraint.massInverseBody1 c)
                                    (- smul d (frictionVector2 c)));
          m2 = m1(a1w := m1 a1w + mvmul (FrictionConstraint.inverseInertiaTensorBody1 c)
                                    (smul d (- r1CrossT2 c)));
          m3 = m2(a2v := m2 a2v + smul (FrictionConstraint.massInverseBody2 c)
                                    (smul d (frictionVector2 c)));
          m4 = m3(a2w := m3 a2w + mvmul (FrictionConstraint.inverseInertiaTensorBody2 c)
                                    (smul d (r2CrossT2 c)))
      in m4 a)"
  by (simp add: solveFriction2_def Let_def)

lemma solveFrictionTwist_fields [simp]:
  "mLinearVelocities (solveFrictionTwist i s) = mLinearVelocities s"
  "mAngularVelocities (solveFrictionTwist i s) = mAngularVelocities s"
  "mSplitLinearVelocities (solveFrictionTwist i s) = mSplitLinearVelocities s"
  "mSplitAngularVelocities (solveFrictionTwist i s) = mSplitAngularVelocities s"
  "mNbPenetrationConstraints (solveFrictionTwist i s) = mNbPenetrationConstraints s"
  "mNbFrictionConstraints (solveFrictionTwist i s) = mNbFrictionConstraints s"
  "mTimeStep (solveFrictionTwist i s) = mTimeStep s"
  "mIsSplitImpulseActive (solveFrictionTwist i s) = mIsSplitImpulseActive s"
  "mPenetrationConstraints (solveFrictionTwist i s) = mPenetrationConstraints s"
  by (simp_all add: solveFrictionTwist_def Let_def)

lemma solveFrictionTwist_F:
  "mFrictionConstraints (solveFrictionTwist i s) =
     (mFrictionConstraints s)[i := (mFrictionConstraints s ! i)
        \<lparr>frictionTwistImpulse :=
           max (- (frictionCoefficient (mFrictionConstraints s ! i) *
                   totalPenetrationImpulse (mFrictionConstraints s ! i)))
               (min (frictionTwistImpulse (mFrictionConstraints s ! i) +
                     - frictionTwistJv s (mFrictionConstraints s ! i) *
                     inverseTwistFrictionMass (mFrictionConstraints s ! i))
                    (frictionCoefficient (mFrictionConstraints s ! i) *
                     totalPenetrationImpulse (mFrictionConstraints s ! i)))\<rparr>]"
  by (simp add: solveFrictionTwist_def Let_def)

lemma solveFrictionTwist_memory:
  "velocityMemory (solveFrictionTwist i s) a =
     (let c = mFrictionConstraints s ! i;
          l = frictionCoefficient c * totalPenetrationImpulse c;
          d = max (- l) (min (frictionTwistImpulse c +
                              - frictionTwistJv s c * inverseTwistFrictionMass c) l) -
              frictionTwistImpulse c;
          m0 = velocityMemory s;
          a1v = mLinearVelocities s + FrictionConstraint.indexBody1 c;
          a1w = mAngularVelocities s + FrictionConstraint.indexBody1 c;
          a2v = mLinearVelocities s + FrictionConstraint.indexBody2 c;
          a2w = mAngularVelocities s + FrictionConstraint.indexBody2 c;
          m1 = m0(a1v := m0 a1v + smul (FrictionConstraint.massInverseBody1 c) (Vector3 0 0 0));
          m2 = m1(a1w := m1 a1w + mvmul (FrictionConstraint.inverseInertiaTensorBody1 c)
                                    (- smul d (FrictionConstraint.normal c)));
          m3 = m2(a2v := m2 a2v + smul (FrictionConstraint.massInverseBody2 c) (Vector3 0 0 0));
          m4 = m3(a2w := m3 a2w + mvmul (FrictionConstraint.inverseInertiaTensorBody2 c)
                                    (smul d (FrictionConstraint.normal c)))
      in m4 a)"
  by (simp add: solveFrictionTwist_def Let_def)

lemma solveRollingResistance_fields [simp]:
  "mLinearVelocities (solveRollingResistance env i s) = mLinearVelocities s"
  "mAngularVelocities (solveRollingResistance env i s) = mAngularVelocities s"
  "mSplitLinearVelocities (solveRollingResistance env i s) = mSplitLinearVelocities s"
  "mSplitAngularVelocities (solveRollingResistance env i s) = mSplitAngularVelocities s"
  "mNbPenetrationConstraints (solveRollingResistance env i s) = mNbPenetrationConstraints s"
  "mNbFrictionConstraints (solveRollingResistance env i s) = mNbFrictionConstraints s"
  "mTimeStep (solveRollingResistance env i s) = mTimeStep s"
  "mIsSplitImpulseActive (solveRollingResistance env i s) = mIsSplitImpulseActive s"
  "mPenetrationConstraints (solveRollingResistance env i s) = mPenetrationConstraints s"
  by (simp_all add: solveRollingResistance_def Let_def)

lemma solveRollingResistance_F:
  "mFrictionConstraints (solveRollingResistance env i s) =
     (if rollingResistanceFactor (mFrictionConstraints s ! i) > 0
      then (mFrictionConstraints s)[i := (mFrictionConstraints s ! i)
        \<lparr>FrictionConstraint.rollingResistanceImpulse :=
           clamp env
             (FrictionConstraint.rollingResistanceImpulse (mFrictionConstraints s ! i) +
              mvmul (inverseRollingResistance (mFrictionConstraints s ! i))
                (- (velocityMemory s (mAngularVelocities s +
                      FrictionConstraint.indexBody2 (mFrictionConstraints s ! i)) -
                    velocityMemory s (mAngularVelocities s +
                      FrictionConstraint.indexBody1 (mFrictionConstraints s ! i)))))
             (rollingResistanceFactor (mFrictionConstraints s ! i) *
              totalPenetrationImpulse (mFrictionConstraints s ! i))\<rparr>]
      else mFrictionConstraints s)"
  by (simp add: solveRollingResistance_def Let_def)

lemma solveRollingResistance_linear:
  "a \<noteq> mAngularVelocities s + FrictionConstraint.indexBody1 (mFrictionConstraints s ! i) \<Longrightarrow>
   a \<noteq> mAngularVelocities s + FrictionConstraint.indexBody2 (mFrictionConstraints s ! i) \<Longrightarrow>
   velocityMemory (solveRollingResistance env i s) a = velocityMemory s a"
  by (simp add: solveRollingResistance_def Let_def)

section \<open>The example state\<close>

lemma initializedSolver_facts:
  "mLinearVelocities initializedSolver = 100"
  "mAngularVelocities initializedSolver = 200"
  "mSplitLinearVelocities initializedSolver = 300"
  "mSplitAngularVelocities initializedSolver = 400"
  "mIsSplitImpulseActive initializedSolver"
  "mNbPenetrationConstraints initializedSolver = 1"
  "mNbFrictionConstraints initializedSolver = 1"
  "length (mPenetrationConstraints initializedSolver) = 4"
  "length (mFrictionConstraints initializedSolver) = 1"
  "PenetrationConstraint.indexBody1 (mPenetrationConstraints initializedSolver ! 0) = 0"
  "PenetrationConstraint.indexBody2 (mPenetrationConstraints initializedSolver ! 0) = 1"
  "PenetrationConstraint.massInverseBody1 (mPenetrationConstraints initializedSolver ! 0) = 1"
  "PenetrationConstraint.massInverseBody2 (mPenetrationConstraints initializedSolver ! 0) = 1 / 2"
  "indexFrictionConstraint (mPenetrationConstraints initializedSolver ! 0) = 0"
  "penetrationImpulse (mPenetrationConstraints initializedSolver ! 0) = 3"
  "penetrationSplitImpulse (mPenetrationConstraints initializedSolver ! 0) = 0"
  "FrictionConstraint.indexBody1 (mFrictionConstraints initializedSolver ! 0) = 0"
  "FrictionConstraint.indexBody2 (mFrictionConstraints initializedSolver ! 0) = 1"
  "FrictionConstraint.massInverseBody1 (mFrictionConstraints initializedSolver ! 0) = 1"
  "FrictionConstraint.massInverseBody2 (mFrictionConstraints initializedSolver ! 0) = 1 / 2"
  "frictionCoefficient (mFrictionConstraints initializedSolver ! 0) = 1 / 2"
  "totalPenetrationImpulse (mFrictionConstraints initializedSolver ! 0) = 0"
  "hasAtLeastOneRestingContactPoint (mFrictionConstraints initializedSolver ! 0)"
  "frictionVector1 (mFrictionConstraints initializedSolver ! 0) = Vector3 1 0 0"
  "frictionVector2 (mFrictionConstraints initializedSolver ! 0) = Vector3 0 0 1"
  "oldFrictionVector1 (mFrictionConstraints initializedSolver ! 0) = Vector3 1 0 0"
  "oldFrictionVector2 (mFrictionConstraints initializedSolver ! 0) = Vector3 0 0 1"
  "friction1Impulse (mFrictionConstraints initializedSolver ! 0) = 1"
  "friction2Impulse (mFrictionConstraints initializedSolver ! 0) = 2"
  by (simp_all add: initializedSolver_def initialize_defs example_defs vector_defs Let_def
      cong: let_weak_cong)

section \<open>The split impulse and the velocity buffers\<close>

lemma regionsApart_cells:
  "regionsApart p q nb \<Longrightarrow> i < nb \<Longrightarrow> j < nb \<Longrightarrow> p + i \<noteq> q + j"
  "regionsApart p q nb \<Longrightarrow> i < nb \<Longrightarrow> j < nb \<Longrightarrow> q + j \<noteq> p + i"
  by (auto simp: regionsApart_def)

lemma penetrationJvSplit_reads:
  assumes "\<forall>a \<in> {mSplitLinearVelocities s + PenetrationConstraint.indexBody1 c,
                 mSplitAngularVelocities s + PenetrationConstraint.indexBody1 c,
                 mSplitLinearVelocities s + PenetrationConstraint.indexBody2 c,
                 mSplitAngularVelocities s + PenetrationConstraint.indexBody2 c}.
             mem a = velocityMemory s a"
  shows "penetrationJvSplit (s\<lparr>velocityMemory := mem\<rparr>) c = penetrationJvSplit s c"
  using assms by (simp add: penetrationJvSplit_def)

lemma penetrationJv_reads:
  assumes "\<forall>a \<in> {mLinearVelocities s + PenetrationConstraint.indexBody1 c,
                 mAngularVelocities s + PenetrationConstraint.indexBody1 c,
                 mLinearVelocities s + PenetrationConstraint.indexBody2 c,
                 mAngularVelocities s + PenetrationConstraint.indexBody2 c}.
             mem a = velocityMemory s a"
  shows "penetrationJv (s\<lparr>velocityMemory := mem\<rparr>) c = penetrationJv s c"
  using assms by (simp add: penetrationJv_def)

lemma biasPenetrationDepth_memory [simp]:
  "biasPenetrationDepth (s\<lparr>velocityMemory := mem\<rparr>) c = biasPenetrationDepth s c"
  by (simp add: biasPenetrationDepth_def)

text \<open>
  Claim C7: the split-impulse part of the loop body reads and writes only the split
  velocity arrays, and the projection on the velocities never writes the split arrays.
  When the four arrays do not overlap, no cell of the linear and angular velocity arrays
  is changed by the split part, and no cell of the split arrays by the velocity part.
  Each part changes no address but the four cells of its two bodies in its own two
  arrays, and what the split part stores in the constraint depends on the memory through
  the split arrays only.
\<close>

theorem split_substep_frame:
  assumes "buffersDisjoint s nb"
    and "PenetrationConstraint.indexBody1 (mPenetrationConstraints s ! i) < nb"
    and "PenetrationConstraint.indexBody2 (mPenetrationConstraints s ! i) < nb"
    and "j < nb"
  shows "velocityMemory (solvePenetrationSplit i s) (mLinearVelocities s + j) =
           velocityMemory s (mLinearVelocities s + j) \<and>
         velocityMemory (solvePenetrationSplit i s) (mAngularVelocities s + j) =
           velocityMemory s (mAngularVelocities s + j) \<and>
         velocityMemory (solvePenetrationVelocity i s) (mSplitLinearVelocities s + j) =
           velocityMemory s (mSplitLinearVelocities s + j) \<and>
         velocityMemory (solvePenetrationVelocity i s) (mSplitAngularVelocities s + j) =
           velocityMemory s (mSplitAngularVelocities s + j) \<and>
         (\<forall>a. a \<notin> {mSplitLinearVelocities s +
                       PenetrationConstraint.indexBody1 (mPenetrationConstraints s ! i),
                     mSplitAngularVelocities s +
                       PenetrationConstraint.indexBody1 (mPenetrationConstraints s ! i),
                     mSplitLinearVelocities s +
                       PenetrationConstraint.indexBody2 (mPenetrationConstraints s ! i),
                     mSplitAngularVelocities s +
                       PenetrationConstraint.indexBody2 (mPenetrationConstraints s ! i)} \<longrightarrow>
              velocityMemory (solvePenetrationSplit i s) a = velocityMemory s a) \<and>
         (\<forall>a. a \<notin> {mLinearVelocities s +
                       PenetrationConstraint.indexBody1 (mPenetrationConstraints s ! i),
                     mAngularVelocities s +
                       PenetrationConstraint.indexBody1 (mPenetrationConstraints s ! i),
                     mLinearVelocities s +
                       PenetrationConstraint.indexBody2 (mPenetrationConstraints s ! i),
                     mAngularVelocities s +
                       PenetrationConstraint.indexBody2 (mPenetrationConstraints s ! i)} \<longrightarrow>
              velocityMemory (solvePenetrationVelocity i s) a = velocityMemory s a) \<and>
         (\<forall>mem. (\<forall>k < nb. mem (mSplitLinearVelocities s + k) =
                             velocityMemory s (mSplitLinearVelocities s + k) \<and>
                           mem (mSplitAngularVelocities s + k) =
                             velocityMemory s (mSplitAngularVelocities s + k)) \<longrightarrow>
              mPenetrationConstraints (solvePenetrationSplit i (s\<lparr>velocityMemory := mem\<rparr>)) =
              mPenetrationConstraints (solvePenetrationSplit i s))"
proof -
  let ?c = "mPenetrationConstraints s ! i"
  have LA: "regionsApart (mLinearVelocities s) (mSplitLinearVelocities s) nb"
    and LB: "regionsApart (mLinearVelocities s) (mSplitAngularVelocities s) nb"
    and AA: "regionsApart (mAngularVelocities s) (mSplitLinearVelocities s) nb"
    and AB: "regionsApart (mAngularVelocities s) (mSplitAngularVelocities s) nb"
    using assms(1) by (simp_all add: buffersDisjoint_def)
  have 1: "velocityMemory (solvePenetrationSplit i s) (mLinearVelocities s + j) =
           velocityMemory s (mLinearVelocities s + j)"
    using regionsApart_cells[OF LA assms(4) assms(2)] regionsApart_cells[OF LB assms(4) assms(2)]
      regionsApart_cells[OF LA assms(4) assms(3)] regionsApart_cells[OF LB assms(4) assms(3)]
    by (simp add: solvePenetrationSplit_memory Let_def)
  have 2: "velocityMemory (solvePenetrationSplit i s) (mAngularVelocities s + j) =
           velocityMemory s (mAngularVelocities s + j)"
    using regionsApart_cells[OF AA assms(4) assms(2)] regionsApart_cells[OF AB assms(4) assms(2)]
      regionsApart_cells[OF AA assms(4) assms(3)] regionsApart_cells[OF AB assms(4) assms(3)]
    by (simp add: solvePenetrationSplit_memory Let_def)
  have 3: "velocityMemory (solvePenetrationVelocity i s) (mSplitLinearVelocities s + j) =
           velocityMemory s (mSplitLinearVelocities s + j)"
    using regionsApart_cells[OF LA assms(2) assms(4)] regionsApart_cells[OF AA assms(2) assms(4)]
      regionsApart_cells[OF LA assms(3) assms(4)] regionsApart_cells[OF AA assms(3) assms(4)]
    by (simp add: solvePenetrationVelocity_memory Let_def)
  have 4: "velocityMemory (solvePenetrationVelocity i s) (mSplitAngularVelocities s + j) =
           velocityMemory s (mSplitAngularVelocities s + j)"
    using regionsApart_cells[OF LB assms(2) assms(4)] regionsApart_cells[OF AB assms(2) assms(4)]
      regionsApart_cells[OF LB assms(3) assms(4)] regionsApart_cells[OF AB assms(3) assms(4)]
    by (simp add: solvePenetrationVelocity_memory Let_def)
  have 5: "\<forall>a. a \<notin> {mSplitLinearVelocities s + PenetrationConstraint.indexBody1 ?c,
                     mSplitAngularVelocities s + PenetrationConstraint.indexBody1 ?c,
                     mSplitLinearVelocities s + PenetrationConstraint.indexBody2 ?c,
                     mSplitAngularVelocities s + PenetrationConstraint.indexBody2 ?c} \<longrightarrow>
              velocityMemory (solvePenetrationSplit i s) a = velocityMemory s a"
    by (simp add: solvePenetrationSplit_memory Let_def)
  have 6: "\<forall>a. a \<notin> {mLinearVelocities s + PenetrationConstraint.indexBody1 ?c,
                     mAngularVelocities s + PenetrationConstraint.indexBody1 ?c,
                     mLinearVelocities s + PenetrationConstraint.indexBody2 ?c,
                     mAngularVelocities s + PenetrationConstraint.indexBody2 ?c} \<longrightarrow>
              velocityMemory (solvePenetrationVelocity i s) a = velocityMemory s a"
    by (simp add: solvePenetrationVelocity_memory Let_def)
  have 7: "mPenetrationConstraints (solvePenetrationSplit i (s\<lparr>velocityMemory := mem\<rparr>)) =
           mPenetrationConstraints (solvePenetrationSplit i s)"
    if "\<forall>k < nb. mem (mSplitLinearVelocities s + k) =
                     velocityMemory s (mSplitLinearVelocities s + k) \<and>
                   mem (mSplitAngularVelocities s + k) =
                     velocityMemory s (mSplitAngularVelocities s + k)" for mem
  proof -
    have "penetrationJvSplit (s\<lparr>velocityMemory := mem\<rparr>) ?c = penetrationJvSplit s ?c"
      by (rule penetrationJvSplit_reads) (use that assms(2,3) in simp)
    then show ?thesis by (simp add: solvePenetrationSplit_P)
  qed
  from 1 2 3 4 5 6 7 show ?thesis by blast
qed

theorem split_substep_frame_witness:
  "buffersDisjoint initializedSolver 2 \<and>
   PenetrationConstraint.indexBody1 (mPenetrationConstraints initializedSolver ! 0) < 2 \<and>
   PenetrationConstraint.indexBody2 (mPenetrationConstraints initializedSolver ! 0) < 2 \<and>
   velocityMemory (solvePenetrationSplit 0 initializedSolver) 100 =
     velocityMemory initializedSolver 100 \<and>
   velocityMemory (solvePenetrationSplit 0 initializedSolver) 201 =
     velocityMemory initializedSolver 201 \<and>
   velocityMemory (solvePenetrationVelocity 0 initializedSolver) 300 =
     velocityMemory initializedSolver 300 \<and>
   velocityMemory (solvePenetrationVelocity 0 initializedSolver) 401 =
     velocityMemory initializedSolver 401"
proof -
  have d: "buffersDisjoint initializedSolver 2"
    by (simp add: buffersDisjoint_def regionsApart_def initializedSolver_facts)
  have b1: "PenetrationConstraint.indexBody1 (mPenetrationConstraints initializedSolver ! 0) < 2"
    and b2: "PenetrationConstraint.indexBody2 (mPenetrationConstraints initializedSolver ! 0) < 2"
    by (simp_all add: initializedSolver_facts)
  have j0: "(0::nat) < 2" and j1: "(1::nat) < 2" by simp_all
  show ?thesis
    using split_substep_frame[OF d b1 b2 j0] split_substep_frame[OF d b1 b2 j1] d b1 b2
    by (simp add: initializedSolver_facts)
qed

section \<open>Linear momentum\<close>

lemma opposite_impulses_cancel:
  assumes "mass1 \<noteq> 0" "mass2 \<noteq> 0"
  shows "smul mass1 ((v1 + smul (1 / mass1) (- p)) - v1) +
         smul mass2 ((v2 + smul (1 / mass2) p) - v2) = 0"
  using assms by (cases v1; cases v2; cases p) (simp add: vector_defs)

lemma zero_impulses_cancel:
  "smul mass1 ((v1 + smul k1 (Vector3 0 0 0)) - v1) +
   smul mass2 ((v2 + smul k2 (Vector3 0 0 0)) - v2) = 0"
  by (cases v1; cases v2) (simp add: vector_defs)

lemma twoBodies_cells:
  assumes "twoBodies s nb i1 i2"
  shows "mLinearVelocities s + i1 \<noteq> mLinearVelocities s + i2"
    "mLinearVelocities s + i1 \<noteq> mAngularVelocities s + i1"
    "mLinearVelocities s + i1 \<noteq> mAngularVelocities s + i2"
    "mLinearVelocities s + i2 \<noteq> mAngularVelocities s + i1"
    "mLinearVelocities s + i2 \<noteq> mAngularVelocities s + i2"
    "mSplitLinearVelocities s + i1 \<noteq> mSplitLinearVelocities s + i2"
    "mSplitLinearVelocities s + i1 \<noteq> mSplitAngularVelocities s + i1"
    "mSplitLinearVelocities s + i1 \<noteq> mSplitAngularVelocities s + i2"
    "mSplitLinearVelocities s + i2 \<noteq> mSplitAngularVelocities s + i1"
    "mSplitLinearVelocities s + i2 \<noteq> mSplitAngularVelocities s + i2"
  using assms by (auto simp: twoBodies_def buffersDisjoint_def regionsApart_def)

lemma solvePenetrationVelocity_momentum:
  assumes "twoBodies s nb (PenetrationConstraint.indexBody1 (mPenetrationConstraints s ! i))
             (PenetrationConstraint.indexBody2 (mPenetrationConstraints s ! i))"
    and "PenetrationConstraint.massInverseBody1 (mPenetrationConstraints s ! i) = 1 / mass1"
    and "PenetrationConstraint.massInverseBody2 (mPenetrationConstraints s ! i) = 1 / mass2"
    and "mass1 \<noteq> 0" "mass2 \<noteq> 0"
  shows "linearMomentumChange mass1 mass2
           (mLinearVelocities s + PenetrationConstraint.indexBody1 (mPenetrationConstraints s ! i))
           (mLinearVelocities s + PenetrationConstraint.indexBody2 (mPenetrationConstraints s ! i))
           s (solvePenetrationVelocity i s) = 0"
  using twoBodies_cells[OF assms(1)] assms(2,3)
    opposite_impulses_cancel[OF assms(4,5)]
  by (simp add: linearMomentumChange_def solvePenetrationVelocity_memory Let_def)

lemma solvePenetrationSplit_momentum:
  assumes "twoBodies s nb (PenetrationConstraint.indexBody1 (mPenetrationConstraints s ! i))
             (PenetrationConstraint.indexBody2 (mPenetrationConstraints s ! i))"
    and "PenetrationConstraint.massInverseBody1 (mPenetrationConstraints s ! i) = 1 / mass1"
    and "PenetrationConstraint.massInverseBody2 (mPenetrationConstraints s ! i) = 1 / mass2"
    and "mass1 \<noteq> 0" "mass2 \<noteq> 0"
  shows "linearMomentumChange mass1 mass2
           (mSplitLinearVelocities s +
              PenetrationConstraint.indexBody1 (mPenetrationConstraints s ! i))
           (mSplitLinearVelocities s +
              PenetrationConstraint.indexBody2 (mPenetrationConstraints s ! i))
           s (solvePenetrationSplit i s) = 0"
  using twoBodies_cells[OF assms(1)] assms(2,3)
    opposite_impulses_cancel[OF assms(4,5)]
  by (simp add: linearMomentumChange_def solvePenetrationSplit_memory Let_def)

lemma solveFriction_momentum:
  assumes "twoBodies s nb (FrictionConstraint.indexBody1 (mFrictionConstraints s ! i))
             (FrictionConstraint.indexBody2 (mFrictionConstraints s ! i))"
    and "FrictionConstraint.massInverseBody1 (mFrictionConstraints s ! i) = 1 / mass1"
    and "FrictionConstraint.massInverseBody2 (mFrictionConstraints s ! i) = 1 / mass2"
    and "mass1 \<noteq> 0" "mass2 \<noteq> 0"
  shows "linearMomentumChange mass1 mass2
           (mLinearVelocities s + FrictionConstraint.indexBody1 (mFrictionConstraints s ! i))
           (mLinearVelocities s + FrictionConstraint.indexBody2 (mFrictionConstraints s ! i))
           s (solveFriction1 i s) = 0"
    and "linearMomentumChange mass1 mass2
           (mLinearVelocities s + FrictionConstraint.indexBody1 (mFrictionConstraints s ! i))
           (mLinearVelocities s + FrictionConstraint.indexBody2 (mFrictionConstraints s ! i))
           s (solveFriction2 i s) = 0"
    and "linearMomentumChange mass1 mass2
           (mLinearVelocities s + FrictionConstraint.indexBody1 (mFrictionConstraints s ! i))
           (mLinearVelocities s + FrictionConstraint.indexBody2 (mFrictionConstraints s ! i))
           s (solveFrictionTwist i s) = 0"
    and "linearMomentumChange mass1 mass2
           (mLinearVelocities s + FrictionConstraint.indexBody1 (mFrictionConstraints s ! i))
           (mLinearVelocities s + FrictionConstraint.indexBody2 (mFrictionConstraints s ! i))
           s (solveRollingResistance env i s) = 0"
proof -
  note cells = twoBodies_cells[OF assms(1)]
  show "linearMomentumChange mass1 mass2
           (mLinearVelocities s + FrictionConstraint.indexBody1 (mFrictionConstraints s ! i))
           (mLinearVelocities s + FrictionConstraint.indexBody2 (mFrictionConstraints s ! i))
           s (solveFriction1 i s) = 0"
    using cells assms(2,3) opposite_impulses_cancel[OF assms(4,5)]
    by (simp add: linearMomentumChange_def solveFriction1_memory Let_def)
  show "linearMomentumChange mass1 mass2
           (mLinearVelocities s + FrictionConstraint.indexBody1 (mFrictionConstraints s ! i))
           (mLinearVelocities s + FrictionConstraint.indexBody2 (mFrictionConstraints s ! i))
           s (solveFriction2 i s) = 0"
    using cells assms(2,3) opposite_impulses_cancel[OF assms(4,5)]
    by (simp add: linearMomentumChange_def solveFriction2_memory Let_def)
  show "linearMomentumChange mass1 mass2
           (mLinearVelocities s + FrictionConstraint.indexBody1 (mFrictionConstraints s ! i))
           (mLinearVelocities s + FrictionConstraint.indexBody2 (mFrictionConstraints s ! i))
           s (solveFrictionTwist i s) = 0"
    using cells zero_impulses_cancel
    by (simp add: linearMomentumChange_def solveFrictionTwist_memory Let_def)
  have "velocityMemory (solveRollingResistance env i s)
          (mLinearVelocities s + FrictionConstraint.indexBody1 (mFrictionConstraints s ! i)) =
        velocityMemory s
          (mLinearVelocities s + FrictionConstraint.indexBody1 (mFrictionConstraints s ! i))"
    "velocityMemory (solveRollingResistance env i s)
          (mLinearVelocities s + FrictionConstraint.indexBody2 (mFrictionConstraints s ! i)) =
        velocityMemory s
          (mLinearVelocities s + FrictionConstraint.indexBody2 (mFrictionConstraints s ! i))"
    using cells by (simp_all add: solveRollingResistance_linear)
  then show "linearMomentumChange mass1 mass2
           (mLinearVelocities s + FrictionConstraint.indexBody1 (mFrictionConstraints s ! i))
           (mLinearVelocities s + FrictionConstraint.indexBody2 (mFrictionConstraints s ! i))
           s (solveRollingResistance env i s) = 0"
    by (simp add: linearMomentumChange_def zero_Vector3_def minus_Vector3_def plus_Vector3_def
        smul_def)
qed

text \<open>
  Claim C9: applying one penetration or friction impulse conserves linear momentum. For
  two different dynamic bodies (inverse masses \<open>1 / mass1\<close> and \<open>1 / mass2\<close>) whose velocity
  cells do not overlap, the masses times the changes of the two linear velocities sum to
  the zero vector, for the velocity part and the split part of a penetration constraint
  and for each of the four parts of a friction constraint.
\<close>

theorem single_constraint_conserves_linear_momentum:
  assumes "0 < mass1" "0 < mass2"
  shows "(twoBodies s nb (PenetrationConstraint.indexBody1 (mPenetrationConstraints s ! i))
             (PenetrationConstraint.indexBody2 (mPenetrationConstraints s ! i)) \<and>
          PenetrationConstraint.massInverseBody1 (mPenetrationConstraints s ! i) = 1 / mass1 \<and>
          PenetrationConstraint.massInverseBody2 (mPenetrationConstraints s ! i) = 1 / mass2 \<longrightarrow>
          linearMomentumChange mass1 mass2
            (mLinearVelocities s + PenetrationConstraint.indexBody1 (mPenetrationConstraints s ! i))
            (mLinearVelocities s + PenetrationConstraint.indexBody2 (mPenetrationConstraints s ! i))
            s (solvePenetrationVelocity i s) = 0 \<and>
          linearMomentumChange mass1 mass2
            (mSplitLinearVelocities s +
               PenetrationConstraint.indexBody1 (mPenetrationConstraints s ! i))
            (mSplitLinearVelocities s +
               PenetrationConstraint.indexBody2 (mPenetrationConstraints s ! i))
            s (solvePenetrationSplit i s) = 0) \<and>
         (twoBodies s nb (FrictionConstraint.indexBody1 (mFrictionConstraints s ! k))
             (FrictionConstraint.indexBody2 (mFrictionConstraints s ! k)) \<and>
          FrictionConstraint.massInverseBody1 (mFrictionConstraints s ! k) = 1 / mass1 \<and>
          FrictionConstraint.massInverseBody2 (mFrictionConstraints s ! k) = 1 / mass2 \<longrightarrow>
          linearMomentumChange mass1 mass2
            (mLinearVelocities s + FrictionConstraint.indexBody1 (mFrictionConstraints s ! k))
            (mLinearVelocities s + FrictionConstraint.indexBody2 (mFrictionConstraints s ! k))
            s (solveFriction1 k s) = 0 \<and>
          linearMomentumChange mass1 mass2
            (mLinearVelocities s + FrictionConstraint.indexBody1 (mFrictionConstraints s ! k))
            (mLinearVelocities s + FrictionConstraint.indexBody2 (mFrictionConstraints s ! k))
            s (solveFriction2 k s) = 0 \<and>
          linearMomentumChange mass1 mass2
            (mLinearVelocities s + FrictionConstraint.indexBody1 (mFrictionConstraints s ! k))
            (mLinearVelocities s + FrictionConstraint.indexBody2 (mFrictionConstraints s ! k))
            s (solveFrictionTwist k s) = 0 \<and>
          linearMomentumChange mass1 mass2
            (mLinearVelocities s + FrictionConstraint.indexBody1 (mFrictionConstraints s ! k))
            (mLinearVelocities s + FrictionConstraint.indexBody2 (mFrictionConstraints s ! k))
            s (solveRollingResistance env k s) = 0)"
proof -
  have m: "mass1 \<noteq> 0" "mass2 \<noteq> 0" using assms by simp_all
  show ?thesis
    using solvePenetrationVelocity_momentum[OF _ _ _ m, of s nb i]
      solvePenetrationSplit_momentum[OF _ _ _ m, of s nb i]
      solveFriction_momentum[OF _ _ _ m, of s nb k]
    by blast
qed

theorem single_constraint_conserves_linear_momentum_witness:
  "(0::decimal) < 1 \<and> (0::decimal) < 2 \<and>
   twoBodies initializedSolver 2 0 1 \<and>
   PenetrationConstraint.massInverseBody1 (mPenetrationConstraints initializedSolver ! 0) = 1 / 1 \<and>
   PenetrationConstraint.massInverseBody2 (mPenetrationConstraints initializedSolver ! 0) = 1 / 2 \<and>
   FrictionConstraint.massInverseBody1 (mFrictionConstraints initializedSolver ! 0) = 1 / 1 \<and>
   FrictionConstraint.massInverseBody2 (mFrictionConstraints initializedSolver ! 0) = 1 / 2 \<and>
   linearMomentumChange 1 2 100 101 initializedSolver
     (solvePenetrationVelocity 0 initializedSolver) = 0 \<and>
   linearMomentumChange 1 2 300 301 initializedSolver
     (solvePenetrationSplit 0 initializedSolver) = 0 \<and>
   linearMomentumChange 1 2 100 101 initializedSolver (solveFriction1 0 initializedSolver) = 0 \<and>
   linearMomentumChange 1 2 100 101 initializedSolver (solveFriction2 0 initializedSolver) = 0 \<and>
   linearMomentumChange 1 2 100 101 initializedSolver
     (solveFrictionTwist 0 initializedSolver) = 0 \<and>
   linearMomentumChange 1 2 100 101 initializedSolver
     (solveRollingResistance exampleEnv 0 initializedSolver) = 0"
proof -
  have tb: "twoBodies initializedSolver 2 0 1"
    by (simp add: twoBodies_def buffersDisjoint_def regionsApart_def initializedSolver_facts)
  have m1: "(0::decimal) < 1" and m2: "(0::decimal) < 2" by simp_all
  show ?thesis
    using single_constraint_conserves_linear_momentum
            [OF m1 m2, of initializedSolver 2 0 0 exampleEnv] tb
    by (simp add: initializedSolver_facts)
qed

section \<open>Warm start of the friction impulses\<close>

lemma projectOldFrictionImpulses_same_basis:
  assumes "frictionVector1 c = oldFrictionVector1 c" "frictionVector2 c = oldFrictionVector2 c"
    and "dot (frictionVector1 c) (frictionVector1 c) = 1"
    and "dot (frictionVector2 c) (frictionVector2 c) = 1"
    and "dot (frictionVector1 c) (frictionVector2 c) = 0"
  shows "friction1Impulse (projectOldFrictionImpulses c) = friction1Impulse c"
    and "friction2Impulse (projectOldFrictionImpulses c) = friction2Impulse c"
proof -
  define t1 where "t1 = frictionVector1 c"
  define t2 where "t2 = frictionVector2 c"
  have lin: "dot (smul a t1 + smul b t2) u = a * dot t1 u + b * dot t2 u" for a b u
    by (simp add: dot_def smul_def plus_Vector3_def algebra_simps)
  have sym: "dot t2 t1 = dot t1 t2" by (simp add: dot_def mult.commute)
  from assms have o: "oldFrictionVector1 c = t1" "oldFrictionVector2 c = t2"
    and n: "dot t1 t1 = 1" "dot t2 t2 = 1" "dot t1 t2 = 0"
    by (simp_all add: t1_def t2_def)
  show "friction1Impulse (projectOldFrictionImpulses c) = friction1Impulse c"
    using o n by (simp add: projectOldFrictionImpulses_def Let_def flip: t1_def t2_def)
                 (simp add: lin sym n)
  show "friction2Impulse (projectOldFrictionImpulses c) = friction2Impulse c"
    using o n by (simp add: projectOldFrictionImpulses_def Let_def flip: t1_def t2_def)
                 (simp add: lin sym n)
qed

lemma warmStartPenetration_effect:
  assumes "i < length (mPenetrationConstraints s)"
  shows "\<exists>s'. warmStartPenetration i s = Inr s' \<and>
           mFrictionConstraints s' = mFrictionConstraints s \<and>
           mNbFrictionConstraints s' = mNbFrictionConstraints s \<and>
           mNbPenetrationConstraints s' = mNbPenetrationConstraints s \<and>
           mPenetrationConstraints s' =
             (mPenetrationConstraints s)[i :=
                (if isRestingContact (mPenetrationConstraints s ! i)
                 then mPenetrationConstraints s ! i
                 else (mPenetrationConstraints s ! i)\<lparr>penetrationImpulse := 0\<rparr>)]"
  using assms by (simp add: warmStartPenetration_def Let_def)

lemma warmStartFriction_effect:
  assumes "i < length (mFrictionConstraints s)"
  shows "\<exists>s'. warmStartFriction i s = Inr s' \<and>
           mPenetrationConstraints s' = mPenetrationConstraints s \<and>
           mNbFrictionConstraints s' = mNbFrictionConstraints s \<and>
           mNbPenetrationConstraints s' = mNbPenetrationConstraints s \<and>
           mFrictionConstraints s' =
             (mFrictionConstraints s)[i :=
                (if hasAtLeastOneRestingContactPoint (mFrictionConstraints s ! i)
                 then projectOldFrictionImpulses (mFrictionConstraints s ! i)
                 else (mFrictionConstraints s ! i)
                        \<lparr>friction1Impulse := 0, friction2Impulse := 0,
                         frictionTwistImpulse := 0,
                         FrictionConstraint.rollingResistanceImpulse := 0\<rparr>)]"
  using assms by (simp add: warmStartFriction_def Let_def)

lemma warmStart_effect:
  assumes "mNbPenetrationConstraints s \<le> length (mPenetrationConstraints s)"
    and "mNbFrictionConstraints s \<le> length (mFrictionConstraints s)"
  shows "\<exists>s'. warmStart s = Inr s' \<and>
           mNbPenetrationConstraints s' = mNbPenetrationConstraints s \<and>
           mNbFrictionConstraints s' = mNbFrictionConstraints s \<and>
           length (mPenetrationConstraints s') = length (mPenetrationConstraints s) \<and>
           length (mFrictionConstraints s') = length (mFrictionConstraints s) \<and>
           (\<forall>k < length (mPenetrationConstraints s).
              mPenetrationConstraints s' ! k =
                (if k < mNbPenetrationConstraints s \<and>
                    \<not> isRestingContact (mPenetrationConstraints s ! k)
                 then (mPenetrationConstraints s ! k)\<lparr>penetrationImpulse := 0\<rparr>
                 else mPenetrationConstraints s ! k)) \<and>
           (\<forall>k < length (mFrictionConstraints s).
              mFrictionConstraints s' ! k =
                (if k < mNbFrictionConstraints s
                 then (if hasAtLeastOneRestingContactPoint (mFrictionConstraints s ! k)
                       then projectOldFrictionImpulses (mFrictionConstraints s ! k)
                       else (mFrictionConstraints s ! k)
                              \<lparr>friction1Impulse := 0, friction2Impulse := 0,
                               frictionTwistImpulse := 0,
                               FrictionConstraint.rollingResistanceImpulse := 0\<rparr>)
                 else mFrictionConstraints s ! k))"
proof -
  let ?P = "mPenetrationConstraints s" and ?F = "mFrictionConstraints s"
  let ?nP = "mNbPenetrationConstraints s" and ?nF = "mNbFrictionConstraints s"
  define I1 where "I1 j t \<longleftrightarrow>
      mFrictionConstraints t = ?F \<and> mNbFrictionConstraints t = ?nF \<and>
      mNbPenetrationConstraints t = ?nP \<and>
      length (mPenetrationConstraints t) = length ?P \<and>
      (\<forall>k < length ?P. mPenetrationConstraints t ! k =
         (if k < j \<and> \<not> isRestingContact (?P ! k)
          then (?P ! k)\<lparr>penetrationImpulse := 0\<rparr> else ?P ! k))" for j :: nat and t :: ContactSolver
  have "\<exists>s1. forEach warmStartPenetration [0..<?nP] s = Inr s1 \<and> I1 ?nP s1"
  proof (rule forEach_total)
    show "I1 0 s" by (simp add: I1_def)
  next
    fix j t assume j: "j < ?nP" and inv: "I1 j t"
    then have jl: "j < length (mPenetrationConstraints t)"
      using assms(1) by (simp add: I1_def)
    from warmStartPenetration_effect[OF jl] obtain t' where
      t': "warmStartPenetration j t = Inr t'"
        "mFrictionConstraints t' = mFrictionConstraints t"
        "mNbFrictionConstraints t' = mNbFrictionConstraints t"
        "mNbPenetrationConstraints t' = mNbPenetrationConstraints t"
        "mPenetrationConstraints t' = (mPenetrationConstraints t)[j :=
           (if isRestingContact (mPenetrationConstraints t ! j)
            then mPenetrationConstraints t ! j
            else (mPenetrationConstraints t ! j)\<lparr>penetrationImpulse := 0\<rparr>)]"
      by blast
    have tj: "mPenetrationConstraints t ! j = ?P ! j"
      using inv jl by (simp add: I1_def)
    have "I1 (Suc j) t'"
      using inv jl t'(2-4) unfolding I1_def t'(5) tj
      by (auto simp: nth_list_update less_Suc_eq)
    with t'(1) show "\<exists>t'. warmStartPenetration j t = Inr t' \<and> I1 (Suc j) t'" by blast
  qed
  then obtain s1 where s1: "forEach warmStartPenetration [0..<?nP] s = Inr s1" "I1 ?nP s1"
    by blast
  define I2 where "I2 j t \<longleftrightarrow>
      mPenetrationConstraints t = mPenetrationConstraints s1 \<and>
      mNbFrictionConstraints t = ?nF \<and> mNbPenetrationConstraints t = ?nP \<and>
      length (mFrictionConstraints t) = length ?F \<and>
      (\<forall>k < length ?F. mFrictionConstraints t ! k =
         (if k < j
          then (if hasAtLeastOneRestingContactPoint (?F ! k)
                then projectOldFrictionImpulses (?F ! k)
                else (?F ! k)\<lparr>friction1Impulse := 0, friction2Impulse := 0,
                               frictionTwistImpulse := 0,
                               FrictionConstraint.rollingResistanceImpulse := 0\<rparr>)
          else ?F ! k))" for j :: nat and t :: ContactSolver
  have "\<exists>s2. forEach warmStartFriction [0..<?nF] s1 = Inr s2 \<and> I2 ?nF s2"
  proof (rule forEach_total)
    show "I2 0 s1" using s1(2) by (simp add: I1_def I2_def)
  next
    fix j t assume j: "j < ?nF" and inv: "I2 j t"
    then have jl: "j < length (mFrictionConstraints t)"
      using assms(2) by (simp add: I2_def)
    from warmStartFriction_effect[OF jl] obtain t' where
      t': "warmStartFriction j t = Inr t'"
        "mPenetrationConstraints t' = mPenetrationConstraints t"
        "mNbFrictionConstraints t' = mNbFrictionConstraints t"
        "mNbPenetrationConstraints t' = mNbPenetrationConstraints t"
        "mFrictionConstraints t' = (mFrictionConstraints t)[j :=
           (if hasAtLeastOneRestingContactPoint (mFrictionConstraints t ! j)
            then projectOldFrictionImpulses (mFrictionConstraints t ! j)
            else (mFrictionConstraints t ! j)
                   \<lparr>friction1Impulse := 0, friction2Impulse := 0,
                    frictionTwistImpulse := 0,
                    FrictionConstraint.rollingResistanceImpulse := 0\<rparr>)]"
      by blast
    have tj: "mFrictionConstraints t ! j = ?F ! j"
      using inv jl by (simp add: I2_def)
    have "I2 (Suc j) t'"
      using inv jl t'(2-4) unfolding I2_def t'(5) tj
      by (auto simp: nth_list_update less_Suc_eq)
    with t'(1) show "\<exists>t'. warmStartFriction j t = Inr t' \<and> I2 (Suc j) t'" by blast
  qed
  then obtain s2 where s2: "forEach warmStartFriction [0..<?nF] s1 = Inr s2" "I2 ?nF s2"
    by blast
  have nF1: "mNbFrictionConstraints s1 = ?nF" using s1(2) by (simp add: I1_def)
  have ws: "warmStart s = Inr s2"
    by (simp add: warmStart_def s1(1) nF1 s2(1))
  show ?thesis
    using ws s1(2) s2(2) unfolding I1_def I2_def by (intro exI[of _ s2]) auto
qed

lemma constraintsInBounds_iff:
  "constraintsInBounds s \<longleftrightarrow>
     mNbPenetrationConstraints s \<le> length (mPenetrationConstraints s) \<and>
     mNbFrictionConstraints s \<le> length (mFrictionConstraints s) \<and>
     (\<forall>k < mNbPenetrationConstraints s.
        indexFrictionConstraint (mPenetrationConstraints s ! k) < mNbFrictionConstraints s)"
  by (auto simp: constraintsInBounds_def list_all_length)

lemma impulsesNonNegative_iff:
  "mNbPenetrationConstraints s \<le> length (mPenetrationConstraints s) \<Longrightarrow>
   impulsesNonNegative s \<longleftrightarrow>
     (\<forall>k < mNbPenetrationConstraints s.
        0 \<le> penetrationImpulse (mPenetrationConstraints s ! k) \<and>
        0 \<le> penetrationSplitImpulse (mPenetrationConstraints s ! k))"
  by (auto simp: impulsesNonNegative_def list_all_length)

lemma splitImpulsesNonNegative_iff:
  "mNbPenetrationConstraints s \<le> length (mPenetrationConstraints s) \<Longrightarrow>
   splitImpulsesNonNegative s \<longleftrightarrow>
     (\<forall>k < mNbPenetrationConstraints s.
        0 \<le> penetrationSplitImpulse (mPenetrationConstraints s ! k))"
  by (auto simp: splitImpulsesNonNegative_def list_all_length)

text \<open>
  Claim C8: in \<open>warmStart\<close>, for a friction constraint with a resting contact whose
  tangent vectors are those of the previous frame and are orthonormal, the reprojected
  friction impulses are the cached ones. \<open>warmStart\<close> returns, it replaces the
  constraint by its reprojection, and the two impulses are unchanged.
\<close>

theorem warmStart_reprojection_in_unchanged_basis:
  assumes "constraintsInBounds s"
    and "i < mNbFrictionConstraints s"
    and "hasAtLeastOneRestingContactPoint (mFrictionConstraints s ! i)"
    and "frictionVector1 (mFrictionConstraints s ! i) = oldFrictionVector1 (mFrictionConstraints s ! i)"
    and "frictionVector2 (mFrictionConstraints s ! i) = oldFrictionVector2 (mFrictionConstraints s ! i)"
    and "dot (frictionVector1 (mFrictionConstraints s ! i))
             (frictionVector1 (mFrictionConstraints s ! i)) = 1"
    and "dot (frictionVector2 (mFrictionConstraints s ! i))
             (frictionVector2 (mFrictionConstraints s ! i)) = 1"
    and "dot (frictionVector1 (mFrictionConstraints s ! i))
             (frictionVector2 (mFrictionConstraints s ! i)) = 0"
  shows "\<exists>s'. warmStart s = Inr s' \<and>
           mFrictionConstraints s' ! i = projectOldFrictionImpulses (mFrictionConstraints s ! i) \<and>
           friction1Impulse (mFrictionConstraints s' ! i) =
             friction1Impulse (mFrictionConstraints s ! i) \<and>
           friction2Impulse (mFrictionConstraints s' ! i) =
             friction2Impulse (mFrictionConstraints s ! i)"
proof -
  from assms(1) have b: "mNbPenetrationConstraints s \<le> length (mPenetrationConstraints s)"
    "mNbFrictionConstraints s \<le> length (mFrictionConstraints s)"
    by (simp_all add: constraintsInBounds_iff)
  from warmStart_effect[OF b] obtain s' where s': "warmStart s = Inr s'"
    and F: "\<forall>k < length (mFrictionConstraints s).
              mFrictionConstraints s' ! k =
                (if k < mNbFrictionConstraints s
                 then (if hasAtLeastOneRestingContactPoint (mFrictionConstraints s ! k)
                       then projectOldFrictionImpulses (mFrictionConstraints s ! k)
                       else (mFrictionConstraints s ! k)
                              \<lparr>friction1Impulse := 0, friction2Impulse := 0,
                               frictionTwistImpulse := 0,
                               FrictionConstraint.rollingResistanceImpulse := 0\<rparr>)
                 else mFrictionConstraints s ! k)"
    by blast
  have il: "i < length (mFrictionConstraints s)" using assms(2) b(2) by simp
  have eq: "mFrictionConstraints s' ! i = projectOldFrictionImpulses (mFrictionConstraints s ! i)"
    using F il assms(2,3) by simp
  show ?thesis
    using s' eq projectOldFrictionImpulses_same_basis[OF assms(4-8)] by simp
qed

theorem warmStart_reprojection_in_unchanged_basis_witness:
  "constraintsInBounds initializedSolver \<and>
   0 < mNbFrictionConstraints initializedSolver \<and>
   hasAtLeastOneRestingContactPoint (mFrictionConstraints initializedSolver ! 0) \<and>
   frictionVector1 (mFrictionConstraints initializedSolver ! 0) = Vector3 1 0 0 \<and>
   oldFrictionVector1 (mFrictionConstraints initializedSolver ! 0) = Vector3 1 0 0 \<and>
   frictionVector2 (mFrictionConstraints initializedSolver ! 0) = Vector3 0 0 1 \<and>
   oldFrictionVector2 (mFrictionConstraints initializedSolver ! 0) = Vector3 0 0 1 \<and>
   friction1Impulse (mFrictionConstraints initializedSolver ! 0) = 1 \<and>
   friction2Impulse (mFrictionConstraints initializedSolver ! 0) = 2 \<and>
   (\<exists>s'. warmStart initializedSolver = Inr s' \<and>
      friction1Impulse (mFrictionConstraints s' ! 0) = 1 \<and>
      friction2Impulse (mFrictionConstraints s' ! 0) = 2)"
proof -
  have b: "constraintsInBounds initializedSolver"
    by (simp add: constraintsInBounds_iff initializedSolver_facts)
  have n: "0 < mNbFrictionConstraints initializedSolver"
    by (simp add: initializedSolver_facts)
  show ?thesis
    using warmStart_reprojection_in_unchanged_basis[OF b n] b
    by (auto simp: initializedSolver_facts dot_def)
qed

section \<open>The friction sweep, constraint by constraint\<close>

lemma clamped_within_limit:
  fixes x l :: real
  assumes "0 \<le> l"
  shows "\<bar>max (- l) (min x l)\<bar> \<le> l"
  using assms by (auto simp: max_def min_def abs_if)

lemma solveFriction1_at:
  assumes "i < length (mFrictionConstraints s)"
  shows "\<exists>x. mFrictionConstraints (solveFriction1 i s) =
           (mFrictionConstraints s)[i := (mFrictionConstraints s ! i)
              \<lparr>friction1Impulse :=
                 max (- (frictionCoefficient (mFrictionConstraints s ! i) *
                         totalPenetrationImpulse (mFrictionConstraints s ! i)))
                     (min x (frictionCoefficient (mFrictionConstraints s ! i) *
                             totalPenetrationImpulse (mFrictionConstraints s ! i)))\<rparr>]"
  unfolding solveFriction1_F by (rule exI) (rule refl)

lemma solveFriction2_at:
  assumes "i < length (mFrictionConstraints s)"
  shows "\<exists>x. mFrictionConstraints (solveFriction2 i s) =
           (mFrictionConstraints s)[i := (mFrictionConstraints s ! i)
              \<lparr>friction2Impulse :=
                 max (- (frictionCoefficient (mFrictionConstraints s ! i) *
                         totalPenetrationImpulse (mFrictionConstraints s ! i)))
                     (min x (frictionCoefficient (mFrictionConstraints s ! i) *
                             totalPenetrationImpulse (mFrictionConstraints s ! i)))\<rparr>]"
  unfolding solveFriction2_F by (rule exI) (rule refl)

lemma solveFrictionTwist_at:
  assumes "i < length (mFrictionConstraints s)"
  shows "\<exists>x. mFrictionConstraints (solveFrictionTwist i s) =
           (mFrictionConstraints s)[i := (mFrictionConstraints s ! i)
              \<lparr>frictionTwistImpulse :=
                 max (- (frictionCoefficient (mFrictionConstraints s ! i) *
                         totalPenetrationImpulse (mFrictionConstraints s ! i)))
                     (min x (frictionCoefficient (mFrictionConstraints s ! i) *
                             totalPenetrationImpulse (mFrictionConstraints s ! i)))\<rparr>]"
  unfolding solveFrictionTwist_F by (rule exI) (rule refl)

lemma solveRollingResistance_at:
  assumes "i < length (mFrictionConstraints s)"
  shows "\<exists>r. mFrictionConstraints (solveRollingResistance env i s) =
           (mFrictionConstraints s)[i := (mFrictionConstraints s ! i)
              \<lparr>FrictionConstraint.rollingResistanceImpulse := r\<rparr>]"
proof (cases "rollingResistanceFactor (mFrictionConstraints s ! i) > 0")
  case True
  then show ?thesis unfolding solveRollingResistance_F by (simp only: if_True) (rule exI, rule refl)
next
  case False
  have "mFrictionConstraints s = (mFrictionConstraints s)[i := (mFrictionConstraints s ! i)
        \<lparr>FrictionConstraint.rollingResistanceImpulse :=
           FrictionConstraint.rollingResistanceImpulse (mFrictionConstraints s ! i)\<rparr>]"
    by simp
  with False show ?thesis unfolding solveRollingResistance_F
    by (simp only: if_False) (rule exI)
qed

lemma solveFrictionConstraint_effect:
  assumes il: "i < length (mFrictionConstraints s)"
  shows "\<exists>s'. solveFrictionConstraint env i s = Inr s' \<and>
           mPenetrationConstraints s' = mPenetrationConstraints s \<and>
           mNbPenetrationConstraints s' = mNbPenetrationConstraints s \<and>
           mNbFrictionConstraints s' = mNbFrictionConstraints s \<and>
           length (mFrictionConstraints s') = length (mFrictionConstraints s) \<and>
           (\<forall>k < length (mFrictionConstraints s). k \<noteq> i \<longrightarrow>
              mFrictionConstraints s' ! k = mFrictionConstraints s ! k) \<and>
           frictionCoefficient (mFrictionConstraints s' ! i) =
             frictionCoefficient (mFrictionConstraints s ! i) \<and>
           totalPenetrationImpulse (mFrictionConstraints s' ! i) =
             totalPenetrationImpulse (mFrictionConstraints s ! i) \<and>
           (0 \<le> frictionCoefficient (mFrictionConstraints s ! i) *
                 totalPenetrationImpulse (mFrictionConstraints s ! i) \<longrightarrow>
            \<bar>friction1Impulse (mFrictionConstraints s' ! i)\<bar> \<le>
              frictionCoefficient (mFrictionConstraints s ! i) *
              totalPenetrationImpulse (mFrictionConstraints s ! i) \<and>
            \<bar>friction2Impulse (mFrictionConstraints s' ! i)\<bar> \<le>
              frictionCoefficient (mFrictionConstraints s ! i) *
              totalPenetrationImpulse (mFrictionConstraints s ! i) \<and>
            \<bar>frictionTwistImpulse (mFrictionConstraints s' ! i)\<bar> \<le>
              frictionCoefficient (mFrictionConstraints s ! i) *
              totalPenetrationImpulse (mFrictionConstraints s ! i))"
proof -
  let ?F = "mFrictionConstraints s"
  let ?l = "frictionCoefficient (?F ! i) * totalPenetrationImpulse (?F ! i)"
  define s1 where "s1 = solveFriction1 i s"
  define s2 where "s2 = solveFriction2 i s1"
  define s3 where "s3 = solveFrictionTwist i s2"
  define s4 where "s4 = solveRollingResistance env i s3"
  from solveFriction1_at[OF il] obtain x1 where
    F1: "mFrictionConstraints s1 = ?F[i := (?F ! i)\<lparr>friction1Impulse := max (- ?l) (min x1 ?l)\<rparr>]"
    unfolding s1_def by blast
  have il1: "i < length (mFrictionConstraints s1)" using il by (simp add: F1)
  from solveFriction2_at[OF il1] obtain x2 where
    F2: "mFrictionConstraints s2 = ?F[i := (?F ! i)
           \<lparr>friction1Impulse := max (- ?l) (min x1 ?l),
            friction2Impulse := max (- ?l) (min x2 ?l)\<rparr>]"
    unfolding s2_def using il by (auto simp: F1)
  have il2: "i < length (mFrictionConstraints s2)" using il by (simp add: F2)
  from solveFrictionTwist_at[OF il2] obtain x3 where
    F3: "mFrictionConstraints s3 = ?F[i := (?F ! i)
           \<lparr>friction1Impulse := max (- ?l) (min x1 ?l),
            friction2Impulse := max (- ?l) (min x2 ?l),
            frictionTwistImpulse := max (- ?l) (min x3 ?l)\<rparr>]"
    unfolding s3_def using il by (auto simp: F2)
  have il3: "i < length (mFrictionConstraints s3)" using il by (simp add: F3)
  from solveRollingResistance_at[OF il3] obtain r where
    F4: "mFrictionConstraints s4 = ?F[i := (?F ! i)
           \<lparr>friction1Impulse := max (- ?l) (min x1 ?l),
            friction2Impulse := max (- ?l) (min x2 ?l),
            frictionTwistImpulse := max (- ?l) (min x3 ?l),
            FrictionConstraint.rollingResistanceImpulse := r\<rparr>]"
    unfolding s4_def using il by (auto simp: F3)
  have res: "solveFrictionConstraint env i s = Inr s4"
    using il by (simp add: solveFrictionConstraint_def s4_def s3_def s2_def s1_def)
  have others: "mPenetrationConstraints s4 = mPenetrationConstraints s"
    "mNbPenetrationConstraints s4 = mNbPenetrationConstraints s"
    "mNbFrictionConstraints s4 = mNbFrictionConstraints s"
    by (simp_all add: s4_def s3_def s2_def s1_def)
  show ?thesis
    using res others il clamped_within_limit[of ?l]
    by (intro exI[of _ s4]) (simp add: F4)
qed

lemma solveFrictionConstraints_effect:
  assumes b: "mNbFrictionConstraints s \<le> length (mFrictionConstraints s)"
  shows "\<exists>s'. solveFrictionConstraints env s = Inr s' \<and>
           mPenetrationConstraints s' = mPenetrationConstraints s \<and>
           mNbPenetrationConstraints s' = mNbPenetrationConstraints s \<and>
           mNbFrictionConstraints s' = mNbFrictionConstraints s \<and>
           length (mFrictionConstraints s') = length (mFrictionConstraints s) \<and>
           (\<forall>k < mNbFrictionConstraints s.
              frictionCoefficient (mFrictionConstraints s' ! k) =
                frictionCoefficient (mFrictionConstraints s ! k) \<and>
              totalPenetrationImpulse (mFrictionConstraints s' ! k) =
                totalPenetrationImpulse (mFrictionConstraints s ! k) \<and>
              (0 \<le> frictionCoefficient (mFrictionConstraints s ! k) \<and>
               0 \<le> totalPenetrationImpulse (mFrictionConstraints s ! k) \<longrightarrow>
               withinFrictionLimit (mFrictionConstraints s' ! k)))"
proof -
  let ?F = "mFrictionConstraints s" and ?n = "mNbFrictionConstraints s"
  let ?pos = "\<lambda>k. 0 \<le> frictionCoefficient (?F ! k) \<and> 0 \<le> totalPenetrationImpulse (?F ! k)"
  define I where "I j t \<longleftrightarrow>
      mPenetrationConstraints t = mPenetrationConstraints s \<and>
      mNbPenetrationConstraints t = mNbPenetrationConstraints s \<and>
      mNbFrictionConstraints t = ?n \<and>
      length (mFrictionConstraints t) = length ?F \<and>
      (\<forall>k < length ?F.
         frictionCoefficient (mFrictionConstraints t ! k) = frictionCoefficient (?F ! k) \<and>
         totalPenetrationImpulse (mFrictionConstraints t ! k) =
           totalPenetrationImpulse (?F ! k)) \<and>
      (\<forall>k < j. ?pos k \<longrightarrow> withinFrictionLimit (mFrictionConstraints t ! k))"
    for j :: nat and t :: ContactSolver
  have "\<exists>s'. forEach (solveFrictionConstraint env) [0..<?n] s = Inr s' \<and> I ?n s'"
  proof (rule forEach_total)
    show "I 0 s" by (simp add: I_def)
  next
    fix j t assume j: "j < ?n" and inv: "I j t"
    let ?G = "mFrictionConstraints t"
    have jl: "j < length ?G" and jF: "j < length ?F" using j b inv by (simp_all add: I_def)
    have same: "frictionCoefficient (?G ! j) = frictionCoefficient (?F ! j)"
      "totalPenetrationImpulse (?G ! j) = totalPenetrationImpulse (?F ! j)"
      using inv jF by (simp_all add: I_def)
    from solveFrictionConstraint_effect[OF jl, of env] obtain t' where
      t': "solveFrictionConstraint env j t = Inr t'"
        "mPenetrationConstraints t' = mPenetrationConstraints t"
        "mNbPenetrationConstraints t' = mNbPenetrationConstraints t"
        "mNbFrictionConstraints t' = mNbFrictionConstraints t"
        "length (mFrictionConstraints t') = length ?G"
        "\<forall>k < length ?G. k \<noteq> j \<longrightarrow> mFrictionConstraints t' ! k = ?G ! k"
        "frictionCoefficient (mFrictionConstraints t' ! j) = frictionCoefficient (?G ! j)"
        "totalPenetrationImpulse (mFrictionConstraints t' ! j) =
           totalPenetrationImpulse (?G ! j)"
        "0 \<le> frictionCoefficient (?G ! j) * totalPenetrationImpulse (?G ! j) \<longrightarrow>
           \<bar>friction1Impulse (mFrictionConstraints t' ! j)\<bar> \<le>
             frictionCoefficient (?G ! j) * totalPenetrationImpulse (?G ! j) \<and>
           \<bar>friction2Impulse (mFrictionConstraints t' ! j)\<bar> \<le>
             frictionCoefficient (?G ! j) * totalPenetrationImpulse (?G ! j) \<and>
           \<bar>frictionTwistImpulse (mFrictionConstraints t' ! j)\<bar> \<le>
             frictionCoefficient (?G ! j) * totalPenetrationImpulse (?G ! j)"
      by blast
    have wj: "withinFrictionLimit (mFrictionConstraints t' ! j)" if p: "?pos j"
    proof -
      have "0 \<le> frictionCoefficient (?G ! j) * totalPenetrationImpulse (?G ! j)"
        using p same by simp
      then show ?thesis using t'(7-9) p same by (simp add: withinFrictionLimit_def)
    qed
    have keep: "mFrictionConstraints t' ! k = ?G ! k" if "k < length ?F" "k \<noteq> j" for k
      using t'(6) that inv by (simp add: I_def)
    have 1: "\<forall>k < length ?F.
         frictionCoefficient (mFrictionConstraints t' ! k) = frictionCoefficient (?F ! k) \<and>
         totalPenetrationImpulse (mFrictionConstraints t' ! k) =
           totalPenetrationImpulse (?F ! k)"
    proof (intro allI impI)
      fix k assume k: "k < length ?F"
      show "frictionCoefficient (mFrictionConstraints t' ! k) = frictionCoefficient (?F ! k) \<and>
         totalPenetrationImpulse (mFrictionConstraints t' ! k) =
           totalPenetrationImpulse (?F ! k)"
      proof (cases "k = j")
        case True
        then show ?thesis using t'(7,8) same by simp
      next
        case False
        then show ?thesis using keep[OF k] inv k by (simp add: I_def)
      qed
    qed
    have 2: "\<forall>k < Suc j. ?pos k \<longrightarrow> withinFrictionLimit (mFrictionConstraints t' ! k)"
    proof (intro allI impI)
      fix k assume k: "k < Suc j" and p: "?pos k"
      show "withinFrictionLimit (mFrictionConstraints t' ! k)"
      proof (cases "k = j")
        case True
        then show ?thesis using wj p by simp
      next
        case False
        then have kj: "k < j" using k by simp
        then have "k < length ?F" using jF by simp
        from keep[OF this False] inv kj p show ?thesis by (simp add: I_def)
      qed
    qed
    have "I (Suc j) t'"
      unfolding I_def using inv t'(2-5) 1 2 by (simp add: I_def)
    with t'(1) show "\<exists>t'. solveFrictionConstraint env j t = Inr t' \<and> I (Suc j) t'" by blast
  qed
  then obtain s' where s': "forEach (solveFrictionConstraint env) [0..<?n] s = Inr s'" "I ?n s'"
    by blast
  show ?thesis
    using s' b unfolding I_def solveFrictionConstraints_def
    by (intro exI[of _ s']) auto
qed

section \<open>The penetration sweep, constraint by constraint\<close>

lemma solvePenetrationConstraint_effect:
  assumes il: "i < length (mPenetrationConstraints s)"
    and fl: "indexFrictionConstraint (mPenetrationConstraints s ! i) < length (mFrictionConstraints s)"
  shows "\<exists>s' x y. solvePenetrationConstraint i s = Inr s' \<and> 0 \<le> x \<and>
           (0 \<le> penetrationSplitImpulse (mPenetrationConstraints s ! i) \<longrightarrow> 0 \<le> y) \<and>
           mNbPenetrationConstraints s' = mNbPenetrationConstraints s \<and>
           mNbFrictionConstraints s' = mNbFrictionConstraints s \<and>
           mIsSplitImpulseActive s' = mIsSplitImpulseActive s \<and>
           mPenetrationConstraints s' =
             (mPenetrationConstraints s)[i := (mPenetrationConstraints s ! i)
                \<lparr>penetrationImpulse := x, penetrationSplitImpulse := y\<rparr>] \<and>
           mFrictionConstraints s' =
             (mFrictionConstraints s)[indexFrictionConstraint (mPenetrationConstraints s ! i) :=
                (mFrictionConstraints s ! indexFrictionConstraint (mPenetrationConstraints s ! i))
                \<lparr>totalPenetrationImpulse :=
                   totalPenetrationImpulse
                     (mFrictionConstraints s !
                        indexFrictionConstraint (mPenetrationConstraints s ! i)) + x\<rparr>]"
proof -
  let ?c = "mPenetrationConstraints s ! i"
  define x where "x = max (penetrationImpulse ?c + penetrationDeltaLambda s ?c) 0"
  define s1 where "s1 = solvePenetrationVelocity i s"
  have x0: "0 \<le> x" by (simp add: x_def)
  have P1: "mPenetrationConstraints s1 =
              (mPenetrationConstraints s)[i := ?c\<lparr>penetrationImpulse := x\<rparr>]"
    by (simp add: s1_def x_def solvePenetrationVelocity_P)
  have F1: "mFrictionConstraints s1 =
              (mFrictionConstraints s)[indexFrictionConstraint ?c :=
                (mFrictionConstraints s ! indexFrictionConstraint ?c)
                \<lparr>totalPenetrationImpulse :=
                   totalPenetrationImpulse (mFrictionConstraints s ! indexFrictionConstraint ?c)
                   + x\<rparr>]"
    by (simp add: s1_def x_def solvePenetrationVelocity_F)
  show ?thesis
  proof (cases "mIsSplitImpulseActive s")
    case False
    have "solvePenetrationConstraint i s = Inr s1"
      using il fl False by (simp add: solvePenetrationConstraint_def s1_def)
    moreover have "mPenetrationConstraints s1 =
        (mPenetrationConstraints s)[i := ?c\<lparr>penetrationImpulse := x,
           penetrationSplitImpulse := penetrationSplitImpulse ?c\<rparr>]"
      by (simp add: P1)
    ultimately show ?thesis
      using x0 F1 by (intro exI[of _ s1] exI[of _ x] exI[of _ "penetrationSplitImpulse ?c"])
        (simp add: s1_def)
  next
    case True
    define s2 where "s2 = solvePenetrationSplit i s1"
    define y where "y = max (penetrationSplitImpulse ?c +
         - (penetrationJvSplit s1 (?c\<lparr>penetrationImpulse := x\<rparr>) +
            biasPenetrationDepth s1 (?c\<lparr>penetrationImpulse := x\<rparr>)) *
         inversePenetrationMass ?c) 0"
    have y0: "0 \<le> y" by (simp add: y_def)
    have "solvePenetrationConstraint i s = Inr s2"
      using il fl True by (simp add: solvePenetrationConstraint_def s1_def s2_def)
    moreover have "mPenetrationConstraints s2 =
        (mPenetrationConstraints s)[i := ?c\<lparr>penetrationImpulse := x,
           penetrationSplitImpulse := y\<rparr>]"
      using il by (simp add: s2_def solvePenetrationSplit_P P1 y_def)
    moreover have "mFrictionConstraints s2 = mFrictionConstraints s1"
      by (simp add: s2_def)
    ultimately show ?thesis
      using x0 y0 F1 by (intro exI[of _ s2] exI[of _ x] exI[of _ y]) (simp add: s2_def s1_def)
  qed
qed

lemma resetTotalPenetrationImpulse_effect:
  assumes "mNbFrictionConstraints s \<le> length (mFrictionConstraints s)"
  shows "\<exists>s'. resetTotalPenetrationImpulse s = Inr s' \<and>
           mPenetrationConstraints s' = mPenetrationConstraints s \<and>
           mNbPenetrationConstraints s' = mNbPenetrationConstraints s \<and>
           mNbFrictionConstraints s' = mNbFrictionConstraints s \<and>
           length (mFrictionConstraints s') = length (mFrictionConstraints s) \<and>
           (\<forall>k < length (mFrictionConstraints s).
              mFrictionConstraints s' ! k =
                (if k < mNbFrictionConstraints s
                 then (mFrictionConstraints s ! k)\<lparr>totalPenetrationImpulse := 0\<rparr>
                 else mFrictionConstraints s ! k))"
proof -
  let ?F = "mFrictionConstraints s" and ?n = "mNbFrictionConstraints s"
  define I where "I j t \<longleftrightarrow>
      mPenetrationConstraints t = mPenetrationConstraints s \<and>
      mNbPenetrationConstraints t = mNbPenetrationConstraints s \<and>
      mNbFrictionConstraints t = ?n \<and>
      length (mFrictionConstraints t) = length ?F \<and>
      (\<forall>k < length ?F. mFrictionConstraints t ! k =
         (if k < j then (?F ! k)\<lparr>totalPenetrationImpulse := 0\<rparr> else ?F ! k))"
    for j :: nat and t :: ContactSolver
  have "\<exists>s'. forEach resetTotalPenetrationImpulseAt [0..<?n] s = Inr s' \<and> I ?n s'"
  proof (rule forEach_total)
    show "I 0 s" by (simp add: I_def)
  next
    fix j t assume j: "j < ?n" and inv: "I j t"
    have jl: "j < length (mFrictionConstraints t)" using j assms inv by (simp add: I_def)
    have tj: "mFrictionConstraints t ! j = ?F ! j" using inv jl by (simp add: I_def)
    have "I (Suc j) (t\<lparr>mFrictionConstraints := (mFrictionConstraints t)
                    [j := (mFrictionConstraints t ! j)\<lparr>totalPenetrationImpulse := 0\<rparr>]\<rparr>)"
      using inv jl unfolding I_def tj by (auto simp: nth_list_update less_Suc_eq)
    then show "\<exists>t'. resetTotalPenetrationImpulseAt j t = Inr t' \<and> I (Suc j) t'"
      using jl by (simp add: resetTotalPenetrationImpulseAt_def)
  qed
  then show ?thesis
    unfolding I_def resetTotalPenetrationImpulse_def by auto
qed

lemma solvePenetrationConstraints_effect:
  assumes cib: "constraintsInBounds s"
  shows "\<exists>s'. solvePenetrationConstraints s = Inr s' \<and>
           mNbPenetrationConstraints s' = mNbPenetrationConstraints s \<and>
           mNbFrictionConstraints s' = mNbFrictionConstraints s \<and>
           length (mPenetrationConstraints s') = length (mPenetrationConstraints s) \<and>
           length (mFrictionConstraints s') = length (mFrictionConstraints s) \<and>
           (\<forall>k < length (mPenetrationConstraints s).
              indexFrictionConstraint (mPenetrationConstraints s' ! k) =
                indexFrictionConstraint (mPenetrationConstraints s ! k)) \<and>
           (\<forall>k < mNbPenetrationConstraints s.
              0 \<le> penetrationImpulse (mPenetrationConstraints s' ! k)) \<and>
           (\<forall>k < length (mPenetrationConstraints s).
              0 \<le> penetrationSplitImpulse (mPenetrationConstraints s ! k) \<longrightarrow>
              0 \<le> penetrationSplitImpulse (mPenetrationConstraints s' ! k)) \<and>
           (\<forall>f < length (mFrictionConstraints s). \<exists>u\<ge>0.
              mFrictionConstraints s' ! f =
                (mFrictionConstraints s ! f)\<lparr>totalPenetrationImpulse :=
                   totalPenetrationImpulse (mFrictionConstraints s ! f) + u\<rparr>)"
proof -
  let ?P = "mPenetrationConstraints s" and ?F = "mFrictionConstraints s"
  let ?nP = "mNbPenetrationConstraints s" and ?nF = "mNbFrictionConstraints s"
  from cib have bP: "?nP \<le> length ?P" and bF: "?nF \<le> length ?F"
    and bI: "\<forall>k < ?nP. indexFrictionConstraint (?P ! k) < ?nF"
    by (simp_all add: constraintsInBounds_iff)
  define I where "I j t \<longleftrightarrow>
      mNbPenetrationConstraints t = ?nP \<and> mNbFrictionConstraints t = ?nF \<and>
      length (mPenetrationConstraints t) = length ?P \<and>
      length (mFrictionConstraints t) = length ?F \<and>
      (\<forall>k < length ?P. indexFrictionConstraint (mPenetrationConstraints t ! k) =
                          indexFrictionConstraint (?P ! k)) \<and>
      (\<forall>k < length ?P. j \<le> k \<longrightarrow> mPenetrationConstraints t ! k = ?P ! k) \<and>
      (\<forall>k < j. 0 \<le> penetrationImpulse (mPenetrationConstraints t ! k)) \<and>
      (\<forall>k < length ?P. 0 \<le> penetrationSplitImpulse (?P ! k) \<longrightarrow>
                         0 \<le> penetrationSplitImpulse (mPenetrationConstraints t ! k)) \<and>
      (\<forall>f < length ?F. \<exists>u\<ge>0. mFrictionConstraints t ! f =
         (?F ! f)\<lparr>totalPenetrationImpulse := totalPenetrationImpulse (?F ! f) + u\<rparr>)"
    for j :: nat and t :: ContactSolver
  have "\<exists>s'. forEach solvePenetrationConstraint [0..<?nP] s = Inr s' \<and> I ?nP s'"
  proof (rule forEach_total)
    have "\<exists>u\<ge>0. ?F ! f = (?F ! f)\<lparr>totalPenetrationImpulse :=
            totalPenetrationImpulse (?F ! f) + u\<rparr>" for f
      by (rule exI[of _ 0]) simp
    then show "I 0 s" by (simp add: I_def)
  next
    fix j t assume j: "j < ?nP" and inv: "I j t"
    let ?Q = "mPenetrationConstraints t" and ?G = "mFrictionConstraints t"
    have jP: "j < length ?P" using j bP by simp
    have jl: "j < length ?Q" using jP inv by (simp add: I_def)
    have tj: "?Q ! j = ?P ! j" using inv jP by (simp add: I_def)
    let ?fi = "indexFrictionConstraint (?P ! j)"
    have fiF: "?fi < length ?F" using bI j bF by (meson less_le_trans)
    have fl: "indexFrictionConstraint (?Q ! j) < length ?G"
      using fiF inv by (simp add: tj I_def)
    from solvePenetrationConstraint_effect[OF jl fl] obtain t' x y where
      t': "solvePenetrationConstraint j t = Inr t'" "0 \<le> x"
        "0 \<le> penetrationSplitImpulse (?Q ! j) \<longrightarrow> 0 \<le> y"
        "mNbPenetrationConstraints t' = mNbPenetrationConstraints t"
        "mNbFrictionConstraints t' = mNbFrictionConstraints t"
        "mPenetrationConstraints t' =
           ?Q[j := (?Q ! j)\<lparr>penetrationImpulse := x, penetrationSplitImpulse := y\<rparr>]"
        "mFrictionConstraints t' =
           ?G[indexFrictionConstraint (?Q ! j) :=
              (?G ! indexFrictionConstraint (?Q ! j))
              \<lparr>totalPenetrationImpulse :=
                 totalPenetrationImpulse (?G ! indexFrictionConstraint (?Q ! j)) + x\<rparr>]"
      by blast
    have lenQ: "length ?Q = length ?P" and lenG: "length ?G = length ?F"
      using inv by (simp_all add: I_def)
    have 5: "\<forall>k < length ?P. indexFrictionConstraint (mPenetrationConstraints t' ! k) =
                          indexFrictionConstraint (?P ! k)"
      using inv lenQ jP jl unfolding t'(6) tj by (auto simp: I_def nth_list_update)
    have 6: "\<forall>k < length ?P. Suc j \<le> k \<longrightarrow> mPenetrationConstraints t' ! k = ?P ! k"
      using inv lenQ jP jl unfolding t'(6) tj by (auto simp: I_def nth_list_update)
    have 7: "\<forall>k < Suc j. 0 \<le> penetrationImpulse (mPenetrationConstraints t' ! k)"
      using inv lenQ jP jl t'(2) unfolding t'(6) tj
      by (auto simp: I_def nth_list_update less_Suc_eq)
    have 8: "\<forall>k < length ?P. 0 \<le> penetrationSplitImpulse (?P ! k) \<longrightarrow>
                         0 \<le> penetrationSplitImpulse (mPenetrationConstraints t' ! k)"
      using inv lenQ jP jl t'(3) unfolding t'(6) tj
      by (auto simp: I_def nth_list_update)
    have 9: "\<exists>u\<ge>0. mFrictionConstraints t' ! f =
         (?F ! f)\<lparr>totalPenetrationImpulse := totalPenetrationImpulse (?F ! f) + u\<rparr>"
      if f: "f < length ?F" for f
    proof -
      from inv f obtain u where u: "0 \<le> u" "?G ! f =
         (?F ! f)\<lparr>totalPenetrationImpulse := totalPenetrationImpulse (?F ! f) + u\<rparr>"
        unfolding I_def by blast
      show ?thesis
      proof (cases "f = ?fi")
        case True
        have G: "?G ! ?fi =
            (?F ! ?fi)\<lparr>totalPenetrationImpulse := totalPenetrationImpulse (?F ! ?fi) + u\<rparr>"
          using u(2) True by simp
        have "mFrictionConstraints t' ! ?fi =
            (?F ! ?fi)\<lparr>totalPenetrationImpulse :=
               totalPenetrationImpulse (?F ! ?fi) + (u + x)\<rparr>"
          using fiF lenG unfolding t'(7) tj by (simp add: G add.assoc)
        then have "mFrictionConstraints t' ! f =
            (?F ! f)\<lparr>totalPenetrationImpulse := totalPenetrationImpulse (?F ! f) + (u + x)\<rparr>"
          using True by simp
        moreover have "0 \<le> u + x" using u(1) t'(2) by simp
        ultimately show ?thesis by blast
      next
        case False
        then have "mFrictionConstraints t' ! f = ?G ! f"
          unfolding t'(7) tj by simp
        with u show ?thesis by auto
      qed
    qed
    have "I (Suc j) t'"
      unfolding I_def using inv t'(4,5) 5 6 7 8 9 lenQ lenG
      by (simp add: I_def t'(6) t'(7))
    with t'(1) show "\<exists>t'. solvePenetrationConstraint j t = Inr t' \<and> I (Suc j) t'" by blast
  qed
  then obtain s' where s': "forEach solvePenetrationConstraint [0..<?nP] s = Inr s'" "I ?nP s'"
    by blast
  show ?thesis
    using s' unfolding I_def solvePenetrationConstraints_def
    by (intro exI[of _ s']) simp
qed

section \<open>The constraints built by initializeForIsland\<close>

lemma map_update_same: "(map g xs)[c := g (xs ! c)] = map g xs"
  by (metis list_update_id map_update)

lemma cachedImpulses_mark_resting:
  "cachedImpulses (island\<lparr>getContactManifolds := (getContactManifolds island)
      [i := (getContactManifolds island ! i)
         \<lparr>contactPoints := (contactPoints (getContactManifolds island ! i))
            [c := (contactPoints (getContactManifolds island ! i) ! c)
               \<lparr>getIsRestingContact := True\<rparr>]\<rparr>]\<rparr>) =
   cachedImpulses island"
proof -
  let ?ms = "getContactManifolds island"
  let ?pts = "contactPoints (?ms ! i)"
  have "map getPenetrationImpulse (?pts[c := (?pts ! c)\<lparr>getIsRestingContact := True\<rparr>]) =
        (map getPenetrationImpulse ?pts)[c := getPenetrationImpulse (?pts ! c)]"
    by (simp add: map_update)
  also have "\<dots> = map getPenetrationImpulse ?pts" by (rule map_update_same)
  finally have inner: "map getPenetrationImpulse
        (?pts[c := (?pts ! c)\<lparr>getIsRestingContact := True\<rparr>]) =
      map getPenetrationImpulse ?pts" .
  have "cachedImpulses (island\<lparr>getContactManifolds := ?ms
      [i := (?ms ! i)\<lparr>contactPoints := ?pts[c := (?pts ! c)\<lparr>getIsRestingContact := True\<rparr>]\<rparr>]\<rparr>) =
    (map (\<lambda>m. map getPenetrationImpulse (contactPoints m)) ?ms)
      [i := (\<lambda>m. map getPenetrationImpulse (contactPoints m)) (?ms ! i)]"
    by (simp add: cachedImpulses_def map_update map_update_same)
  also have "\<dots> = map (\<lambda>m. map getPenetrationImpulse (contactPoints m)) ?ms"
    by (rule map_update_same)
  finally show ?thesis by (simp add: cachedImpulses_def)
qed

lemma cachedImpulses_lengths:
  assumes "cachedImpulses a = cachedImpulses b"
  shows "length (getContactManifolds a) = length (getContactManifolds b)"
    and "i < length (getContactManifolds b) \<Longrightarrow>
         length (contactPoints (getContactManifolds a ! i)) =
         length (contactPoints (getContactManifolds b ! i))"
proof -
  from assms have "length (cachedImpulses a) = length (cachedImpulses b)" by simp
  then show l: "length (getContactManifolds a) = length (getContactManifolds b)"
    by (simp add: cachedImpulses_def)
  assume i: "i < length (getContactManifolds b)"
  from assms have "length (cachedImpulses a ! i) = length (cachedImpulses b ! i)" by simp
  then show "length (contactPoints (getContactManifolds a ! i)) =
         length (contactPoints (getContactManifolds b ! i))"
    using i l by (simp add: cachedImpulses_def)
qed

lemma cachedImpulsesNonNegative_nth:
  assumes "cachedImpulsesNonNegative island"
    and "i < length (getContactManifolds island)"
    and "c < length (contactPoints (getContactManifolds island ! i))"
  shows "0 \<le> getPenetrationImpulse (contactPoints (getContactManifolds island ! i) ! c)"
  using assms by (simp add: cachedImpulsesNonNegative_def cachedImpulses_def list_all_length)

lemma initializeContactPoint_effect:
  assumes "mNbPenetrationConstraints s < length (mPenetrationConstraints s)"
  shows "\<exists>s' island'.
     initializeContactPoint env body1 body2 i1 i2 e i c (s, island) = Inr (s', island') \<and>
     mNbPenetrationConstraints s' = Suc (mNbPenetrationConstraints s) \<and>
     mNbFrictionConstraints s' = mNbFrictionConstraints s \<and>
     length (mPenetrationConstraints s') = length (mPenetrationConstraints s) \<and>
     length (mFrictionConstraints s') = length (mFrictionConstraints s) \<and>
     length (mContactConstraints s') = length (mContactConstraints s) \<and>
     mIsWarmStartingActive s' = mIsWarmStartingActive s \<and>
     (\<forall>k < length (mPenetrationConstraints s). k \<noteq> mNbPenetrationConstraints s \<longrightarrow>
        mPenetrationConstraints s' ! k = mPenetrationConstraints s ! k) \<and>
     indexFrictionConstraint (mPenetrationConstraints s' ! mNbPenetrationConstraints s) =
       mNbFrictionConstraints s \<and>
     penetrationSplitImpulse (mPenetrationConstraints s' ! mNbPenetrationConstraints s) = 0 \<and>
     penetrationImpulse (mPenetrationConstraints s' ! mNbPenetrationConstraints s) =
       (if mIsWarmStartingActive s
        then getPenetrationImpulse (contactPoints (getContactManifolds island ! i) ! c)
        else 0) \<and>
     cachedImpulses island' = cachedImpulses island"
  using assms cachedImpulses_mark_resting[of island i c]
  by (simp add: initializeContactPoint_def Let_def)

lemma initializeContactPoint_error:
  "initializeContactPoint env body1 body2 i1 i2 e i c st = Inl err \<Longrightarrow>
   \<not> mNbPenetrationConstraints (fst st) < length (mPenetrationConstraints (fst st))"
  by (auto simp: initializeContactPoint_def Let_def split: if_splits)

lemma beginFrictionConstraint_fields [simp]:
  "mNbPenetrationConstraints (beginFrictionConstraint env b1 b2 i1 i2 i s) =
     mNbPenetrationConstraints s"
  "mNbFrictionConstraints (beginFrictionConstraint env b1 b2 i1 i2 i s) =
     mNbFrictionConstraints s"
  "mPenetrationConstraints (beginFrictionConstraint env b1 b2 i1 i2 i s) =
     mPenetrationConstraints s"
  "length (mFrictionConstraints (beginFrictionConstraint env b1 b2 i1 i2 i s)) =
     length (mFrictionConstraints s)"
  "length (mContactConstraints (beginFrictionConstraint env b1 b2 i1 i2 i s)) =
     length (mContactConstraints s)"
  "mIsWarmStartingActive (beginFrictionConstraint env b1 b2 i1 i2 i s) =
     mIsWarmStartingActive s"
  by (simp_all add: beginFrictionConstraint_def Let_def)

lemma computeFrictionVectors_error:
  "computeFrictionVectors env d fc = Inl err \<Longrightarrow> err = AssertionFailed"
  by (auto simp: computeFrictionVectors_def Let_def split: if_splits)

lemma finishFrictionConstraint_error:
  "finishFrictionConstraint env b1 b2 i1 i2 m s fc = Inl err \<Longrightarrow> err = AssertionFailed"
  unfolding finishFrictionConstraint_def Let_def
  by (auto split: sum.splits dest: computeFrictionVectors_error)

lemma contact_loop_effect:
  assumes fits: "mNbPenetrationConstraints s \<le> length (mPenetrationConstraints s)"
  shows "case forEach (initializeContactPoint env body1 body2 i1 i2 e i) [0..<m] (s, island) of
     Inl err \<Rightarrow> \<not> mNbPenetrationConstraints s + m \<le> length (mPenetrationConstraints s)
   | Inr st' \<Rightarrow>
     mNbPenetrationConstraints (fst st') = mNbPenetrationConstraints s + m \<and>
     mNbPenetrationConstraints s + m \<le> length (mPenetrationConstraints s) \<and>
     mNbFrictionConstraints (fst st') = mNbFrictionConstraints s \<and>
     length (mPenetrationConstraints (fst st')) = length (mPenetrationConstraints s) \<and>
     length (mFrictionConstraints (fst st')) = length (mFrictionConstraints s) \<and>
     length (mContactConstraints (fst st')) = length (mContactConstraints s) \<and>
     cachedImpulses (snd st') = cachedImpulses island \<and>
     mIsWarmStartingActive (fst st') = mIsWarmStartingActive s \<and>
     (\<forall>k < mNbPenetrationConstraints s.
        mPenetrationConstraints (fst st') ! k = mPenetrationConstraints s ! k) \<and>
     (\<forall>k. mNbPenetrationConstraints s \<le> k \<and> k < mNbPenetrationConstraints s + m \<longrightarrow>
        indexFrictionConstraint (mPenetrationConstraints (fst st') ! k) =
          mNbFrictionConstraints s \<and>
        penetrationSplitImpulse (mPenetrationConstraints (fst st') ! k) = 0 \<and>
        (\<not> mIsWarmStartingActive s \<longrightarrow>
         penetrationImpulse (mPenetrationConstraints (fst st') ! k) = 0) \<and>
        (cachedImpulsesNonNegative island \<and> i < length (getContactManifolds island) \<and>
         m \<le> length (contactPoints (getContactManifolds island ! i)) \<longrightarrow>
         0 \<le> penetrationImpulse (mPenetrationConstraints (fst st') ! k)))"
proof -
  let ?P = "mPenetrationConstraints s" and ?n = "mNbPenetrationConstraints s"
  let ?ok = "cachedImpulsesNonNegative island \<and> i < length (getContactManifolds island) \<and>
             m \<le> length (contactPoints (getContactManifolds island ! i))"
  define I where "I j st \<longleftrightarrow>
      mNbPenetrationConstraints (fst st) = ?n + j \<and>
      ?n + j \<le> length ?P \<and>
      mNbFrictionConstraints (fst st) = mNbFrictionConstraints s \<and>
      length (mPenetrationConstraints (fst st)) = length ?P \<and>
      length (mFrictionConstraints (fst st)) = length (mFrictionConstraints s) \<and>
      length (mContactConstraints (fst st)) = length (mContactConstraints s) \<and>
      mIsWarmStartingActive (fst st) = mIsWarmStartingActive s \<and>
      cachedImpulses (snd st) = cachedImpulses island \<and>
      (\<forall>k < ?n. mPenetrationConstraints (fst st) ! k = ?P ! k) \<and>
      (\<forall>k. ?n \<le> k \<and> k < ?n + j \<longrightarrow>
         indexFrictionConstraint (mPenetrationConstraints (fst st) ! k) =
           mNbFrictionConstraints s \<and>
         penetrationSplitImpulse (mPenetrationConstraints (fst st) ! k) = 0 \<and>
         (\<not> mIsWarmStartingActive s \<longrightarrow>
          penetrationImpulse (mPenetrationConstraints (fst st) ! k) = 0) \<and>
         (?ok \<longrightarrow> 0 \<le> penetrationImpulse (mPenetrationConstraints (fst st) ! k)))"
    for j :: nat and st :: "ContactSolver \<times> Island"
  have "case forEach (initializeContactPoint env body1 body2 i1 i2 e i) [0..<m] (s, island) of
          Inl err \<Rightarrow> \<not> ?n + m \<le> length ?P | Inr st' \<Rightarrow> I m st'"
  proof (rule forEach_rule)
    show "I 0 (s, island)" using fits by (simp add: I_def)
  next
    fix j st assume j: "j < m" and inv: "I j st"
    obtain t isl where st: "st = (t, isl)" by (cases st)
    have nt: "mNbPenetrationConstraints t = ?n + j"
      and lt: "length (mPenetrationConstraints t) = length ?P"
      and ci: "cachedImpulses isl = cachedImpulses island"
      and wt: "mIsWarmStartingActive t = mIsWarmStartingActive s"
      using inv by (simp_all add: I_def st)
    show "case initializeContactPoint env body1 body2 i1 i2 e i j st of
            Inl err \<Rightarrow> \<not> ?n + m \<le> length ?P | Inr st' \<Rightarrow> I (Suc j) st'"
    proof (cases "mNbPenetrationConstraints t < length (mPenetrationConstraints t)")
      case False
      then have "\<not> ?n + m \<le> length ?P" using nt lt j by simp
      moreover have "initializeContactPoint env body1 body2 i1 i2 e i j st = Inl OutOfBounds"
        using False by (simp add: st initializeContactPoint_def Let_def)
      ultimately show ?thesis by simp
    next
      case room': True
      from initializeContactPoint_effect[OF room', of env body1 body2 i1 i2 e i j isl]
      obtain t' isl' where
        t': "initializeContactPoint env body1 body2 i1 i2 e i j (t, isl) = Inr (t', isl')"
          "mNbPenetrationConstraints t' = Suc (mNbPenetrationConstraints t)"
          "mNbFrictionConstraints t' = mNbFrictionConstraints t"
          "length (mPenetrationConstraints t') = length (mPenetrationConstraints t)"
          "length (mFrictionConstraints t') = length (mFrictionConstraints t)"
          "length (mContactConstraints t') = length (mContactConstraints t)"
          "mIsWarmStartingActive t' = mIsWarmStartingActive t"
          "\<forall>k < length (mPenetrationConstraints t). k \<noteq> mNbPenetrationConstraints t \<longrightarrow>
             mPenetrationConstraints t' ! k = mPenetrationConstraints t ! k"
          "indexFrictionConstraint (mPenetrationConstraints t' ! mNbPenetrationConstraints t) =
             mNbFrictionConstraints t"
          "penetrationSplitImpulse (mPenetrationConstraints t' ! mNbPenetrationConstraints t) = 0"
          "penetrationImpulse (mPenetrationConstraints t' ! mNbPenetrationConstraints t) =
             (if mIsWarmStartingActive t
              then getPenetrationImpulse (contactPoints (getContactManifolds isl ! i) ! j)
              else 0)"
          "cachedImpulses isl' = cachedImpulses isl"
        by blast
      have lam: "0 \<le> penetrationImpulse (mPenetrationConstraints t' ! (?n + j))" if ok: ?ok
      proof (cases "mIsWarmStartingActive t")
        case False
        then show ?thesis using t'(11) nt by simp
      next
        case True
        from ok have i: "i < length (getContactManifolds island)"
          and m: "m \<le> length (contactPoints (getContactManifolds island ! i))"
          and nn: "cachedImpulsesNonNegative island" by simp_all
        have nn': "cachedImpulsesNonNegative isl"
          using nn ci by (simp add: cachedImpulsesNonNegative_def)
        have i': "i < length (getContactManifolds isl)"
          using cachedImpulses_lengths(1)[OF ci] i by simp
        have j': "j < length (contactPoints (getContactManifolds isl ! i))"
          using cachedImpulses_lengths(2)[OF ci i] j m by simp
        from cachedImpulsesNonNegative_nth[OF nn' i' j'] True t'(11) nt show ?thesis by simp
      qed
      have keep: "mPenetrationConstraints t' ! k = mPenetrationConstraints t ! k"
        if "k < ?n + j" for k
        using t'(8) that nt lt room' by simp
      have "I (Suc j) (t', isl')"
        unfolding I_def
      proof (intro conjI allI impI; (elim conjE)?)
        show "mNbPenetrationConstraints (fst (t', isl')) = ?n + Suc j" using t'(2) nt by simp
        show "?n + Suc j \<le> length ?P" using room' nt lt by simp
        show "mNbFrictionConstraints (fst (t', isl')) = mNbFrictionConstraints s"
          using t'(3) inv by (simp add: I_def st)
        show "length (mPenetrationConstraints (fst (t', isl'))) = length ?P"
          using t'(4) lt by simp
        show "length (mFrictionConstraints (fst (t', isl'))) = length (mFrictionConstraints s)"
          using t'(5) inv by (simp add: I_def st)
        show "length (mContactConstraints (fst (t', isl'))) = length (mContactConstraints s)"
          using t'(6) inv by (simp add: I_def st)
        show "mIsWarmStartingActive (fst (t', isl')) = mIsWarmStartingActive s"
          using t'(7) wt by simp
        show "cachedImpulses (snd (t', isl')) = cachedImpulses island" using t'(12) ci by simp
      next
        fix k assume "k < ?n"
        then show "mPenetrationConstraints (fst (t', isl')) ! k = ?P ! k"
          using keep[of k] inv by (simp add: I_def st)
      next
        fix k assume k: "?n \<le> k" "k < ?n + Suc j"
        show "indexFrictionConstraint (mPenetrationConstraints (fst (t', isl')) ! k) =
                mNbFrictionConstraints s"
        proof (cases "k = ?n + j")
          case True
          then show ?thesis using t'(9) nt inv by (simp add: I_def st)
        next
          case False
          then have "k < ?n + j" using k by simp
          then show ?thesis using keep[of k] inv k(1) by (simp add: I_def st)
        qed
      next
        fix k assume k: "?n \<le> k" "k < ?n + Suc j"
        show "penetrationSplitImpulse (mPenetrationConstraints (fst (t', isl')) ! k) = 0"
        proof (cases "k = ?n + j")
          case True
          then show ?thesis using t'(10) nt by simp
        next
          case False
          then have "k < ?n + j" using k by simp
          then show ?thesis using keep[of k] inv k(1) by (simp add: I_def st)
        qed
      next
        fix k assume k: "?n \<le> k" "k < ?n + Suc j" and cold: "\<not> mIsWarmStartingActive s"
        show "penetrationImpulse (mPenetrationConstraints (fst (t', isl')) ! k) = 0"
        proof (cases "k = ?n + j")
          case True
          then show ?thesis using t'(11) nt wt cold by simp
        next
          case False
          then have "k < ?n + j" using k by simp
          then show ?thesis using keep[of k] inv k(1) cold by (simp add: I_def st)
        qed
      next
        fix k assume k: "?n \<le> k" "k < ?n + Suc j"
          and "cachedImpulsesNonNegative island" "i < length (getContactManifolds island)"
          "m \<le> length (contactPoints (getContactManifolds island ! i))"
        then have ok: ?ok by simp
        show "0 \<le> penetrationImpulse (mPenetrationConstraints (fst (t', isl')) ! k)"
        proof (cases "k = ?n + j")
          case True
          then show ?thesis using lam[OF ok] by simp
        next
          case False
          then have "k < ?n + j" using k by simp
          then show ?thesis using keep[of k] inv k(1) ok by (simp add: I_def st)
        qed
      qed
      with t'(1) show ?thesis unfolding st by simp
    qed
  qed
  then show ?thesis
    unfolding I_def by (auto split: sum.splits)
qed

lemma sum_list_le_length:
  "\<forall>x \<in> set xs. x \<le> (b::nat) \<Longrightarrow> sum_list xs \<le> b * length xs"
  by (induction xs) auto

lemma sum_list_take_le:
  assumes "\<forall>x \<in> set xs. x \<le> (b::nat)"
  shows "sum_list (take j xs) \<le> b * j"
proof -
  have "\<forall>x \<in> set (take j xs). x \<le> b" using assms by (auto dest: in_set_takeD)
  then have "sum_list (take j xs) \<le> b * length (take j xs)" by (rule sum_list_le_length)
  also have "\<dots> \<le> b * j" by simp
  finally show ?thesis .
qed

lemma initializeForIsland_effect:
  "case initializeForIsland env dt island s of
     Inl e \<Rightarrow>
       length (getContactManifolds island) < 2 ^ 30 \<and>
       (\<forall>m \<in> set (getContactManifolds island). length (contactPoints m) \<le> 4) \<longrightarrow>
       e \<noteq> OutOfBounds
   | Inr st' \<Rightarrow>
       length (mPenetrationConstraints (fst st')) =
         uint_times (length (getContactManifolds island)) 4 \<and>
       length (mFrictionConstraints (fst st')) = length (getContactManifolds island) \<and>
       mNbFrictionConstraints (fst st') = length (getContactManifolds island) \<and>
       mNbPenetrationConstraints (fst st') =
         sum_list (map (\<lambda>m. length (contactPoints m)) (getContactManifolds island)) \<and>
       mNbPenetrationConstraints (fst st') \<le> length (mPenetrationConstraints (fst st')) \<and>
       cachedImpulses (snd st') = cachedImpulses island \<and>
       (\<forall>k < mNbPenetrationConstraints (fst st').
          indexFrictionConstraint (mPenetrationConstraints (fst st') ! k) <
            length (getContactManifolds island) \<and>
          penetrationSplitImpulse (mPenetrationConstraints (fst st') ! k) = 0 \<and>
          (\<not> mIsWarmStartingActive s \<longrightarrow>
           penetrationImpulse (mPenetrationConstraints (fst st') ! k) = 0) \<and>
          (cachedImpulsesNonNegative island \<longrightarrow>
           0 \<le> penetrationImpulse (mPenetrationConstraints (fst st') ! k)))"
proof -
  let ?ms = "getContactManifolds island"
  let ?n = "length ?ms"
  let ?sizes = "map (\<lambda>m. length (contactPoints m)) ?ms"
  let ?wf = "?n < 2 ^ 30 \<and> (\<forall>m \<in> set ?ms. length (contactPoints m) \<le> 4)"
  define Inv where "Inv j st \<longleftrightarrow>
      length (mPenetrationConstraints (fst st)) = uint_times ?n 4 \<and>
      length (mFrictionConstraints (fst st)) = ?n \<and>
      length (mContactConstraints (fst st)) = ?n \<and>
      mNbFrictionConstraints (fst st) = j \<and>
      mNbPenetrationConstraints (fst st) = sum_list (take j ?sizes) \<and>
      mNbPenetrationConstraints (fst st) \<le> length (mPenetrationConstraints (fst st)) \<and>
      cachedImpulses (snd st) = cachedImpulses island \<and>
      mIsWarmStartingActive (fst st) = mIsWarmStartingActive s \<and>
      (\<forall>k < mNbPenetrationConstraints (fst st).
         indexFrictionConstraint (mPenetrationConstraints (fst st) ! k) < j \<and>
         penetrationSplitImpulse (mPenetrationConstraints (fst st) ! k) = 0 \<and>
         (\<not> mIsWarmStartingActive s \<longrightarrow>
          penetrationImpulse (mPenetrationConstraints (fst st) ! k) = 0) \<and>
         (cachedImpulsesNonNegative island \<longrightarrow>
          0 \<le> penetrationImpulse (mPenetrationConstraints (fst st) ! k)))"
    for j :: nat and st :: "ContactSolver \<times> Island"
  have step: "case initializeManifold env j st of
                Inl e \<Rightarrow> ?wf \<longrightarrow> e \<noteq> OutOfBounds | Inr st' \<Rightarrow> Inv (Suc j) st'"
    if j: "j < ?n" and inv: "Inv j st" for j st
  proof -
    obtain t isl where st: "st = (t, isl)" by (cases st)
    let ?m = "getContactManifolds isl ! j"
    let ?mj = "length (contactPoints ?m)"
    let ?p1 = "getBody1 (contactPoints ?m ! 0)" and ?p2 = "getBody2 (contactPoints ?m ! 0)"
    have ci: "cachedImpulses isl = cachedImpulses island"
      and lP: "length (mPenetrationConstraints t) = uint_times ?n 4"
      and lF: "length (mFrictionConstraints t) = ?n"
      and lC: "length (mContactConstraints t) = ?n"
      and nF: "mNbFrictionConstraints t = j"
      and nP: "mNbPenetrationConstraints t = sum_list (take j ?sizes)"
      and fits: "mNbPenetrationConstraints t \<le> length (mPenetrationConstraints t)"
      and wm: "mIsWarmStartingActive t = mIsWarmStartingActive s"
      using inv by (simp_all add: Inv_def st)
    have jl: "j < length (getContactManifolds isl)"
      using cachedImpulses_lengths(1)[OF ci] j by simp
    have mj: "?mj = length (contactPoints (?ms ! j))"
      using cachedImpulses_lengths(2)[OF ci j] .
    have sizej: "?sizes ! j = ?mj" using j mj by simp
    have nPSuc: "sum_list (take (Suc j) ?sizes) = mNbPenetrationConstraints t + ?mj"
      using j sizej by (simp add: take_Suc_conv_app_nth nP)
    have room: "mNbPenetrationConstraints t + ?mj \<le> length (mPenetrationConstraints t)"
      if wf: ?wf
    proof -
      from wf have sizes4: "\<forall>x \<in> set ?sizes. x \<le> 4" by auto
      have "mNbPenetrationConstraints t \<le> 4 * j"
        unfolding nP by (rule sum_list_take_le[OF sizes4])
      moreover have "?mj \<le> 4" using wf j mj by simp
      moreover have "uint_times ?n 4 = 4 * ?n" using wf by (simp add: uint_times_def)
      ultimately show ?thesis using lP j by simp
    qed
    have nn: "cachedImpulsesNonNegative isl = cachedImpulsesNonNegative island"
      using ci by (simp add: cachedImpulsesNonNegative_def)
    show ?thesis
    proof (cases "0 < ?mj")
      case False
      then show ?thesis by (simp add: st initializeManifold_def Let_def)
    next
      case pts: True
      show ?thesis
      proof (cases "?p1 = 0 \<or> ?p2 = 0")
        case True
        then show ?thesis using pts by (simp add: st initializeManifold_def Let_def)
      next
        case ptrs: False
        show ?thesis
        proof (cases "mMapBodyToConstrainedVelocityIndex t ?p1")
          case None
          then show ?thesis using pts ptrs by (simp add: st initializeManifold_def Let_def)
        next
          case i1: (Some i1)
          show ?thesis
          proof (cases "mMapBodyToConstrainedVelocityIndex t ?p2")
            case None
            then show ?thesis using pts ptrs i1
              by (simp add: st initializeManifold_def Let_def)
          next
            case i2: (Some i2)
            have bounds: "mNbFrictionConstraints t < length (mFrictionConstraints t) \<and>
                          j < length (mContactConstraints t)"
              using nF lF lC j by simp
            show ?thesis
            proof (cases "rigidBodies isl ?p1")
              case None
              then show ?thesis using pts ptrs i1 i2 bounds
                by (simp add: st initializeManifold_def Let_def)
            next
              case b1: (Some b1)
              show ?thesis
              proof (cases "rigidBodies isl ?p2")
                case None
                then show ?thesis using pts ptrs i1 i2 bounds b1
                  by (simp add: st initializeManifold_def Let_def)
              next
                case b2: (Some b2)
                let ?s0 = "beginFrictionConstraint env b1 b2 i1 i2 j t"
                let ?e = "computeMixedRestitutionFactor env b1 b2"
                let ?loop = "forEach (initializeContactPoint env b1 b2 i1 i2 ?e j) [0..<?mj]
                               (?s0, isl)"
                have fits0: "mNbPenetrationConstraints ?s0 \<le> length (mPenetrationConstraints ?s0)"
                  using fits by simp
                note eff = contact_loop_effect[OF fits0, where env = env and ?body1.0 = b1 and ?body2.0 = b2
                    and ?i1.0 = i1 and ?i2.0 = i2 and e = ?e and i = j and m = ?mj and island = isl]
                show ?thesis
                proof (cases ?loop)
                  case (Inl err)
                  then have res: "initializeManifold env j st = Inl err"
                    using pts ptrs i1 i2 bounds b1 b2
                    by (simp add: st initializeManifold_def Let_def)
                  have "\<not> mNbPenetrationConstraints t + ?mj \<le> length (mPenetrationConstraints t)"
                    using eff Inl by simp
                  with room have "\<not> ?wf" by blast
                  with res show ?thesis by (simp only: sum.case) blast
                next
                  case loop: (Inr st2)
                  obtain s2 isl2 where st2: "st2 = (s2, isl2)" by (cases st2)
                  from eff loop have
                    s2: "mNbPenetrationConstraints s2 = mNbPenetrationConstraints t + ?mj"
                      "mNbPenetrationConstraints t + ?mj \<le> length (mPenetrationConstraints t)"
                      "mNbFrictionConstraints s2 = j"
                      "length (mPenetrationConstraints s2) = uint_times ?n 4"
                      "length (mFrictionConstraints s2) = ?n"
                      "length (mContactConstraints s2) = ?n"
                      "cachedImpulses isl2 = cachedImpulses island"
                      "mIsWarmStartingActive s2 = mIsWarmStartingActive s"
                    and old: "\<forall>k < mNbPenetrationConstraints t.
                       mPenetrationConstraints s2 ! k = mPenetrationConstraints t ! k"
                    and new: "\<forall>k. mNbPenetrationConstraints t \<le> k \<and>
                         k < mNbPenetrationConstraints t + ?mj \<longrightarrow>
                       indexFrictionConstraint (mPenetrationConstraints s2 ! k) = j \<and>
                       penetrationSplitImpulse (mPenetrationConstraints s2 ! k) = 0 \<and>
                       (\<not> mIsWarmStartingActive s \<longrightarrow>
                        penetrationImpulse (mPenetrationConstraints s2 ! k) = 0) \<and>
                       (cachedImpulsesNonNegative isl \<and> j < length (getContactManifolds isl) \<and>
                        ?mj \<le> ?mj \<longrightarrow>
                        0 \<le> penetrationImpulse (mPenetrationConstraints s2 ! k))"
                    using nF lP lF lC ci wm by (auto simp: st2)
                  show ?thesis
                  proof (cases "finishFrictionConstraint env b1 b2 i1 i2 ?m s2
                                  (mFrictionConstraints s2 ! j)")
                    case (Inl err)
                    then have "initializeManifold env j st = Inl err"
                      using pts ptrs i1 i2 bounds b1 b2 loop nF
                      by (simp add: st st2 initializeManifold_def Let_def)
                    moreover have "err \<noteq> OutOfBounds"
                      using finishFrictionConstraint_error[OF Inl] by simp
                    ultimately show ?thesis by simp
                  next
                    case (Inr fc')
                    let ?s' = "s2\<lparr>mFrictionConstraints := (mFrictionConstraints s2)[j := fc'],
                                 mNbFrictionConstraints := j + 1\<rparr>"
                    have res: "initializeManifold env j st = Inr (?s', isl2)"
                      using pts ptrs i1 i2 bounds b1 b2 loop nF Inr
                      by (simp add: st st2 initializeManifold_def Let_def)
                    have slots: "indexFrictionConstraint (mPenetrationConstraints s2 ! k) < Suc j \<and>
                         penetrationSplitImpulse (mPenetrationConstraints s2 ! k) = 0 \<and>
                         (\<not> mIsWarmStartingActive s \<longrightarrow>
                          penetrationImpulse (mPenetrationConstraints s2 ! k) = 0) \<and>
                         (cachedImpulsesNonNegative island \<longrightarrow>
                          0 \<le> penetrationImpulse (mPenetrationConstraints s2 ! k))"
                      if k: "k < mNbPenetrationConstraints t + ?mj" for k
                    proof (cases "k < mNbPenetrationConstraints t")
                      case True
                      then show ?thesis using old inv by (auto simp: Inv_def st)
                    next
                      case False
                      then show ?thesis using new k jl nn by auto
                    qed
                    have "Inv (Suc j) (?s', isl2)"
                      unfolding Inv_def using s2 slots nPSuc lP by simp
                    with res show ?thesis by simp
                  qed
                qed
              qed
            qed
          qed
        qed
      qed
    qed
  qed
  show ?thesis
  proof (cases "getNbBodies island > 0 \<and> ?n > 0 \<and>
                mSplitLinearVelocities s \<noteq> 0 \<and> mSplitAngularVelocities s \<noteq> 0")
    case False
    then have "initializeForIsland env dt island s = Inl AssertionFailed"
      by (simp add: initializeForIsland_def)
    then show ?thesis by simp
  next
    case True
    let ?s1 = "s\<lparr>mTimeStep := dt,
                   mNbContactManifolds := ?n,
                   mNbFrictionConstraints := 0,
                   mNbPenetrationConstraints := 0,
                   mContactConstraints := map (newContactManifoldSolver env) [0..<?n],
                   mPenetrationConstraints :=
                     map (newPenetrationConstraint env) [0..<uint_times ?n 4],
                   mFrictionConstraints := map (newFrictionConstraint env) [0..<?n]\<rparr>"
    have eq: "initializeForIsland env dt island s =
                forEach (initializeManifold env) [0..<?n] (?s1, island)"
      using True by (simp add: initializeForIsland_def Let_def)
    have inv0: "Inv 0 (?s1, island)" by (simp add: Inv_def)
    have "case forEach (initializeManifold env) [0..<?n] (?s1, island) of
            Inl e \<Rightarrow> ?wf \<longrightarrow> e \<noteq> OutOfBounds | Inr st' \<Rightarrow> Inv ?n st'"
      by (rule forEach_rule[where I = Inv, OF step inv0])
    then show ?thesis
      unfolding eq Inv_def by (auto split: sum.splits)
  qed
qed

section \<open>Sequences of sweeps\<close>

lemma warmStart_keeps:
  assumes cib: "constraintsInBounds s"
  shows "\<exists>s'. warmStart s = Inr s' \<and> constraintsInBounds s' \<and> sameLayout s s' \<and>
           (impulsesNonNegative s \<longrightarrow> impulsesNonNegative s')"
proof -
  from cib have b: "mNbPenetrationConstraints s \<le> length (mPenetrationConstraints s)"
    "mNbFrictionConstraints s \<le> length (mFrictionConstraints s)"
    and ix: "\<forall>k < mNbPenetrationConstraints s.
        indexFrictionConstraint (mPenetrationConstraints s ! k) < mNbFrictionConstraints s"
    by (simp_all add: constraintsInBounds_iff)
  from warmStart_effect[OF b] obtain s' where s': "warmStart s = Inr s'"
    and n: "mNbPenetrationConstraints s' = mNbPenetrationConstraints s"
      "mNbFrictionConstraints s' = mNbFrictionConstraints s"
      "length (mPenetrationConstraints s') = length (mPenetrationConstraints s)"
      "length (mFrictionConstraints s') = length (mFrictionConstraints s)"
    and P: "\<forall>k < length (mPenetrationConstraints s).
              mPenetrationConstraints s' ! k =
                (if k < mNbPenetrationConstraints s \<and>
                    \<not> isRestingContact (mPenetrationConstraints s ! k)
                 then (mPenetrationConstraints s ! k)\<lparr>penetrationImpulse := 0\<rparr>
                 else mPenetrationConstraints s ! k)"
    by blast
  have 1: "constraintsInBounds s'"
    unfolding constraintsInBounds_iff using n b ix P by auto
  have 2: "impulsesNonNegative s'" if "impulsesNonNegative s"
    unfolding impulsesNonNegative_iff using that n b P by (auto simp: impulsesNonNegative_iff)
  show ?thesis using s' 1 2 n by (auto simp: sameLayout_def)
qed

lemma resetTotalPenetrationImpulse_keeps:
  assumes cib: "constraintsInBounds s"
  shows "\<exists>s'. resetTotalPenetrationImpulse s = Inr s' \<and> constraintsInBounds s' \<and>
           sameLayout s s' \<and> (impulsesNonNegative s \<longrightarrow> impulsesNonNegative s')"
proof -
  from cib have b: "mNbFrictionConstraints s \<le> length (mFrictionConstraints s)"
    by (simp add: constraintsInBounds_iff)
  from resetTotalPenetrationImpulse_effect[OF b] obtain s' where
    s': "resetTotalPenetrationImpulse s = Inr s'"
    and n: "mPenetrationConstraints s' = mPenetrationConstraints s"
      "mNbPenetrationConstraints s' = mNbPenetrationConstraints s"
      "mNbFrictionConstraints s' = mNbFrictionConstraints s"
      "length (mFrictionConstraints s') = length (mFrictionConstraints s)"
    by blast
  show ?thesis
    using s' n cib
    by (auto simp: sameLayout_def constraintsInBounds_def impulsesNonNegative_def)
qed

lemma solvePenetrationConstraints_keeps:
  assumes cib: "constraintsInBounds s"
  shows "\<exists>s'. solvePenetrationConstraints s = Inr s' \<and> constraintsInBounds s' \<and>
           sameLayout s s' \<and>
           (\<forall>k < mNbPenetrationConstraints s.
              0 \<le> penetrationImpulse (mPenetrationConstraints s' ! k)) \<and>
           (impulsesNonNegative s \<longrightarrow> impulsesNonNegative s')"
proof -
  from cib have b: "mNbPenetrationConstraints s \<le> length (mPenetrationConstraints s)"
    "mNbFrictionConstraints s \<le> length (mFrictionConstraints s)"
    and ix: "\<forall>k < mNbPenetrationConstraints s.
        indexFrictionConstraint (mPenetrationConstraints s ! k) < mNbFrictionConstraints s"
    by (simp_all add: constraintsInBounds_iff)
  from solvePenetrationConstraints_effect[OF cib] obtain s' where
    s': "solvePenetrationConstraints s = Inr s'"
    and n: "mNbPenetrationConstraints s' = mNbPenetrationConstraints s"
      "mNbFrictionConstraints s' = mNbFrictionConstraints s"
      "length (mPenetrationConstraints s') = length (mPenetrationConstraints s)"
      "length (mFrictionConstraints s') = length (mFrictionConstraints s)"
    and same: "\<forall>k < length (mPenetrationConstraints s).
              indexFrictionConstraint (mPenetrationConstraints s' ! k) =
                indexFrictionConstraint (mPenetrationConstraints s ! k)"
    and lam: "\<forall>k < mNbPenetrationConstraints s.
              0 \<le> penetrationImpulse (mPenetrationConstraints s' ! k)"
    and split: "\<forall>k < length (mPenetrationConstraints s).
              0 \<le> penetrationSplitImpulse (mPenetrationConstraints s ! k) \<longrightarrow>
              0 \<le> penetrationSplitImpulse (mPenetrationConstraints s' ! k)"
    by blast
  have 1: "constraintsInBounds s'"
    unfolding constraintsInBounds_iff using n b ix same by auto
  have 2: "impulsesNonNegative s'" if "impulsesNonNegative s"
    unfolding impulsesNonNegative_iff using that n b lam split
    by (auto simp: impulsesNonNegative_iff)
  show ?thesis using s' 1 2 n lam by (auto simp: sameLayout_def)
qed

lemma solveFrictionConstraints_keeps:
  assumes cib: "constraintsInBounds s"
  shows "\<exists>s'. solveFrictionConstraints env s = Inr s' \<and> constraintsInBounds s' \<and>
           sameLayout s s' \<and> (impulsesNonNegative s \<longrightarrow> impulsesNonNegative s')"
proof -
  from cib have b: "mNbFrictionConstraints s \<le> length (mFrictionConstraints s)"
    by (simp add: constraintsInBounds_iff)
  from solveFrictionConstraints_effect[OF b, of env] obtain s' where
    s': "solveFrictionConstraints env s = Inr s'"
    and n: "mPenetrationConstraints s' = mPenetrationConstraints s"
      "mNbPenetrationConstraints s' = mNbPenetrationConstraints s"
      "mNbFrictionConstraints s' = mNbFrictionConstraints s"
      "length (mFrictionConstraints s') = length (mFrictionConstraints s)"
    by blast
  show ?thesis
    using s' n cib
    by (auto simp: sameLayout_def constraintsInBounds_def impulsesNonNegative_def)
qed

lemma sameLayout_refl [simp]: "sameLayout s s"
  by (simp add: sameLayout_def)

lemma sameLayout_trans: "sameLayout s t \<Longrightarrow> sameLayout t u \<Longrightarrow> sameLayout s u"
  by (simp add: sameLayout_def)

lemma runSweep_keeps:
  assumes cib: "constraintsInBounds s"
  shows "\<exists>s'. runSweep env c s = Inr s' \<and> constraintsInBounds s' \<and> sameLayout s s' \<and>
           (impulsesNonNegative s \<longrightarrow> impulsesNonNegative s')"
proof (cases c)
  case WarmStart
  then show ?thesis using warmStart_keeps[OF cib] by simp
next
  case ResetTotalPenetrationImpulse
  then show ?thesis using resetTotalPenetrationImpulse_keeps[OF cib] by simp
next
  case SolvePenetrationConstraints
  then show ?thesis using solvePenetrationConstraints_keeps[OF cib] by auto
next
  case SolveFrictionConstraints
  then show ?thesis using solveFrictionConstraints_keeps[OF cib, of env] by simp
qed

lemma runSweeps_keeps:
  assumes "constraintsInBounds s"
  shows "\<exists>s'. runSweeps env cs s = Inr s' \<and> constraintsInBounds s' \<and> sameLayout s s' \<and>
           (impulsesNonNegative s \<longrightarrow> impulsesNonNegative s')"
  using assms
proof (induction cs arbitrary: s)
  case Nil
  then show ?case by simp
next
  case (Cons c cs)
  from runSweep_keeps[OF Cons.prems, of env c] obtain t where
    t: "runSweep env c s = Inr t" "constraintsInBounds t" "sameLayout s t"
       "impulsesNonNegative s \<longrightarrow> impulsesNonNegative t"
    by blast
  from Cons.IH[OF t(2)] obtain s' where
    s': "runSweeps env cs t = Inr s'" "constraintsInBounds s'" "sameLayout t s'"
        "impulsesNonNegative t \<longrightarrow> impulsesNonNegative s'"
    by blast
  show ?case
    using t s' sameLayout_trans[OF t(3) s'(3)] by simp
qed

lemma initializeForIsland_result:
  assumes "initializeForIsland env dt island s = Inr (s0, island0)"
  shows "constraintsInBounds s0"
    and "cachedImpulsesNonNegative island \<Longrightarrow> impulsesNonNegative s0"
    and "mNbPenetrationConstraints s0 =
           sum_list (map (\<lambda>m. length (contactPoints m)) (getContactManifolds island))"
    and "length (mPenetrationConstraints s0) = uint_times (length (getContactManifolds island)) 4"
    and "\<not> mIsWarmStartingActive s \<Longrightarrow> impulsesNonNegative s0"
    and "splitImpulsesNonNegative s0"
    and "\<forall>k < mNbPenetrationConstraints s0.
           penetrationSplitImpulse (mPenetrationConstraints s0 ! k) = 0"
  using initializeForIsland_effect[where env = env and dt = dt and island = island and s = s] assms
  by (simp_all add: constraintsInBounds_iff impulsesNonNegative_iff splitImpulsesNonNegative_iff)

lemma totalPenetrationImpulse_non_negative:
  assumes cib: "constraintsInBounds s"
  shows "\<exists>s1 s2. resetTotalPenetrationImpulse s = Inr s1 \<and>
           solvePenetrationConstraints s1 = Inr s2 \<and>
           mNbFrictionConstraints s2 = mNbFrictionConstraints s \<and>
           mNbFrictionConstraints s2 \<le> length (mFrictionConstraints s2) \<and>
           (\<forall>k < mNbFrictionConstraints s.
              0 \<le> totalPenetrationImpulse (mFrictionConstraints s2 ! k) \<and>
              frictionCoefficient (mFrictionConstraints s2 ! k) =
                frictionCoefficient (mFrictionConstraints s ! k))"
proof -
  from cib have b: "mNbFrictionConstraints s \<le> length (mFrictionConstraints s)"
    by (simp add: constraintsInBounds_iff)
  from resetTotalPenetrationImpulse_effect[OF b] obtain s1 where
    s1: "resetTotalPenetrationImpulse s = Inr s1"
    and n1: "mNbFrictionConstraints s1 = mNbFrictionConstraints s"
      "length (mFrictionConstraints s1) = length (mFrictionConstraints s)"
    and F1: "\<forall>k < length (mFrictionConstraints s).
              mFrictionConstraints s1 ! k =
                (if k < mNbFrictionConstraints s
                 then (mFrictionConstraints s ! k)\<lparr>totalPenetrationImpulse := 0\<rparr>
                 else mFrictionConstraints s ! k)"
    by blast
  from resetTotalPenetrationImpulse_keeps[OF cib] s1 have cib1: "constraintsInBounds s1"
    by auto
  from solvePenetrationConstraints_effect[OF cib1] obtain s2 where
    s2: "solvePenetrationConstraints s1 = Inr s2"
    and n2: "mNbFrictionConstraints s2 = mNbFrictionConstraints s1"
      "length (mFrictionConstraints s2) = length (mFrictionConstraints s1)"
    and F2: "\<forall>f < length (mFrictionConstraints s1). \<exists>u\<ge>0.
              mFrictionConstraints s2 ! f =
                (mFrictionConstraints s1 ! f)\<lparr>totalPenetrationImpulse :=
                   totalPenetrationImpulse (mFrictionConstraints s1 ! f) + u\<rparr>"
    by blast
  have "0 \<le> totalPenetrationImpulse (mFrictionConstraints s2 ! k) \<and>
        frictionCoefficient (mFrictionConstraints s2 ! k) =
          frictionCoefficient (mFrictionConstraints s ! k)"
    if k: "k < mNbFrictionConstraints s" for k
  proof -
    have kl: "k < length (mFrictionConstraints s)" using k b by simp
    then have 1: "mFrictionConstraints s1 ! k =
                    (mFrictionConstraints s ! k)\<lparr>totalPenetrationImpulse := 0\<rparr>"
      using F1 k by simp
    from F2 kl n1 obtain u where u: "0 \<le> u"
      "mFrictionConstraints s2 ! k =
         (mFrictionConstraints s1 ! k)\<lparr>totalPenetrationImpulse :=
            totalPenetrationImpulse (mFrictionConstraints s1 ! k) + u\<rparr>"
      by auto
    show ?thesis by (simp add: u 1)
  qed
  then show ?thesis using s1 s2 n1 n2 b by auto
qed

lemma runSweeps_append:
  "runSweeps env (xs @ ys) s =
     (case runSweeps env xs s of Inl e \<Rightarrow> Inl e | Inr t \<Rightarrow> runSweeps env ys t)"
  by (induction xs arbitrary: s) (auto split: sum.splits)

lemma warmStart_keeps_split:
  assumes cib: "constraintsInBounds s" and sp: "splitImpulsesNonNegative s"
    and run: "warmStart s = Inr s'"
  shows "splitImpulsesNonNegative s'"
proof -
  from cib have b: "mNbPenetrationConstraints s \<le> length (mPenetrationConstraints s)"
    "mNbFrictionConstraints s \<le> length (mFrictionConstraints s)"
    by (simp_all add: constraintsInBounds_iff)
  from warmStart_effect[OF b] run have
    n: "mNbPenetrationConstraints s' = mNbPenetrationConstraints s"
      "length (mPenetrationConstraints s') = length (mPenetrationConstraints s)"
    and P: "\<forall>k < length (mPenetrationConstraints s).
              mPenetrationConstraints s' ! k =
                (if k < mNbPenetrationConstraints s \<and>
                    \<not> isRestingContact (mPenetrationConstraints s ! k)
                 then (mPenetrationConstraints s ! k)\<lparr>penetrationImpulse := 0\<rparr>
                 else mPenetrationConstraints s ! k)"
    by auto
  have b': "mNbPenetrationConstraints s' \<le> length (mPenetrationConstraints s')"
    using n b by simp
  show ?thesis
    unfolding splitImpulsesNonNegative_iff[OF b']
    using sp n b P by (auto simp: splitImpulsesNonNegative_iff)
qed

lemma resetTotalPenetrationImpulse_keeps_split:
  assumes cib: "constraintsInBounds s" and sp: "splitImpulsesNonNegative s"
    and run: "resetTotalPenetrationImpulse s = Inr s'"
  shows "splitImpulsesNonNegative s'"
proof -
  from cib have b: "mNbFrictionConstraints s \<le> length (mFrictionConstraints s)"
    by (simp add: constraintsInBounds_iff)
  from resetTotalPenetrationImpulse_effect[OF b] run have
    "mPenetrationConstraints s' = mPenetrationConstraints s"
    "mNbPenetrationConstraints s' = mNbPenetrationConstraints s"
    by auto
  with sp show ?thesis by (simp add: splitImpulsesNonNegative_def)
qed

lemma solveFrictionConstraints_keeps_split:
  assumes cib: "constraintsInBounds s" and sp: "splitImpulsesNonNegative s"
    and run: "solveFrictionConstraints env s = Inr s'"
  shows "splitImpulsesNonNegative s'"
proof -
  from cib have b: "mNbFrictionConstraints s \<le> length (mFrictionConstraints s)"
    by (simp add: constraintsInBounds_iff)
  from solveFrictionConstraints_effect[OF b, of env] run have
    "mPenetrationConstraints s' = mPenetrationConstraints s"
    "mNbPenetrationConstraints s' = mNbPenetrationConstraints s"
    by auto
  with sp show ?thesis by (simp add: splitImpulsesNonNegative_def)
qed

lemma solvePenetrationConstraints_after_split:
  assumes cib: "constraintsInBounds s" and sp: "splitImpulsesNonNegative s"
    and run: "solvePenetrationConstraints s = Inr s'"
  shows "impulsesNonNegative s'" and "splitImpulsesNonNegative s'"
proof -
  from cib have b: "mNbPenetrationConstraints s \<le> length (mPenetrationConstraints s)"
    by (simp add: constraintsInBounds_iff)
  from solvePenetrationConstraints_effect[OF cib] run have
    n: "mNbPenetrationConstraints s' = mNbPenetrationConstraints s"
      "length (mPenetrationConstraints s') = length (mPenetrationConstraints s)"
    and lam: "\<forall>k < mNbPenetrationConstraints s.
              0 \<le> penetrationImpulse (mPenetrationConstraints s' ! k)"
    and split: "\<forall>k < length (mPenetrationConstraints s).
              0 \<le> penetrationSplitImpulse (mPenetrationConstraints s ! k) \<longrightarrow>
              0 \<le> penetrationSplitImpulse (mPenetrationConstraints s' ! k)"
    by auto
  have b': "mNbPenetrationConstraints s' \<le> length (mPenetrationConstraints s')"
    using n b by simp
  show 2: "splitImpulsesNonNegative s'"
    unfolding splitImpulsesNonNegative_iff[OF b']
    using sp n b split by (auto simp: splitImpulsesNonNegative_iff)
  show "impulsesNonNegative s'"
    unfolding impulsesNonNegative_iff[OF b']
    using 2 lam n by (auto simp: splitImpulsesNonNegative_iff[OF b'])
qed

lemma runSweep_keeps_split:
  assumes cib: "constraintsInBounds s" and sp: "splitImpulsesNonNegative s"
  shows "\<exists>s'. runSweep env c s = Inr s' \<and> constraintsInBounds s' \<and>
           splitImpulsesNonNegative s'"
proof -
  from runSweep_keeps[OF cib, of env c] obtain s' where
    s': "runSweep env c s = Inr s'" "constraintsInBounds s'"
    by blast
  have "splitImpulsesNonNegative s'"
  proof (cases c)
    case WarmStart
    then show ?thesis using warmStart_keeps_split[OF cib sp] s'(1) by simp
  next
    case ResetTotalPenetrationImpulse
    then show ?thesis using resetTotalPenetrationImpulse_keeps_split[OF cib sp] s'(1) by simp
  next
    case SolvePenetrationConstraints
    then show ?thesis using solvePenetrationConstraints_after_split(2)[OF cib sp] s'(1) by simp
  next
    case SolveFrictionConstraints
    then show ?thesis using solveFrictionConstraints_keeps_split[OF cib sp] s'(1) by simp
  qed
  with s' show ?thesis by blast
qed

lemma runSweeps_keeps_split:
  assumes "constraintsInBounds s" and "splitImpulsesNonNegative s"
  shows "\<exists>s'. runSweeps env cs s = Inr s' \<and> constraintsInBounds s' \<and>
           splitImpulsesNonNegative s'"
  using assms
proof (induction cs arbitrary: s)
  case Nil
  then show ?case by simp
next
  case (Cons c cs)
  from runSweep_keeps_split[OF Cons.prems, of env c] obtain t where
    t: "runSweep env c s = Inr t" "constraintsInBounds t" "splitImpulsesNonNegative t"
    by blast
  from Cons.IH[OF t(2,3)] t(1) show ?case by simp
qed

lemma runSweeps_with_penetration_sweep:
  assumes cib: "constraintsInBounds s" and sp: "splitImpulsesNonNegative s"
  shows "\<exists>s'. runSweeps env (pre @ SolvePenetrationConstraints # post) s = Inr s' \<and>
           impulsesNonNegative s'"
proof -
  from runSweeps_keeps_split[OF cib sp, of env pre] obtain t where
    t: "runSweeps env pre s = Inr t" "constraintsInBounds t" "splitImpulsesNonNegative t"
    by blast
  from solvePenetrationConstraints_keeps[OF t(2)] obtain t1 where
    t1: "solvePenetrationConstraints t = Inr t1" "constraintsInBounds t1"
    by blast
  have nn: "impulsesNonNegative t1"
    by (rule solvePenetrationConstraints_after_split(1)[OF t(2,3) t1(1)])
  from runSweeps_keeps[OF t1(2), of env post] nn obtain s' where
    "runSweeps env post t1 = Inr s'" "impulsesNonNegative s'"
    by blast
  then show ?thesis using t(1) t1(1) by (simp add: runSweeps_append)
qed

section \<open>The impulses cached by storeImpulses\<close>

lemma storePenetrationImpulse_keeps:
  assumes nn: "cachedImpulsesNonNegative island"
    and lam: "i < length (mPenetrationConstraints s) \<Longrightarrow>
              0 \<le> penetrationImpulse (mPenetrationConstraints s ! i)"
  shows "case storePenetrationImpulse s i island of
           Inl e \<Rightarrow> True | Inr island' \<Rightarrow> cachedImpulsesNonNegative island'"
proof (cases "storePenetrationImpulse s i island")
  case (Inl e)
  then show ?thesis by simp
next
  case (Inr island')
  let ?c = "mPenetrationConstraints s ! i"
  let ?m = "fst (contactPoint ?c)" and ?k = "snd (contactPoint ?c)"
  let ?ms = "getContactManifolds island"
  from Inr have il: "i < length (mPenetrationConstraints s)"
    and m: "?m < length ?ms" and k: "?k < length (contactPoints (?ms ! ?m))"
    and eq: "island' = island\<lparr>getContactManifolds := ?ms
               [?m := (?ms ! ?m)\<lparr>contactPoints := (contactPoints (?ms ! ?m))
                  [?k := (contactPoints (?ms ! ?m) ! ?k)
                           \<lparr>getPenetrationImpulse := penetrationImpulse ?c\<rparr>]\<rparr>]\<rparr>"
    by (auto simp: storePenetrationImpulse_def Let_def split: if_splits)
  have "cachedImpulses island' =
          (cachedImpulses island)[?m := (cachedImpulses island ! ?m)
             [?k := penetrationImpulse ?c]]"
    using m k by (simp add: eq cachedImpulses_def map_update)
  then show ?thesis
    using nn lam[OF il] m k Inr
    by (auto simp: cachedImpulsesNonNegative_def list_all_length nth_list_update cachedImpulses_def)
qed

lemma storeFrictionImpulses_keeps:
  "case storeFrictionImpulses s i island of
     Inl e \<Rightarrow> True | Inr island' \<Rightarrow> cachedImpulses island' = cachedImpulses island"
proof (cases "storeFrictionImpulses s i island")
  case (Inl e)
  then show ?thesis by simp
next
  case (Inr island')
  let ?m = "contactManifold (mFrictionConstraints s ! i)"
  let ?ms = "getContactManifolds island"
  from Inr have m: "?m < length ?ms"
    by (auto simp: storeFrictionImpulses_def Let_def split: if_splits)
  have "map (\<lambda>m. map getPenetrationImpulse (contactPoints m)) (getContactManifolds island') =
        (map (\<lambda>m. map getPenetrationImpulse (contactPoints m)) ?ms)
          [?m := map getPenetrationImpulse (contactPoints (?ms ! ?m))]"
    using Inr m by (auto simp: storeFrictionImpulses_def Let_def map_update split: if_splits)
  then show ?thesis
    using Inr map_update_same[of "\<lambda>m. map getPenetrationImpulse (contactPoints m)" ?ms ?m]
    by (simp add: cachedImpulses_def)
qed

lemma storeImpulses_keeps_cached_impulses:
  assumes nn: "cachedImpulsesNonNegative island"
    and lam: "impulsesNonNegative s"
  shows "case storeImpulses s island of
           Inl e \<Rightarrow> True | Inr island' \<Rightarrow> cachedImpulsesNonNegative island'"
proof -
  have 1: "case forEach (storePenetrationImpulse s) [0..<mNbPenetrationConstraints s] island of
             Inl e \<Rightarrow> True | Inr island' \<Rightarrow> cachedImpulsesNonNegative island'"
  proof (rule forEach_rule[where I = "\<lambda>j isl. cachedImpulsesNonNegative isl"])
    fix j isl assume j: "j < mNbPenetrationConstraints s" and i: "cachedImpulsesNonNegative isl"
    have "0 \<le> penetrationImpulse (mPenetrationConstraints s ! j)"
      if "j < length (mPenetrationConstraints s)"
      using lam j that by (auto simp: impulsesNonNegative_def list_all_length)
    from storePenetrationImpulse_keeps[OF i this]
    show "case storePenetrationImpulse s j isl of
            Inl e \<Rightarrow> True | Inr island' \<Rightarrow> cachedImpulsesNonNegative island'" .
  qed (rule nn)
  show ?thesis
  proof (cases "forEach (storePenetrationImpulse s) [0..<mNbPenetrationConstraints s] island")
    case (Inl e)
    then show ?thesis by (simp add: storeImpulses_def)
  next
    case (Inr isl)
    with 1 have i: "cachedImpulsesNonNegative isl" by simp
    have "case forEach (storeFrictionImpulses s) [0..<mNbFrictionConstraints s] isl of
            Inl e \<Rightarrow> True | Inr island' \<Rightarrow> cachedImpulsesNonNegative island'"
    proof (rule forEach_rule[where I = "\<lambda>j isl. cachedImpulsesNonNegative isl"])
      fix j isl' assume i': "cachedImpulsesNonNegative isl'"
      from storeFrictionImpulses_keeps[where s = s and i = j and island = isl'] i'
      show "case storeFrictionImpulses s j isl' of
              Inl e \<Rightarrow> True | Inr island' \<Rightarrow> cachedImpulsesNonNegative island'"
        by (auto simp: cachedImpulsesNonNegative_def split: sum.splits)
    qed (rule i)
    then show ?thesis by (simp add: storeImpulses_def Inr)
  qed
qed

section \<open>The examples, evaluated\<close>

lemma initializeForIsland_boxOnBox:
  "\<exists>island'. initializeForIsland exampleEnv (1 / 60) boxOnBox exampleSolver =
                Inr (initializedSolver, island')"
proof -
  have "case initializeForIsland exampleEnv (1 / 60) boxOnBox exampleSolver of
          Inl e \<Rightarrow> False | Inr st \<Rightarrow> True"
    by (simp add: initialize_defs example_defs vector_defs Let_def cong: let_weak_cong)
  then obtain st where st: "initializeForIsland exampleEnv (1 / 60) boxOnBox exampleSolver = Inr st"
    by (auto split: sum.splits)
  have "st = (initializedSolver, snd st)" by (simp add: initializedSolver_def st)
  with st show ?thesis by metis
qed

lemma boxOnBox_facts:
  "length (getContactManifolds boxOnBox) = 1"
  "length (contactPoints (getContactManifolds boxOnBox ! 0)) = 1"
  "getContactManifolds boxOnBox = [exampleManifold]"
  "contactPoints exampleManifold = [examplePoint]"
  "getPenetrationImpulse examplePoint = 3"
  by (simp_all add: example_defs)

lemma initializeForIsland_crowded:
  "initializeForIsland exampleEnv (1 / 60) crowdedIsland exampleSolver = Inl OutOfBounds"
  by (simp add: crowdedIsland_def crowdedManifold_def initialize_defs example_defs vector_defs
      Let_def cong: let_weak_cong)

section \<open>The increment of the penetration impulse\<close>

text \<open>
  The sweep over the penetration constraints, cut at one of its turns: the turns before,
  the turn itself and the turns after.
\<close>

lemma forEach_append:
  "forEach body (xs @ ys) s =
     (case forEach body xs s of Inl e \<Rightarrow> Inl e | Inr t \<Rightarrow> forEach body ys t)"
  by (induction xs arbitrary: s) (auto split: sum.splits)

lemma forEach_from_total:
  assumes step: "\<And>j st. k \<le> j \<Longrightarrow> j < n \<Longrightarrow> I j st \<Longrightarrow>
                   \<exists>st'. body j st = Inr st' \<and> I (Suc j) st'"
    and init: "I k st" and le: "k \<le> n"
  shows "\<exists>st'. forEach body [k..<n] st = Inr st' \<and> I n st'"
proof -
  have "case forEach body [k..<n] st of Inl e \<Rightarrow> False | Inr st' \<Rightarrow> I n st'"
  proof (rule forEach_from_rule[where I = I and E = "\<lambda>e. False"])
    fix j st assume "k \<le> j" "j < n" "I j st"
    from step[OF this] show "case body j st of Inl e \<Rightarrow> False | Inr st' \<Rightarrow> I (Suc j) st'"
      by auto
  qed (rule init, rule le)
  then show ?thesis by (cases "forEach body [k..<n] st") auto
qed

lemma solvePenetrationConstraint_turn:
  assumes il: "i < length (mPenetrationConstraints s)"
    and fl: "indexFrictionConstraint (mPenetrationConstraints s ! i) < length (mFrictionConstraints s)"
  shows "\<exists>s'. solvePenetrationConstraint i s = Inr s' \<and>
           mNbPenetrationConstraints s' = mNbPenetrationConstraints s \<and>
           mNbFrictionConstraints s' = mNbFrictionConstraints s \<and>
           length (mPenetrationConstraints s') = length (mPenetrationConstraints s) \<and>
           length (mFrictionConstraints s') = length (mFrictionConstraints s) \<and>
           mIsSplitImpulseActive s' = mIsSplitImpulseActive s \<and>
           mTimeStep s' = mTimeStep s \<and>
           mLinearVelocities s' = mLinearVelocities s \<and>
           mAngularVelocities s' = mAngularVelocities s \<and>
           (\<forall>k < length (mPenetrationConstraints s). k \<noteq> i \<longrightarrow>
              mPenetrationConstraints s' ! k = mPenetrationConstraints s ! k) \<and>
           indexFrictionConstraint (mPenetrationConstraints s' ! i) =
             indexFrictionConstraint (mPenetrationConstraints s ! i) \<and>
           penetrationImpulse (mPenetrationConstraints s' ! i) =
             max (penetrationImpulse (mPenetrationConstraints s ! i) +
                  penetrationDeltaLambda s (mPenetrationConstraints s ! i)) 0"
  using il fl
  by (simp add: solvePenetrationConstraint_def Let_def solvePenetrationVelocity_P
      solvePenetrationVelocity_F solvePenetrationSplit_P)

lemma penetration_turns:
  assumes cib: "constraintsInBounds s"
    and ab: "a \<le> b" and bn: "b \<le> mNbPenetrationConstraints s"
  shows "\<exists>t. forEach solvePenetrationConstraint [a..<b] s = Inr t \<and>
           constraintsInBounds t \<and>
           mNbPenetrationConstraints t = mNbPenetrationConstraints s \<and>
           length (mPenetrationConstraints t) = length (mPenetrationConstraints s) \<and>
           mIsSplitImpulseActive t = mIsSplitImpulseActive s \<and>
           mTimeStep t = mTimeStep s \<and>
           mLinearVelocities t = mLinearVelocities s \<and>
           mAngularVelocities t = mAngularVelocities s \<and>
           (\<forall>k < length (mPenetrationConstraints s). k < a \<or> b \<le> k \<longrightarrow>
              mPenetrationConstraints t ! k = mPenetrationConstraints s ! k)"
proof -
  let ?P = "mPenetrationConstraints s" and ?F = "mFrictionConstraints s"
  let ?nP = "mNbPenetrationConstraints s" and ?nF = "mNbFrictionConstraints s"
  from cib have bP: "?nP \<le> length ?P" and bF: "?nF \<le> length ?F"
    and bI: "\<forall>k < ?nP. indexFrictionConstraint (?P ! k) < ?nF"
    by (simp_all add: constraintsInBounds_iff)
  define I where "I j t \<longleftrightarrow>
      mNbPenetrationConstraints t = ?nP \<and> mNbFrictionConstraints t = ?nF \<and>
      length (mPenetrationConstraints t) = length ?P \<and>
      length (mFrictionConstraints t) = length ?F \<and>
      mIsSplitImpulseActive t = mIsSplitImpulseActive s \<and>
      mTimeStep t = mTimeStep s \<and>
      mLinearVelocities t = mLinearVelocities s \<and>
      mAngularVelocities t = mAngularVelocities s \<and>
      (\<forall>k < length ?P. indexFrictionConstraint (mPenetrationConstraints t ! k) =
                          indexFrictionConstraint (?P ! k)) \<and>
      (\<forall>k < length ?P. k < a \<or> j \<le> k \<longrightarrow> mPenetrationConstraints t ! k = ?P ! k)"
    for j :: nat and t :: ContactSolver
  have "\<exists>t. forEach solvePenetrationConstraint [a..<b] s = Inr t \<and> I b t"
  proof (rule forEach_from_total[where I = I])
    show "I a s" by (simp add: I_def)
  next
    show "a \<le> b" by (rule ab)
  next
    fix j t assume aj: "a \<le> j" and j: "j < b" and inv: "I j t"
    let ?Q = "mPenetrationConstraints t" and ?G = "mFrictionConstraints t"
    have jP: "j < length ?P" using j bn bP by simp
    have lenQ: "length ?Q = length ?P" and lenG: "length ?G = length ?F"
      using inv by (simp_all add: I_def)
    have jl: "j < length ?Q" using jP lenQ by simp
    have "indexFrictionConstraint (?Q ! j) = indexFrictionConstraint (?P ! j)"
      using inv jP by (simp add: I_def)
    moreover have "indexFrictionConstraint (?P ! j) < ?nF" using bI j bn by simp
    ultimately have fl: "indexFrictionConstraint (?Q ! j) < length ?G"
      using bF lenG by simp
    from solvePenetrationConstraint_turn[OF jl fl] obtain t' where
      t': "solvePenetrationConstraint j t = Inr t'"
        "mNbPenetrationConstraints t' = mNbPenetrationConstraints t"
        "mNbFrictionConstraints t' = mNbFrictionConstraints t"
        "length (mPenetrationConstraints t') = length ?Q"
        "length (mFrictionConstraints t') = length ?G"
        "mIsSplitImpulseActive t' = mIsSplitImpulseActive t"
        "mTimeStep t' = mTimeStep t"
        "mLinearVelocities t' = mLinearVelocities t"
        "mAngularVelocities t' = mAngularVelocities t"
        "\<forall>k < length ?Q. k \<noteq> j \<longrightarrow> mPenetrationConstraints t' ! k = ?Q ! k"
        "indexFrictionConstraint (mPenetrationConstraints t' ! j) =
           indexFrictionConstraint (?Q ! j)"
      by blast
    have 1: "\<forall>k < length ?P. indexFrictionConstraint (mPenetrationConstraints t' ! k) =
                          indexFrictionConstraint (?P ! k)"
    proof (intro allI impI)
      fix k assume k: "k < length ?P"
      show "indexFrictionConstraint (mPenetrationConstraints t' ! k) =
              indexFrictionConstraint (?P ! k)"
      proof (cases "k = j")
        case True
        then show ?thesis using t'(11) inv k by (simp add: I_def)
      next
        case False
        then show ?thesis using t'(10) inv k lenQ by (simp add: I_def)
      qed
    qed
    have 2: "\<forall>k < length ?P. k < a \<or> Suc j \<le> k \<longrightarrow>
               mPenetrationConstraints t' ! k = ?P ! k"
    proof (intro allI impI)
      fix k assume k: "k < length ?P" and o: "k < a \<or> Suc j \<le> k"
      then have "k \<noteq> j" using aj by auto
      then have "mPenetrationConstraints t' ! k = ?Q ! k" using t'(10) k lenQ by simp
      moreover have "?Q ! k = ?P ! k" using inv k o by (auto simp: I_def)
      ultimately show "mPenetrationConstraints t' ! k = ?P ! k" by simp
    qed
    have "I (Suc j) t'"
      unfolding I_def using inv t'(2-9) 1 2 by (simp add: I_def)
    with t'(1) show "\<exists>t'. solvePenetrationConstraint j t = Inr t' \<and> I (Suc j) t'" by blast
  qed
  then obtain t where t: "forEach solvePenetrationConstraint [a..<b] s = Inr t" "I b t"
    by blast
  have "constraintsInBounds t"
    unfolding constraintsInBounds_iff using t(2) bP bF bI by (auto simp: I_def)
  then show ?thesis using t by (auto simp: I_def)
qed

lemma upt_split_at:
  "i < n \<Longrightarrow> [0..<n] = [0..<i] @ i # [Suc i..<n]"
proof -
  assume i: "i < n"
  then have "[0..<n] = [0..<i] @ [i..<n]"
    using upt_add_eq_append[of 0 i "n - i"] by simp
  then show ?thesis using i by (simp add: upt_conv_Cons)
qed

lemma initializedSolver_constraint:
  "r1 (mPenetrationConstraints initializedSolver ! 0) = Vector3 (1 / 2) (- 1) 0"
  "r2 (mPenetrationConstraints initializedSolver ! 0) = Vector3 (1 / 2) 1 0"
  "PenetrationConstraint.normal (mPenetrationConstraints initializedSolver ! 0) = Vector3 0 (- 1) 0"
  "restitutionBias (mPenetrationConstraints initializedSolver ! 0) = 0"
  "inversePenetrationMass (mPenetrationConstraints initializedSolver ! 0) = 1 / 2"
  "penetrationDepth (mPenetrationConstraints initializedSolver ! 0) = 1 / 50"
  "mTimeStep initializedSolver = 1 / 60"
  "velocityMemory initializedSolver 100 = Vector3 (- 1) (- 1) 0"
  "velocityMemory initializedSolver 101 = Vector3 0 0 0"
  "velocityMemory initializedSolver 200 = Vector3 0 0 0"
  "velocityMemory initializedSolver 201 = Vector3 0 0 0"
  by (simp_all add: initializedSolver_def initialize_defs example_defs vector_defs Let_def
      cong: let_weak_cong)

text \<open>
  Claim C6: in \<open>solvePenetrationConstraints\<close> the increment of the Lagrange multiplier is
  \<open>-(Jv + restitutionBias) * effMassInv\<close> when the split impulse is enabled, with no
  positional bias, and \<open>-(Jv + b_pen + restitutionBias) * effMassInv\<close> when it is disabled,
  where \<open>b_pen = -(0.2 / dt) * max(0, depth - SLOP)\<close> if \<open>depth > SLOP\<close> and \<open>0\<close> otherwise.
  The statement is about the whole sweep, for every constraint \<open>i\<close> in use. The sweep
  returns. When it reaches constraint \<open>i\<close> the solver is in the state \<open>si\<close> that the
  turns before \<open>i\<close> leave, and \<open>Jv\<close> is \<open>(v2 + w2 \<times> r2 - v1 - w1 \<times> r1) \<cdot> n\<close> for the
  velocities of the two bodies in \<open>si\<close>. The increment has the two stated forms, it is
  the specification's (\<open>spec_deltaLambda\<close>), and the accumulated impulse of constraint
  \<open>i\<close> at the end of the sweep is the maximum of \<open>0\<close> and its impulse before the sweep
  plus that increment.
\<close>

theorem penetration_increment_as_specified:
  assumes "constraintsInBounds s" and "i < mNbPenetrationConstraints s"
  shows "\<exists>si s'.
     forEach solvePenetrationConstraint [0..<i] s = Inr si \<and>
     solvePenetrationConstraints s = Inr s' \<and>
     (let c = mPenetrationConstraints s ! i;
          v1 = velocityMemory si (mLinearVelocities s + PenetrationConstraint.indexBody1 c);
          w1 = velocityMemory si (mAngularVelocities s + PenetrationConstraint.indexBody1 c);
          v2 = velocityMemory si (mLinearVelocities s + PenetrationConstraint.indexBody2 c);
          w2 = velocityMemory si (mAngularVelocities s + PenetrationConstraint.indexBody2 c);
          Jv = dot (v2 + cross w2 (r2 c) - v1 - cross w1 (r1 c)) (PenetrationConstraint.normal c);
          b_pen = (if penetrationDepth c > 1 / 100
                   then - ((2 / 10) / mTimeStep s) * max 0 (penetrationDepth c - 1 / 100)
                   else 0);
          increment = (if mIsSplitImpulseActive s
                       then - (Jv + restitutionBias c) * inversePenetrationMass c
                       else - (Jv + b_pen + restitutionBias c) * inversePenetrationMass c)
      in increment =
           spec_deltaLambda (mIsSplitImpulseActive s) (mTimeStep s) Jv (penetrationDepth c)
             (restitutionBias c) (inversePenetrationMass c) \<and>
         penetrationImpulse (mPenetrationConstraints s' ! i) =
           max (penetrationImpulse c + increment) 0)"
proof -
  let ?nP = "mNbPenetrationConstraints s" and ?P = "mPenetrationConstraints s"
  note cib = assms(1) and i = assms(2)
  from cib have bP: "?nP \<le> length ?P" by (simp add: constraintsInBounds_iff)
  have iP: "i < length ?P" using i bP by simp
  from penetration_turns[OF cib, of 0 i] i obtain si where
    si: "forEach solvePenetrationConstraint [0..<i] s = Inr si"
      "constraintsInBounds si"
      "mNbPenetrationConstraints si = ?nP"
      "length (mPenetrationConstraints si) = length ?P"
      "mIsSplitImpulseActive si = mIsSplitImpulseActive s"
      "mTimeStep si = mTimeStep s"
      "mLinearVelocities si = mLinearVelocities s"
      "mAngularVelocities si = mAngularVelocities s"
    and keep: "\<forall>k < length ?P. k < 0 \<or> i \<le> k \<longrightarrow> mPenetrationConstraints si ! k = ?P ! k"
    by auto
  have ci: "mPenetrationConstraints si ! i = ?P ! i" using keep iP by simp
  let ?Q = "mPenetrationConstraints si"
  from si(2) have bQ: "mNbPenetrationConstraints si \<le> length ?Q"
    "mNbFrictionConstraints si \<le> length (mFrictionConstraints si)"
    and bI: "\<forall>k < mNbPenetrationConstraints si.
               indexFrictionConstraint (?Q ! k) < mNbFrictionConstraints si"
    by (simp_all add: constraintsInBounds_iff)
  have iQ: "i < length ?Q" using iP si(4) by simp
  have fl: "indexFrictionConstraint (?Q ! i) < length (mFrictionConstraints si)"
    using bI bQ(2) i si(3) by (auto intro: less_le_trans)
  from solvePenetrationConstraint_turn[OF iQ fl] obtain si' where
    si': "solvePenetrationConstraint i si = Inr si'"
      "mNbPenetrationConstraints si' = mNbPenetrationConstraints si"
      "mNbFrictionConstraints si' = mNbFrictionConstraints si"
      "length (mPenetrationConstraints si') = length ?Q"
      "length (mFrictionConstraints si') = length (mFrictionConstraints si)"
    and others: "\<forall>k < length ?Q. k \<noteq> i \<longrightarrow> mPenetrationConstraints si' ! k = ?Q ! k"
    and ix: "indexFrictionConstraint (mPenetrationConstraints si' ! i) =
               indexFrictionConstraint (?Q ! i)"
    and lam: "penetrationImpulse (mPenetrationConstraints si' ! i) =
                max (penetrationImpulse (?Q ! i) + penetrationDeltaLambda si (?Q ! i)) 0"
    by blast
  have "indexFrictionConstraint (mPenetrationConstraints si' ! k) <
          mNbFrictionConstraints si'" if k: "k < mNbPenetrationConstraints si'" for k
  proof (cases "k = i")
    case True
    then show ?thesis using ix bI i si(3) si'(3) by simp
  next
    case False
    then have "mPenetrationConstraints si' ! k = ?Q ! k"
      using others k si'(2) bQ(1) by simp
    then show ?thesis using bI k si'(2,3) by simp
  qed
  then have cib': "constraintsInBounds si'"
    unfolding constraintsInBounds_iff using si'(2-5) bQ by simp
  have le: "Suc i \<le> mNbPenetrationConstraints si'" using i si(3) si'(2) by simp
  from penetration_turns[OF cib' le] obtain s' where
    s': "forEach solvePenetrationConstraint [Suc i..<mNbPenetrationConstraints si'] si' = Inr s'"
    and keep': "\<forall>k < length (mPenetrationConstraints si').
                  k < Suc i \<or> mNbPenetrationConstraints si' \<le> k \<longrightarrow>
                  mPenetrationConstraints s' ! k = mPenetrationConstraints si' ! k"
    by auto
  have last: "mPenetrationConstraints s' ! i = mPenetrationConstraints si' ! i"
    using keep' iQ si'(4) by simp
  have n': "mNbPenetrationConstraints si' = ?nP" using si'(2) si(3) by simp
  have sweep: "solvePenetrationConstraints s = Inr s'"
    unfolding solvePenetrationConstraints_def upt_split_at[OF i]
    using si(1) si'(1) s' by (simp add: forEach_append n')
  have delta: "penetrationDeltaLambda si (?P ! i) =
      spec_deltaLambda (mIsSplitImpulseActive s) (mTimeStep s) (penetrationJv si (?P ! i))
        (penetrationDepth (?P ! i)) (restitutionBias (?P ! i)) (inversePenetrationMass (?P ! i))"
    by (simp add: penetrationDeltaLambda_def spec_deltaLambda_def biasPenetrationDepth_def
        BETA_def BETA_SPLIT_IMPULSE_def SLOP_def Let_def si(5,6) algebra_simps)
  have "penetrationImpulse (mPenetrationConstraints s' ! i) =
          max (penetrationImpulse (?P ! i) +
               spec_deltaLambda (mIsSplitImpulseActive s) (mTimeStep s)
                 (penetrationJv si (?P ! i)) (penetrationDepth (?P ! i))
                 (restitutionBias (?P ! i)) (inversePenetrationMass (?P ! i))) 0"
    using lam by (simp add: last ci delta)
  then show ?thesis
    using si(1) sweep
    by (intro exI[of _ si] exI[of _ s'])
       (simp add: Let_def penetrationJv_def si(7,8) spec_deltaLambda_def)
qed

theorem penetration_increment_as_specified_witness:
  "constraintsInBounds initializedSolver \<and>
   mNbPenetrationConstraints initializedSolver = 1 \<and>
   mIsSplitImpulseActive initializedSolver \<and>
   penetrationImpulse (mPenetrationConstraints initializedSolver ! 0) = 3 \<and>
   (\<exists>s'. solvePenetrationConstraints initializedSolver = Inr s' \<and>
      penetrationImpulse (mPenetrationConstraints s' ! 0) = 7 / 2) \<and>
   (\<exists>s'. solvePenetrationConstraints (initializedSolver\<lparr>mIsSplitImpulseActive := False\<rparr>) =
           Inr s' \<and>
      penetrationImpulse (mPenetrationConstraints s' ! 0) = 89 / 25)"
proof -
  have b: "constraintsInBounds initializedSolver"
    "constraintsInBounds (initializedSolver\<lparr>mIsSplitImpulseActive := False\<rparr>)"
    by (simp_all add: constraintsInBounds_iff initializedSolver_facts)
  have n: "0 < mNbPenetrationConstraints initializedSolver"
    "0 < mNbPenetrationConstraints (initializedSolver\<lparr>mIsSplitImpulseActive := False\<rparr>)"
    by (simp_all add: initializedSolver_facts)
  show ?thesis
    using penetration_increment_as_specified[OF b(1) n(1)]
          penetration_increment_as_specified[OF b(2) n(2)] b(1)
    by (auto simp: initializedSolver_facts initializedSolver_constraint vector_defs Let_def)
qed

section \<open>The friction limit\<close>



section \<open>The sign of the accumulated penetration impulses\<close>

text \<open>
  Under warm starting \<open>initializeForIsland\<close> takes the accumulated impulse of a penetration
  constraint from the contact point, as it is cached there (source lines 224 to 228).
  For the two boxes with \<open>-3\<close> cached on their contact point, \<open>initializeForIsland\<close>
  returns and the accumulated impulse of the constraint is \<open>-3\<close>: after
  \<open>initializeForIsland\<close> the impulse is negative.
\<close>

theorem initializeForIsland_copies_negative_cached_impulse:
  "mIsWarmStartingActive exampleSolver \<and>
   getPenetrationImpulse
     (contactPoints (getContactManifolds islandWithNegativeCache ! 0) ! 0) = - 3 \<and>
   \<not> isl (initializeForIsland exampleEnv (1 / 60) islandWithNegativeCache exampleSolver) \<and>
   mNbPenetrationConstraints
     (fst (projr (initializeForIsland exampleEnv (1 / 60) islandWithNegativeCache
                    exampleSolver))) = 1 \<and>
   penetrationImpulse
     (mPenetrationConstraints
        (fst (projr (initializeForIsland exampleEnv (1 / 60) islandWithNegativeCache
                       exampleSolver))) ! 0) = - 3 \<and>
   \<not> impulsesNonNegative
     (fst (projr (initializeForIsland exampleEnv (1 / 60) islandWithNegativeCache
                    exampleSolver)))"
proof -
  let ?s0 = "fst (projr (initializeForIsland exampleEnv (1 / 60) islandWithNegativeCache
                           exampleSolver))"
  have f: "mIsWarmStartingActive exampleSolver"
    "getPenetrationImpulse
       (contactPoints (getContactManifolds islandWithNegativeCache ! 0) ! 0) = - 3"
    "\<not> isl (initializeForIsland exampleEnv (1 / 60) islandWithNegativeCache exampleSolver)"
    "mNbPenetrationConstraints ?s0 = 1"
    "length (mPenetrationConstraints ?s0) = 4"
    "penetrationImpulse (mPenetrationConstraints ?s0 ! 0) = - 3"
    by (simp_all add: islandWithNegativeCache_def pointWithNegativeCache_def
        initialize_defs example_defs vector_defs Let_def cong: let_weak_cong)
  have "\<not> impulsesNonNegative ?s0"
    using f(4-6) by (simp add: impulsesNonNegative_iff)
  with f show ?thesis by simp
qed

text \<open>
  Claim C5, amended: after \<open>initializeForIsland\<close> the accumulated split impulse of every
  penetration constraint in use is \<open>0\<close>, and the accumulated impulse is not negative when
  warm starting is disabled or the impulses cached on the contact points of the island are
  not negative; then both stay non-negative through every sequence of sweeps. Whatever the
  cached impulses are, once a sequence of sweeps contains \<open>solvePenetrationConstraints\<close>
  it returns with both impulses of every constraint in use non-negative: the projection
  of that sweep takes the maximum with \<open>0\<close>. \<open>storeImpulses\<close> caches impulses that are
  not negative when the solver's are (\<open>storeImpulses_keeps_cached_impulses\<close>).
\<close>

theorem accumulated_impulses_non_negative:
  assumes "initializeForIsland env dt island s = Inr (s0, island0)"
  shows "(\<forall>k < mNbPenetrationConstraints s0.
            penetrationSplitImpulse (mPenetrationConstraints s0 ! k) = 0) \<and>
         (\<not> mIsWarmStartingActive s \<or> cachedImpulsesNonNegative island \<longrightarrow>
            impulsesNonNegative s0 \<and>
            (\<forall>calls. \<exists>s'. runSweeps env calls s0 = Inr s' \<and> impulsesNonNegative s')) \<and>
         (\<forall>pre post. \<exists>s'.
            runSweeps env (pre @ SolvePenetrationConstraints # post) s0 = Inr s' \<and>
            impulsesNonNegative s')"
proof -
  note r = initializeForIsland_result[OF assms]
  have 1: "\<forall>k < mNbPenetrationConstraints s0.
            penetrationSplitImpulse (mPenetrationConstraints s0 ! k) = 0"
    by (rule r(7))
  have 2: "impulsesNonNegative s0 \<and>
           (\<forall>calls. \<exists>s'. runSweeps env calls s0 = Inr s' \<and> impulsesNonNegative s')"
    if "\<not> mIsWarmStartingActive s \<or> cachedImpulsesNonNegative island"
  proof -
    have 0: "impulsesNonNegative s0" using that r(2) r(5) by blast
    moreover have "\<exists>s'. runSweeps env calls s0 = Inr s' \<and> impulsesNonNegative s'" for calls
      using runSweeps_keeps[OF r(1), of env calls] 0 by blast
    ultimately show ?thesis by blast
  qed
  have 3: "\<exists>s'. runSweeps env (pre @ SolvePenetrationConstraints # post) s0 = Inr s' \<and>
             impulsesNonNegative s'" for pre post
    by (rule runSweeps_with_penetration_sweep[OF r(1) r(6)])
  from 1 2 3 show ?thesis by blast
qed

theorem accumulated_impulses_non_negative_witness:
  "(\<exists>island'. initializeForIsland exampleEnv (1 / 60) boxOnBox exampleSolver =
                 Inr (initializedSolver, island')) \<and>
   cachedImpulses boxOnBox = [[3]] \<and>
   penetrationSplitImpulse (mPenetrationConstraints initializedSolver ! 0) = 0 \<and>
   impulsesNonNegative initializedSolver \<and>
   (\<exists>s'. runSweeps exampleEnv [WarmStart] initializedSolver = Inr s' \<and>
      impulsesNonNegative s') \<and>
   \<not> isl (initializeForIsland exampleEnv (1 / 60) islandWithNegativeCache exampleSolver) \<and>
   penetrationImpulse
     (mPenetrationConstraints
        (fst (projr (initializeForIsland exampleEnv (1 / 60) islandWithNegativeCache
                       exampleSolver))) ! 0) = - 3 \<and>
   (\<exists>s'. runSweeps exampleEnv oneIteration
            (fst (projr (initializeForIsland exampleEnv (1 / 60) islandWithNegativeCache
                           exampleSolver))) = Inr s' \<and>
      impulsesNonNegative s')"
proof -
  let ?r = "initializeForIsland exampleEnv (1 / 60) islandWithNegativeCache exampleSolver"
  have c: "cachedImpulses boxOnBox = [[3]]"
    by (simp add: cachedImpulses_def boxOnBox_facts)
  then have nn: "cachedImpulsesNonNegative boxOnBox"
    by (simp add: cachedImpulsesNonNegative_def)
  from initializeForIsland_boxOnBox obtain island' where
    i: "initializeForIsland exampleEnv (1 / 60) boxOnBox exampleSolver =
          Inr (initializedSolver, island')"
    by blast
  have r: "\<not> isl ?r"
    "penetrationImpulse (mPenetrationConstraints (fst (projr ?r)) ! 0) = - 3"
    by (simp_all add: islandWithNegativeCache_def pointWithNegativeCache_def
        initialize_defs example_defs vector_defs Let_def cong: let_weak_cong)
  then have r': "?r = Inr (fst (projr ?r), snd (projr ?r))" by simp
  have o: "oneIteration =
             [WarmStart, ResetTotalPenetrationImpulse] @
             SolvePenetrationConstraints # [SolveFrictionConstraints]"
    by (simp add: oneIteration_def)
  have e1: "\<exists>island'. initializeForIsland exampleEnv (1 / 60) boxOnBox exampleSolver =
                         Inr (initializedSolver, island')"
    using i by blast
  have e3: "penetrationSplitImpulse (mPenetrationConstraints initializedSolver ! 0) = 0"
    by (simp add: initializedSolver_facts)
  from accumulated_impulses_non_negative[OF i] nn
  have a1: "impulsesNonNegative initializedSolver"
    and a2: "\<exists>s'. runSweeps exampleEnv [WarmStart] initializedSolver = Inr s' \<and>
                  impulsesNonNegative s'"
    by blast+
  from accumulated_impulses_non_negative[OF r']
  have a3: "\<exists>s'. runSweeps exampleEnv
                   ([WarmStart, ResetTotalPenetrationImpulse] @
                    SolvePenetrationConstraints # [SolveFrictionConstraints])
                   (fst (projr ?r)) = Inr s' \<and>
                 impulsesNonNegative s'"
    by blast
  show ?thesis
    unfolding o by (intro conjI; fact)
qed

section \<open>The bounds of the penetration-constraint array\<close>

text \<open>
  The number of slots allocated is the product \<open>mNbContactManifolds * 4\<close> of the source,
  computed in 32 bits. When it wraps to \<open>0\<close> no slot is allocated, and the first
  penetration constraint of the first manifold is written outside the array.
\<close>

lemma forEach_first_fails:
  "0 < n \<Longrightarrow> body 0 s = Inl e \<Longrightarrow> forEach body [0..<n] s = Inl e"
  by (simp add: upt_conv_Cons)

lemma initializeForIsland_wrapped_allocation:
  assumes bodies: "getNbBodies island > 0"
    and split: "mSplitLinearVelocities s \<noteq> 0" "mSplitAngularVelocities s \<noteq> 0"
    and n: "0 < length (getContactManifolds island)"
    and wrap: "uint_times (length (getContactManifolds island)) 4 = 0"
    and pts: "0 < length (contactPoints (getContactManifolds island ! 0))"
    and ptrs: "getBody1 (contactPoints (getContactManifolds island ! 0) ! 0) \<noteq> 0"
      "getBody2 (contactPoints (getContactManifolds island ! 0) ! 0) \<noteq> 0"
    and i1: "mMapBodyToConstrainedVelocityIndex s
               (getBody1 (contactPoints (getContactManifolds island ! 0) ! 0)) = Some i1"
    and i2: "mMapBodyToConstrainedVelocityIndex s
               (getBody2 (contactPoints (getContactManifolds island ! 0) ! 0)) = Some i2"
    and b1: "rigidBodies island
               (getBody1 (contactPoints (getContactManifolds island ! 0) ! 0)) = Some b1"
    and b2: "rigidBodies island
               (getBody2 (contactPoints (getContactManifolds island ! 0) ! 0)) = Some b2"
  shows "initializeForIsland env dt island s = Inl OutOfBounds"
proof -
  let ?n = "length (getContactManifolds island)"
  let ?s1 = "s\<lparr>mTimeStep := dt,
                 mNbContactManifolds := ?n,
                 mNbFrictionConstraints := 0,
                 mNbPenetrationConstraints := 0,
                 mContactConstraints := map (newContactManifoldSolver env) [0..<?n],
                 mPenetrationConstraints := [],
                 mFrictionConstraints := map (newFrictionConstraint env) [0..<?n]\<rparr>"
  let ?s0 = "beginFrictionConstraint env b1 b2 i1 i2 0 ?s1"
  let ?e = "computeMixedRestitutionFactor env b1 b2"
  have eq: "initializeForIsland env dt island s =
              forEach (initializeManifold env) [0..<?n] (?s1, island)"
    using bodies split n by (simp add: initializeForIsland_def Let_def wrap)
  have point: "initializeContactPoint env b1 b2 i1 i2 ?e 0 0 (?s0, island) = Inl OutOfBounds"
    by (simp add: initializeContactPoint_def Let_def)
  have loop: "forEach (initializeContactPoint env b1 b2 i1 i2 ?e 0)
                [0..<length (contactPoints (getContactManifolds island ! 0))] (?s0, island) =
              Inl OutOfBounds"
    by (rule forEach_first_fails[where body = "initializeContactPoint env b1 b2 i1 i2 ?e 0",
          OF pts point])
  have "initializeManifold env 0 (?s1, island) = Inl OutOfBounds"
    using pts ptrs i1 i2 b1 b2 n loop by (simp add: initializeManifold_def Let_def)
  then show ?thesis
    unfolding eq by (rule forEach_first_fails[where body = "initializeManifold env", OF n])
qed

text \<open>
  For an island of \<open>2 ^ 30\<close> manifolds with one contact point each the product is
  \<open>2 ^ 32\<close>, which wraps to \<open>0\<close>: every manifold has at most four contact points, and
  \<open>initializeForIsland\<close> writes outside the array.
\<close>

theorem initializeForIsland_allocation_wraps:
  "length (getContactManifolds hugeIsland) = 2 ^ 30 \<and>
   set (getContactManifolds hugeIsland) = {exampleManifold} \<and>
   length (contactPoints exampleManifold) = 1 \<and>
   uint_times (length (getContactManifolds hugeIsland)) 4 = 0 \<and>
   initializeForIsland exampleEnv (1 / 60) hugeIsland exampleSolver = Inl OutOfBounds"
proof -
  let ?p = "contactPoints (getContactManifolds hugeIsland ! 0) ! 0"
  have f: "length (getContactManifolds hugeIsland) = 2 ^ 30"
    "set (getContactManifolds hugeIsland) = {exampleManifold}"
    "length (contactPoints exampleManifold) = 1"
    by (simp_all add: hugeIsland_def boxOnBox_def exampleManifold_def)
  have w: "uint_times (length (getContactManifolds hugeIsland)) 4 = 0"
    by (simp add: f(1) uint_times_def)
  have g: "getNbBodies hugeIsland > 0"
    "mSplitLinearVelocities exampleSolver \<noteq> 0"
    "mSplitAngularVelocities exampleSolver \<noteq> 0"
    "0 < length (getContactManifolds hugeIsland)"
    "0 < length (contactPoints (getContactManifolds hugeIsland ! 0))"
    "getBody1 ?p \<noteq> 0" "getBody2 ?p \<noteq> 0"
    "mMapBodyToConstrainedVelocityIndex exampleSolver (getBody1 ?p) = Some 0"
    "mMapBodyToConstrainedVelocityIndex exampleSolver (getBody2 ?p) = Some 1"
    "rigidBodies hugeIsland (getBody1 ?p) = Some boxBody"
    "rigidBodies hugeIsland (getBody2 ?p) = Some lowerBoxBody"
    by (simp_all add: hugeIsland_def boxOnBox_def exampleManifold_def examplePoint_def
        exampleSolver_def)
  have "initializeForIsland exampleEnv (1 / 60) hugeIsland exampleSolver = Inl OutOfBounds"
    by (rule initializeForIsland_wrapped_allocation[OF g(1-4) w g(5-11)])
  with f w show ?thesis by simp
qed

text \<open>
  Claim C10, amended: \<open>initializeForIsland\<close> allocates four penetration-constraint slots
  for each contact manifold and appends one penetration constraint for each contact point,
  for an island with fewer than \<open>2 ^ 30\<close> manifolds (so that four times their number is
  below \<open>2 ^ 32\<close>). For such an island whose manifolds have at most four contact points
  each, no access of \<open>initializeForIsland\<close> is outside the arrays; when it returns, the
  array has four slots for each manifold, the number of constraints in use is the number
  of contact points and is at most the size of the array, and every sequence of sweeps
  that follows returns, with no access outside the arrays, and leaves the counts and the
  sizes as they are. With five contact points on a manifold the fifth constraint is
  written outside the array (\<open>initializeForIsland_crowded\<close>).
\<close>

theorem penetration_constraints_within_bounds:
  assumes "length (getContactManifolds island) < 2 ^ 30"
    and "\<forall>m \<in> set (getContactManifolds island). length (contactPoints m) \<le> 4"
  shows "initializeForIsland env dt island s \<noteq> Inl OutOfBounds \<and>
         (\<forall>s0 island0. initializeForIsland env dt island s = Inr (s0, island0) \<longrightarrow>
            length (mPenetrationConstraints s0) = 4 * length (getContactManifolds island) \<and>
            mNbPenetrationConstraints s0 =
              sum_list (map (\<lambda>m. length (contactPoints m)) (getContactManifolds island)) \<and>
            mNbPenetrationConstraints s0 \<le> length (mPenetrationConstraints s0) \<and>
            (\<forall>calls. \<exists>s'. runSweeps env calls s0 = Inr s' \<and> sameLayout s0 s'))"
proof -
  have 1: "initializeForIsland env dt island s \<noteq> Inl OutOfBounds"
    using initializeForIsland_effect[where env = env and dt = dt and island = island and s = s]
      assms
    by (auto split: sum.splits)
  have 2: "length (mPenetrationConstraints s0) = 4 * length (getContactManifolds island) \<and>
            mNbPenetrationConstraints s0 =
              sum_list (map (\<lambda>m. length (contactPoints m)) (getContactManifolds island)) \<and>
            mNbPenetrationConstraints s0 \<le> length (mPenetrationConstraints s0) \<and>
            (\<forall>calls. \<exists>s'. runSweeps env calls s0 = Inr s' \<and> sameLayout s0 s')"
    if i: "initializeForIsland env dt island s = Inr (s0, island0)" for s0 island0
  proof -
    note r = initializeForIsland_result[OF i]
    have "uint_times (length (getContactManifolds island)) 4 =
            4 * length (getContactManifolds island)"
      using assms(1) by (simp add: uint_times_def)
    moreover have "\<exists>s'. runSweeps env calls s0 = Inr s' \<and> sameLayout s0 s'" for calls
      using runSweeps_keeps[OF r(1), of env calls] by blast
    ultimately show ?thesis
      using r(1,3,4) by (simp add: constraintsInBounds_iff)
  qed
  from 1 2 show ?thesis by blast
qed

theorem penetration_constraints_within_bounds_witness:
  "length (getContactManifolds boxOnBox) = 1 \<and>
   length (contactPoints (getContactManifolds boxOnBox ! 0)) = 1 \<and>
   (\<exists>island'. initializeForIsland exampleEnv (1 / 60) boxOnBox exampleSolver =
                 Inr (initializedSolver, island')) \<and>
   length (mPenetrationConstraints initializedSolver) = 4 \<and>
   mNbPenetrationConstraints initializedSolver = 1 \<and>
   (\<exists>s'. runSweeps exampleEnv oneIteration initializedSolver = Inr s' \<and>
      mNbPenetrationConstraints s' = 1 \<and> length (mPenetrationConstraints s') = 4)"
proof -
  from initializeForIsland_boxOnBox obtain island' where
    i: "initializeForIsland exampleEnv (1 / 60) boxOnBox exampleSolver =
          Inr (initializedSolver, island')"
    by blast
  have h: "length (getContactManifolds boxOnBox) < 2 ^ 30"
    "\<forall>m \<in> set (getContactManifolds boxOnBox). length (contactPoints m) \<le> 4"
    by (simp_all add: boxOnBox_facts)
  show ?thesis
    using penetration_constraints_within_bounds[OF h, of exampleEnv "1 / 60" exampleSolver] i
    by (auto simp: boxOnBox_facts initializedSolver_facts sameLayout_def)
qed

end
